(* ===== verification/Prelude.thy ===== *)
theory Prelude
  imports Main "HOL-Library.Word"
begin

text \<open>
  Shared vocabulary of the development: Go's byte and string types, the
  conversion \<open>[]byte(s)\<close>, \<open>os.Getenv\<close> over an explicit environment, Go's
  slice indexing with its run-time panic, and the lemma collections the
  component theories use.  A Go \<open>string\<close> is a byte sequence; it is modelled as
  HOL's \<^typ>\<open>string\<close> (a list of 8-bit \<^typ>\<open>char\<close>s), and a Go \<open>[]byte\<close> as a
  list of \<^typ>\<open>8 word\<close>.
\<close>

unbundle bit_operations_syntax

named_theorems go_defs \<open>definitions of the Go standard-library models\<close>
named_theorems ctx_simps \<open>field equations of the request-context operations\<close>

type_synonym byte = "8 word"

text \<open>The process environment read by \<open>os.Getenv\<close>.\<close>
type_synonym env = "string \<rightharpoonup> string"

text \<open>A Go run-time panic, carried with its message.\<close>
type_synonym go_panic = string

subsection \<open>Strings and bytes\<close>

text \<open>\<open>[]byte(s)\<close>: the bytes of a Go string.\<close>
definition bytes_of :: "string \<Rightarrow> byte list" where
  "bytes_of s = map (\<lambda>c. word_of_nat (of_char c)) s"

text \<open>\<open>os.Getenv(k)\<close>: the value of \<open>k\<close>, or the empty string when it is unset.\<close>
definition os_Getenv :: "env \<Rightarrow> string \<Rightarrow> string" where
  "os_Getenv e k = (case e k of None \<Rightarrow> [] | Some v \<Rightarrow> v)"

text \<open>\<open>xs[i]\<close> on a Go slice: a run-time panic when \<open>i\<close> is out of range.\<close>
definition go_index :: "'a list \<Rightarrow> nat \<Rightarrow> go_panic + 'a" where
  "go_index xs i =
     (if i < length xs then Inr (xs ! i)
      else Inl ''runtime error: index out of range'')"

declare os_Getenv_def [go_defs] go_index_def [go_defs]

subsection \<open>Generic lemmas\<close>

lemma unat_byte_of_char [simp]: "unat (word_of_nat (of_char c) :: byte) = of_char c"
  by (simp add: unat_of_nat)

lemma byte_of_char_inj [simp]:
  "((word_of_nat (of_char c) :: byte) = word_of_nat (of_char d)) \<longleftrightarrow> c = d"
  by (metis unat_byte_of_char of_char_eq_iff)

lemma bytes_of_Nil [simp]: "bytes_of [] = []"
  by (simp add: bytes_of_def)

lemma bytes_of_Cons [simp]: "bytes_of (c # s) = word_of_nat (of_char c) # bytes_of s"
  by (simp add: bytes_of_def)

lemma bytes_of_append [simp]: "bytes_of (s @ t) = bytes_of s @ bytes_of t"
  by (simp add: bytes_of_def)

lemma length_bytes_of [simp]: "length (bytes_of s) = length s"
  by (simp add: bytes_of_def)

lemma bytes_of_eq_iff [simp]: "bytes_of s = bytes_of t \<longleftrightarrow> s = t"
proof
  assume "bytes_of s = bytes_of t"
  then show "s = t"
  proof (induction s arbitrary: t)
    case Nil
    then show ?case by (cases t) simp_all
  next
    case (Cons c s)
    then show ?case by (cases t) simp_all
  qed
qed simp

lemma go_index_0_Cons [simp]: "go_index (x # xs) 0 = Inr x"
  by (simp add: go_index_def)

lemma go_index_ok: "i < length xs \<Longrightarrow> go_index xs i = Inr (xs ! i)"
  by (simp add: go_index_def)

lemma os_Getenv_Some [simp]: "e k = Some v \<Longrightarrow> os_Getenv e k = v"
  by (simp add: os_Getenv_def)

lemma os_Getenv_None [simp]: "e k = None \<Longrightarrow> os_Getenv e k = []"
  by (simp add: os_Getenv_def)

text \<open>Words: a byte is below 256; \<open>XOR\<close> is zero exactly on equal words.\<close>

lemma unat_byte_less: "unat (v :: byte) < 256"
  using unsigned_less [of v, where ?'a = nat] by simp

lemma xor_eq_0_iff [simp]: "(a :: 'a::len word) XOR b = 0 \<longleftrightarrow> a = b"
  by (auto simp: bit_eq_iff bit_xor_iff)

lemma unat_ucast_byte_32 [simp]: "unat (ucast (b :: byte) :: 32 word) = unat b"
  using unat_byte_less [of b] by (simp add: unsigned_ucast_eq take_bit_nat_eq_self)

text \<open>Changing one position of a list to a different value changes the list.\<close>

lemma list_update_differs:
  "i < length xs \<Longrightarrow> v \<noteq> xs ! i \<Longrightarrow> xs[i := v] \<noteq> xs"
  by (metis nth_list_update_eq)

text \<open>Flipping a bit of a byte changes the byte.\<close>

lemma flip_bit_byte_differs:
  assumes "n < 8"
  shows "flip_bit n (b :: byte) \<noteq> b"
proof
  assume "flip_bit n b = b"
  then have "bit (flip_bit n b) n = bit b n" by simp
  with assms show False by (simp add: bit_flip_bit_iff)
qed

lemma of_char_div_16: "(of_char c :: nat) div 16 < 16"
proof (rule less_mult_imp_div_less)
  show "(of_char c :: nat) < 16 * 16"
    using nat_of_char_less_256 [of c] by simp
qed

end
