(* ===== verification/Go_Hex.thy ===== *)
theory Go_Hex
  imports Prelude
begin

text \<open>
  Go's \<open>encoding/hex.EncodeToString\<close>, which \<open>verifyRazorpaySignature\<close>
  (src/main.go, line 142) applies to the HMAC digest: every byte becomes two
  lowercase hexadecimal digits taken from the table \<open>"0123456789abcdef"\<close>,
  the high nibble \<open>v >> 4\<close> first, then the low nibble \<open>v & 0x0f\<close>.
  A decoder for lowercase hex, written from the format rather than from any
  code, gives the round trip; from it the encoding is injective, so comparing
  hex strings compares digests.
\<close>

definition hextable :: string where
  "hextable = ''0123456789abcdef''"

primrec hex_EncodeToString :: "byte list \<Rightarrow> string" where
  "hex_EncodeToString [] = []"
| "hex_EncodeToString (v # vs) =
     hextable ! unat (drop_bit 4 v) # hextable ! unat (v AND 0x0f) # hex_EncodeToString vs"

declare hex_EncodeToString.simps [go_defs]

subsection \<open>The lowercase hex format\<close>

definition hex_digit_value :: "char \<Rightarrow> nat option" where
  "hex_digit_value c =
     (let n = (of_char c :: nat) in
      if 48 \<le> n \<and> n < 58 then Some (n - 48)
      else if 97 \<le> n \<and> n < 103 then Some (n - 87) else None)"

fun hex_decode_lower :: "string \<Rightarrow> byte list option" where
  "hex_decode_lower [] = Some []"
| "hex_decode_lower [c] = None"
| "hex_decode_lower (a # b # rest) =
     (case (hex_digit_value a, hex_digit_value b) of
        (Some hi, Some lo) \<Rightarrow> map_option (Cons (word_of_nat (16 * hi + lo))) (hex_decode_lower rest)
      | _ \<Rightarrow> None)"

subsection \<open>Nibbles\<close>

lemma unat_high_nibble: "unat (drop_bit 4 (v :: byte)) = unat v div 16"
  by (simp add: drop_bit_eq_div unat_div)

lemma unat_low_nibble: "unat ((v :: byte) AND 0x0f) = unat v mod 16"
proof -
  have "v AND 0x0f = take_bit 4 v"
    by (simp add: take_bit_eq_mask mask_eq_exp_minus_1)
  then show ?thesis
    by (simp add: unsigned_take_bit_eq take_bit_eq_mod unat_mod)
qed

lemma high_nibble_less: "unat (drop_bit 4 (v :: byte)) < 16"
  using unat_byte_less [of v] by (simp add: unat_high_nibble)

lemma low_nibble_less: "unat ((v :: byte) AND 0x0f) < 16"
  by (simp add: unat_low_nibble)

lemma nibbles_recombine:
  "(word_of_nat (16 * unat (drop_bit 4 v) + unat (v AND 0x0f)) :: byte) = v"
  by (simp add: unat_high_nibble unat_low_nibble)

lemma nibbles_recombine_word: "16 * drop_bit 4 v + (v AND 0x0f) = (v :: byte)"
proof -
  have "v = word_of_nat (16 * unat (drop_bit 4 v) + unat (v AND 0x0f))"
    by (rule nibbles_recombine [symmetric])
  also have "\<dots> = 16 * drop_bit 4 v + (v AND 0x0f)"
    by simp
  finally show ?thesis by simp
qed

lemma length_hextable [simp]: "length hextable = 16"
  by (simp add: hextable_def)

lemma hex_digit_value_hextable_all: "\<forall>n<16. hex_digit_value (hextable ! n) = Some n"
  by (simp add: numeral_eq_Suc All_less_Suc hextable_def hex_digit_value_def)

lemma hex_digit_value_hextable: "n < 16 \<Longrightarrow> hex_digit_value (hextable ! n) = Some n"
  using hex_digit_value_hextable_all by blast

lemmas nibble_facts [simp] =
  high_nibble_less low_nibble_less hex_digit_value_hextable [OF high_nibble_less]
  hex_digit_value_hextable [OF low_nibble_less] nibbles_recombine_word

subsection \<open>Properties of the encoder\<close>

lemma length_hex_EncodeToString [simp]: "length (hex_EncodeToString bs) = 2 * length bs"
  by (induction bs) simp_all

lemma set_hex_EncodeToString: "set (hex_EncodeToString bs) \<subseteq> set hextable"
proof (induction bs)
  case Nil
  then show ?case by simp
next
  case (Cons v vs)
  have "hextable ! unat (drop_bit 4 v) \<in> set hextable" "hextable ! unat (v AND 0x0f) \<in> set hextable"
    by (simp_all add: nth_mem)
  with Cons.IH show ?case by simp
qed

text \<open>The encoding is exactly twice as long as the digest and uses only the
  lowercase hexadecimal digits.\<close>

theorem hex_EncodeToString_shape:
  "length (hex_EncodeToString bs) = 2 * length bs \<and> set (hex_EncodeToString bs) \<subseteq> set hextable"
  by (simp add: set_hex_EncodeToString)

lemma hex_decode_lower_Encode [simp]: "hex_decode_lower (hex_EncodeToString bs) = Some bs"
  by (induction bs) simp_all

lemma hex_EncodeToString_inj [simp]: "hex_EncodeToString xs = hex_EncodeToString ys \<longleftrightarrow> xs = ys"
  by (metis hex_decode_lower_Encode option.inject)

text \<open>The lowercase hex text of a digest determines the digest: decoding
  it gives the bytes back, and two byte strings have the same text exactly
  when they are equal.\<close>

theorem hex_EncodeToString_roundtrip:
  "hex_decode_lower (hex_EncodeToString bs) = Some bs \<and>
   (hex_EncodeToString bs' = hex_EncodeToString bs \<longleftrightarrow> bs' = bs)"
  by simp

end
