(* ===== verification/Go_Subtle.thy ===== *)
theory Go_Subtle
  imports Prelude
begin

text \<open>
  The comparison \<open>verifyRazorpaySignature\<close> uses (src/main.go, line 143):
  \<open>hmac.Equal(mac1, mac2)\<close> of \<open>crypto/hmac\<close> is
  \<open>subtle.ConstantTimeCompare(mac1, mac2) == 1\<close>, and
  \<open>crypto/subtle\<close> computes it as
  \<^verbatim>\<open>
  func ConstantTimeCompare(x, y []byte) int {
      if len(x) != len(y) { return 0 }
      var v byte
      for i := 0; i < len(x); i++ { v |= x[i] ^ y[i] }
      return ConstantTimeByteEq(v, 0)
  }
  func ConstantTimeByteEq(x, y uint8) int {
      return int((uint32(x^y) - 1) >> 31)
  }
  \<close>
  The loop is modelled at its width (\<open>byte\<close>, \<open>uint32\<close> with wrap-around) and
  instrumented with the list of indices it reads, so that "constant time" is a
  statement about the model: which positions are read depends on the lengths
  only, never on the contents.
\<close>

definition ConstantTimeByteEq :: "byte \<Rightarrow> byte \<Rightarrow> int" where
  "ConstantTimeByteEq x y = uint (drop_bit 31 ((ucast (x XOR y) :: 32 word) - 1))"

text \<open>The loop \<open>for i := 0; i < len(x); i++ { v |= x[i] ^ y[i] }\<close>: the
  accumulated \<open>v\<close> and the indices read, in order.\<close>

function ct_loop :: "byte list \<Rightarrow> byte list \<Rightarrow> nat \<Rightarrow> byte \<Rightarrow> byte \<times> nat list" where
  "ct_loop x y i v =
     (if i < length x
      then (let (v', reads) = ct_loop x y (Suc i) (v OR (x ! i XOR y ! i)) in (v', i # reads))
      else (v, []))"
  by pat_completeness auto
termination
  by (relation "measure (\<lambda>(x, y, i, v). length x - i)") auto

declare ct_loop.simps [simp del]

definition ConstantTimeCompare_run :: "byte list \<Rightarrow> byte list \<Rightarrow> int \<times> nat list" where
  "ConstantTimeCompare_run x y =
     (if length x \<noteq> length y then (0, [])
      else (let (v, reads) = ct_loop x y 0 0 in (ConstantTimeByteEq v 0, reads)))"

definition ConstantTimeCompare :: "byte list \<Rightarrow> byte list \<Rightarrow> int" where
  "ConstantTimeCompare x y = fst (ConstantTimeCompare_run x y)"

definition hmac_Equal :: "byte list \<Rightarrow> byte list \<Rightarrow> bool" where
  "hmac_Equal mac1 mac2 = (ConstantTimeCompare mac1 mac2 = 1)"

declare ConstantTimeByteEq_def [go_defs] ConstantTimeCompare_run_def [go_defs]
  ConstantTimeCompare_def [go_defs] hmac_Equal_def [go_defs]

subsection \<open>The byte comparison and its wrap-around\<close>

text \<open>\<open>uint32(x^y) - 1\<close> wraps to \<open>0xffffffff\<close> exactly when \<open>x = y\<close>; otherwise
  it is below 255 and its bit 31 is clear.\<close>

lemma ConstantTimeByteEq_eq: "ConstantTimeByteEq x y = (if x = y then 1 else 0)"
proof (cases "x = y")
  case True
  then show ?thesis by (simp add: ConstantTimeByteEq_def)
next
  case False
  let ?w = "ucast (x XOR y) :: 32 word"
  have lt: "unat ?w < 256"
    using unat_byte_less [of "x XOR y"] by simp
  have "?w \<noteq> 0"
    using False unat_ucast_byte_32 [of "x XOR y"] by (metis unat_gt_0 xor_eq_0_iff)
  then have "unat (?w - 1) < 256"
    using lt by (simp add: unat_minus_one)
  then have "unat (drop_bit 31 (?w - 1)) = 0"
    by (simp only: unat_drop_bit_eq) (simp add: drop_bit_eq_div)
  then have "drop_bit 31 (?w - 1) = 0"
    by (simp add: unat_eq_zero)
  with False show ?thesis by (simp add: ConstantTimeByteEq_def)
qed

subsection \<open>The loop\<close>

lemma ct_loop_reads: "snd (ct_loop x y i v) = [i..<length x]"
proof (induction x y i v rule: ct_loop.induct)
  case (1 x y i v)
  then show ?case
    by (subst ct_loop.simps) (auto simp: upt_conv_Cons split: prod.split)
qed

lemma ct_loop_acc:
  "length x = length y \<Longrightarrow>
   (fst (ct_loop x y i v) = 0) \<longleftrightarrow> (v = 0 \<and> drop i x = drop i y)"
proof (induction x y i v rule: ct_loop.induct)
  case (1 x y i v)
  show ?case
  proof (cases "i < length x")
    case True
    then have "drop i x = x ! i # drop (Suc i) x" "drop i y = y ! i # drop (Suc i) y"
      using "1.prems" by (simp_all add: Cons_nth_drop_Suc)
    with True "1.IH" "1.prems" show ?thesis
      by (subst ct_loop.simps) (auto simp: or_eq_0_iff split: prod.split)
  next
    case False
    with "1.prems" show ?thesis
      by (subst ct_loop.simps) simp
  qed
qed

lemma ConstantTimeCompare_eq_if: "ConstantTimeCompare x y = (if x = y then 1 else 0)"
proof (cases "length x = length y")
  case True
  have "(fst (ct_loop x y 0 0) = 0) \<longleftrightarrow> x = y"
    using ct_loop_acc [OF True, of 0 0] by simp
  then show ?thesis
    by (auto simp: ConstantTimeCompare_def ConstantTimeCompare_run_def ConstantTimeByteEq_eq
        split: prod.split)
next
  case False
  then show ?thesis
    by (auto simp: ConstantTimeCompare_def ConstantTimeCompare_run_def)
qed

lemma hmac_Equal_iff [simp]: "hmac_Equal mac1 mac2 \<longleftrightarrow> mac1 = mac2"
  by (simp add: hmac_Equal_def ConstantTimeCompare_eq_if)

subsection \<open>Properties\<close>

text \<open>\<open>ConstantTimeCompare\<close> returns 1 on equal byte strings and 0 on all
  others, of equal length or not: it agrees with plain equality.\<close>

theorem ConstantTimeCompare_spec:
  "ConstantTimeCompare x y = (if x = y then 1 else 0) \<and> (hmac_Equal x y \<longleftrightarrow> x = y)"
  by (simp add: ConstantTimeCompare_eq_if)

text \<open>The comparison is oblivious to the data: on inputs of equal length it
  reads every position once, in order, wherever the first difference is, and
  on inputs of different length it reads nothing.\<close>

theorem ConstantTimeCompare_reads:
  "snd (ConstantTimeCompare_run x y) = (if length x = length y then [0..<length x] else [])"
  using ct_loop_reads [of x y 0 0]
  by (auto simp: ConstantTimeCompare_run_def split: prod.split)

end
