(* ===== verification/Go_Hmac.thy ===== *)
theory Go_Hmac
  imports Prelude
begin

text \<open>
  Go's \<open>crypto/hmac\<close>, used by \<open>verifyRazorpaySignature\<close> (src/main.go,
  lines 140--142) as \<open>hmac.New(sha256.New, key)\<close>, \<open>h.Write(msg)\<close>,
  \<open>h.Sum(nil)\<close>.  The hash function is an interface here: a \<open>hash_fn\<close>
  gives the block size, the digest size and the digest of a byte string, and
  the running state of a Go \<open>hash.Hash\<close> is the list of bytes written to it
  since its last \<open>Reset\<close>.  SHA-256 itself is not modelled; every lemma holds
  for any hash.  The Go \<open>hmac\<close> struct keeps two hash states and the two
  padded keys:
  \<^verbatim>\<open>
  func New(h func() hash.Hash, key []byte) hash.Hash {
      hm.outer, hm.inner = h(), h()
      blocksize := hm.inner.BlockSize()
      hm.ipad = make([]byte, blocksize); hm.opad = make([]byte, blocksize)
      if len(key) > blocksize { hm.outer.Write(key); key = hm.outer.Sum(nil) }
      copy(hm.ipad, key); copy(hm.opad, key)
      for i := range hm.ipad { hm.ipad[i] ^= 0x36 }
      for i := range hm.opad { hm.opad[i] ^= 0x5c }
      hm.inner.Write(hm.ipad)
  }
  func (h *hmac) Write(p []byte) (int, error) { return h.inner.Write(p) }
  func (h *hmac) Sum(in []byte) []byte {
      origLen := len(in)
      in = h.inner.Sum(in)
      h.outer.Reset(); h.outer.Write(h.opad)
      h.outer.Write(in[origLen:])
      return h.outer.Sum(in[:origLen])
  }
  \<close>
  The reference is HMAC as FIPS 198-1 defines it; the refinement lemma shows
  that \<open>New\<close>, \<open>Write\<close> and \<open>Sum\<close> compute it.
\<close>

record hash_fn =
  hash_block_size :: nat
  hash_size :: nat
  hash_digest :: "byte list \<Rightarrow> byte list"

record hmac_state =
  hm_opad :: "byte list"
  hm_ipad :: "byte list"
  hm_outer :: "byte list"
  hm_inner :: "byte list"

text \<open>Go's built-in \<open>copy(dst, src)\<close>: the first \<open>min(len dst, len src)\<close>
  elements of \<open>dst\<close> are overwritten.\<close>

definition go_copy :: "'a list \<Rightarrow> 'a list \<Rightarrow> 'a list" where
  "go_copy dst src = take (length dst) src @ drop (length src) dst"

definition hmac_New :: "hash_fn \<Rightarrow> byte list \<Rightarrow> hmac_state" where
  "hmac_New H key =
     (let blocksize = hash_block_size H;
          (outer, key') = (if length key > blocksize then (key, hash_digest H key) else ([], key));
          ipad = map (\<lambda>b. b XOR 0x36) (go_copy (replicate blocksize 0) key');
          opad = map (\<lambda>b. b XOR 0x5c) (go_copy (replicate blocksize 0) key')
      in \<lparr>hm_opad = opad, hm_ipad = ipad, hm_outer = outer, hm_inner = ipad\<rparr>)"

definition hmac_Write :: "hmac_state \<Rightarrow> byte list \<Rightarrow> hmac_state" where
  "hmac_Write h p = h\<lparr>hm_inner := hm_inner h @ p\<rparr>"

definition hmac_Sum :: "hash_fn \<Rightarrow> hmac_state \<Rightarrow> byte list \<Rightarrow> byte list \<times> hmac_state" where
  "hmac_Sum H h inp =
     (let origLen = length inp;
          inp' = inp @ hash_digest H (hm_inner h);
          outer = hm_opad h @ drop origLen inp'
      in (take origLen inp' @ hash_digest H outer, h\<lparr>hm_outer := outer\<rparr>))"

declare go_copy_def [go_defs] hmac_New_def [go_defs] hmac_Write_def [go_defs]
  hmac_Sum_def [go_defs]

subsection \<open>The reference: FIPS 198-1\<close>

definition fips_K0 :: "hash_fn \<Rightarrow> byte list \<Rightarrow> byte list" where
  "fips_K0 H K =
     (let B = hash_block_size H in
      if length K > B then hash_digest H K @ replicate (B - length (hash_digest H K)) 0
      else K @ replicate (B - length K) 0)"

definition fips_HMAC :: "hash_fn \<Rightarrow> byte list \<Rightarrow> byte list \<Rightarrow> byte list" where
  "fips_HMAC H K text =
     (let K0 = fips_K0 H K
      in hash_digest H (map (\<lambda>b. b XOR 0x5c) K0
                        @ hash_digest H (map (\<lambda>b. b XOR 0x36) K0 @ text)))"

text \<open>The MAC the Go calls compute for one message: \<open>New\<close>, one \<open>Write\<close>,
  \<open>Sum(nil)\<close>.\<close>

definition hmac_mac :: "hash_fn \<Rightarrow> byte list \<Rightarrow> byte list \<Rightarrow> byte list" where
  "hmac_mac H key msg = fst (hmac_Sum H (hmac_Write (hmac_New H key) msg) [])"

subsection \<open>A small instance\<close>

text \<open>A toy hash with 4-byte blocks and a 1-byte digest (the sum of the bytes):
  not a cryptographic hash, only an instance of the interface on which the
  models evaluate, for the witnesses.\<close>

definition toy_hash :: hash_fn where
  "toy_hash = \<lparr>hash_block_size = 4, hash_size = 1, hash_digest = (\<lambda>m. [sum_list m])\<rparr>"

subsection \<open>Lemmas\<close>

lemma go_copy_short: "length src \<le> length dst \<Longrightarrow> go_copy dst src = src @ drop (length src) dst"
  by (simp add: go_copy_def)

lemma go_copy_zero_pad:
  "length src \<le> n \<Longrightarrow> go_copy (replicate n z) src = src @ replicate (n - length src) z"
  by (simp add: go_copy_def)

lemma hmac_Write_append: "hmac_Write (hmac_Write h a) b = hmac_Write h (a @ b)"
  by (simp add: hmac_Write_def)

lemma hmac_Sum_fst: "fst (hmac_Sum H h inp) = inp @ hash_digest H (hm_opad h @ hash_digest H (hm_inner h))"
  by (simp add: hmac_Sum_def Let_def)

text \<open>The padded key \<open>New\<close> builds is FIPS's \<open>K0\<close>, provided a hashed long key
  fits in a block (for SHA-256: 32 bytes in a 64-byte block).\<close>

lemma hmac_New_pads:
  assumes "length key > hash_block_size H \<Longrightarrow> length (hash_digest H key) \<le> hash_block_size H"
  shows "hm_ipad (hmac_New H key) = map (\<lambda>b. b XOR 0x36) (fips_K0 H key)"
    and "hm_opad (hmac_New H key) = map (\<lambda>b. b XOR 0x5c) (fips_K0 H key)"
    and "hm_inner (hmac_New H key) = hm_ipad (hmac_New H key)"
  using assms by (auto simp: hmac_New_def fips_K0_def go_copy_zero_pad Let_def)

lemma hmac_mac_eq:
  assumes "length key > hash_block_size H \<Longrightarrow> length (hash_digest H key) \<le> hash_block_size H"
  shows "hmac_mac H key msg = fips_HMAC H key msg"
  using hmac_New_pads [OF assms]
  by (simp add: hmac_mac_def hmac_Sum_fst hmac_Write_def fips_HMAC_def Let_def)

subsection \<open>Properties\<close>

text \<open>Refinement.  Feeding a message to \<open>hmac.New\<close> in any number of
  \<open>Write\<close> calls and taking \<open>Sum(nil)\<close> computes HMAC as FIPS 198-1 defines
  it, provided a long key's digest fits in one block.\<close>

theorem hmac_streaming_refines_fips:
  assumes "length key > hash_block_size H \<Longrightarrow> length (hash_digest H key) \<le> hash_block_size H"
  shows "fst (hmac_Sum H (fold (\<lambda>p h. hmac_Write h p) chunks (hmac_New H key)) [])
         = fips_HMAC H key (concat chunks)"
proof -
  have "fold (\<lambda>p h. hmac_Write h p) chunks h0 = hmac_Write h0 (concat chunks)" for h0
    by (induction chunks arbitrary: h0) (simp_all add: hmac_Write_def)
  then show ?thesis
    using hmac_mac_eq [OF assms, of "concat chunks"] by (simp add: hmac_mac_def)
qed

lemma toy_hash_simps [simp]:
  "hash_block_size toy_hash = 4" "hash_size toy_hash = 1"
  "hash_digest toy_hash m = [sum_list m]"
  by (simp_all add: toy_hash_def)

text \<open>An instance: a six-byte key (longer than a block) and a message in two
  chunks.\<close>

theorem hmac_streaming_refines_fips_witness:
  "(length [1, 2, 3, 4, 5, 6 :: byte] > hash_block_size toy_hash
      \<longrightarrow> length (hash_digest toy_hash [1, 2, 3, 4, 5, 6]) \<le> hash_block_size toy_hash) \<and>
   fst (hmac_Sum toy_hash (fold (\<lambda>p h. hmac_Write h p) [[7], [8, 9 :: byte]]
          (hmac_New toy_hash [1, 2, 3, 4, 5, 6])) [])
   = fips_HMAC toy_hash [1, 2, 3, 4, 5, 6] [7, 8, 9]"
  using hmac_streaming_refines_fips [of toy_hash "[1, 2, 3, 4, 5, 6]" "[[7], [8, 9]]"]
  by simp

end
