(* ===== verification/Signature.thy ===== *)
theory Signature
  imports Go_Hex Go_Subtle Go_Hmac
begin

text \<open>
  \<open>verifyRazorpaySignature\<close> (src/main.go, lines 139--144): the MAC of
  \<open>orderID + "|" + paymentID\<close> under the shared secret, hex-encoded and
  compared in constant time with the signature the gateway sent.  The hash is
  the parameter \<open>sha256\<close>, an instance of the \<open>hash_fn\<close> interface of
  \<open>Go_Hmac\<close>.  The specification of the check is \<open>expected_signature\<close>:
  the lowercase hex text of HMAC (FIPS 198-1) of that message.
\<close>

text \<open>Line 141: the signed message \<open>orderID + "|" + paymentID\<close>.\<close>

definition signature_message :: "string \<Rightarrow> string \<Rightarrow> string" where
  "signature_message orderID paymentID = orderID @ ''|'' @ paymentID"

text \<open>Lines 140--142: \<open>h := hmac.New(sha256.New, []byte(secret))\<close>,
  \<open>h.Write([]byte(orderID + "|" + paymentID))\<close>,
  \<open>computedSignature := hex.EncodeToString(h.Sum(nil))\<close>.\<close>

definition computedSignature :: "hash_fn \<Rightarrow> string \<Rightarrow> string \<Rightarrow> string \<Rightarrow> string" where
  "computedSignature sha256 orderID paymentID secret =
     (let h = hmac_New sha256 (bytes_of secret);
          h = hmac_Write h (bytes_of (signature_message orderID paymentID))
      in hex_EncodeToString (fst (hmac_Sum sha256 h [])))"

text \<open>Line 143 as it runs: \<open>hmac.Equal([]byte(computedSignature),
  []byte(signature))\<close>, which is \<open>subtle.ConstantTimeCompare(...) == 1\<close>,
  with the positions of the two byte slices its loop reads.\<close>

definition verifyRazorpaySignature_run ::
  "hash_fn \<Rightarrow> string \<Rightarrow> string \<Rightarrow> string \<Rightarrow> string \<Rightarrow> bool \<times> nat list" where
  "verifyRazorpaySignature_run sha256 orderID paymentID signature secret =
     (let r = ConstantTimeCompare_run (bytes_of (computedSignature sha256 orderID paymentID secret))
                (bytes_of signature)
      in (fst r = 1, snd r))"

text \<open>Lines 139--144: the result of the check.\<close>

definition verifyRazorpaySignature ::
  "hash_fn \<Rightarrow> string \<Rightarrow> string \<Rightarrow> string \<Rightarrow> string \<Rightarrow> bool" where
  "verifyRazorpaySignature sha256 orderID paymentID signature secret =
     fst (verifyRazorpaySignature_run sha256 orderID paymentID signature secret)"

text \<open>The signature the gateway is expected to send (spec, section 4.2).\<close>

definition expected_signature :: "hash_fn \<Rightarrow> string \<Rightarrow> string \<Rightarrow> string \<Rightarrow> string" where
  "expected_signature H secret orderID paymentID =
     hex_EncodeToString (fips_HMAC H (bytes_of secret) (bytes_of (orderID @ ''|'' @ paymentID)))"

text \<open>The hypothesis the HMAC refinement needs, for the secret in use: a secret
  longer than a block hashes to a digest that fits in one (always true for
  SHA-256, whose 32-byte digest fits its 64-byte block).\<close>

definition key_digest_fits :: "hash_fn \<Rightarrow> string \<Rightarrow> bool" where
  "key_digest_fits H secret =
     (length (bytes_of secret) \<le> hash_block_size H
      \<or> length (hash_digest H (bytes_of secret)) \<le> hash_block_size H)"

subsection \<open>Lemmas\<close>

text \<open>What the code computes, in terms of the Go MAC.\<close>

lemma computedSignature_mac:
  "computedSignature H orderID paymentID secret =
   hex_EncodeToString (hmac_mac H (bytes_of secret) (bytes_of (orderID @ ''|'' @ paymentID)))"
  by (simp add: computedSignature_def signature_message_def hmac_mac_def Let_def del: bytes_of_append)

lemma verify_computed:
  "verifyRazorpaySignature H orderID paymentID signature secret \<longleftrightarrow>
   signature = computedSignature H orderID paymentID secret"
proof -
  have "verifyRazorpaySignature H orderID paymentID signature secret \<longleftrightarrow>
        hmac_Equal (bytes_of (computedSignature H orderID paymentID secret)) (bytes_of signature)"
    by (simp only: verifyRazorpaySignature_def verifyRazorpaySignature_run_def hmac_Equal_def
        ConstantTimeCompare_def Let_def fst_conv)
  then show ?thesis by auto
qed

lemma verify_go_mac:
  "verifyRazorpaySignature H orderID paymentID signature secret \<longleftrightarrow>
   signature = hex_EncodeToString (hmac_mac H (bytes_of secret) (bytes_of (orderID @ ''|'' @ paymentID)))"
  by (simp add: verify_computed computedSignature_mac)

lemma verify_expected:
  "key_digest_fits H secret \<Longrightarrow>
   verifyRazorpaySignature H orderID paymentID signature secret \<longleftrightarrow>
   signature = expected_signature H secret orderID paymentID"
  unfolding verify_go_mac expected_signature_def key_digest_fits_def
  by (subst hmac_mac_eq) auto

subsection \<open>Properties\<close>

text \<open>C1: the check accepts a signature exactly when it is the lowercase hex
  text of HMAC (FIPS 198-1) of \<open>orderID|paymentID\<close> under the secret; in
  particular it accepts the signature the gateway computes.\<close>

theorem verifyRazorpaySignature_correct:
  assumes "key_digest_fits H secret"
  shows "verifyRazorpaySignature H orderID paymentID signature secret \<longleftrightarrow>
         signature = expected_signature H secret orderID paymentID"
  using assms by (rule verify_expected)

text \<open>Witness for C1, with the toy hash and the spec's example strings.\<close>

theorem verifyRazorpaySignature_correct_witness:
  "key_digest_fits toy_hash ''s3cr3t'' \<and>
   verifyRazorpaySignature toy_hash ''order_abc'' ''pay_xyz''
     (expected_signature toy_hash ''s3cr3t'' ''order_abc'' ''pay_xyz'') ''s3cr3t''"
proof -
  have fits: "key_digest_fits toy_hash ''s3cr3t''"
    by (simp add: key_digest_fits_def)
  show ?thesis
    using fits verifyRazorpaySignature_correct [OF fits, of "''order_abc''" "''pay_xyz''"] by simp
qed

text \<open>C2: at most one signature passes for a given order, payment and secret:
  once a signature is accepted, every other string (one with a flipped bit,
  or with its last hex digit changed) is rejected.\<close>

theorem verifyRazorpaySignature_rejects_tampered:
  assumes "verifyRazorpaySignature H orderID paymentID signature secret"
    and "signature' \<noteq> signature"
  shows "\<not> verifyRazorpaySignature H orderID paymentID signature' secret"
  using assms by (simp add: verify_go_mac)

text \<open>Witness for C2: the last hex digit of the accepted signature changed.\<close>

theorem verifyRazorpaySignature_rejects_tampered_witness:
  "verifyRazorpaySignature toy_hash ''o'' ''p''
     (hex_EncodeToString (hmac_mac toy_hash (bytes_of ''k'') (bytes_of ''o|p''))) ''k'' \<and>
   butlast (hex_EncodeToString (hmac_mac toy_hash (bytes_of ''k'') (bytes_of ''o|p''))) @ ''x''
     \<noteq> hex_EncodeToString (hmac_mac toy_hash (bytes_of ''k'') (bytes_of ''o|p'')) \<and>
   \<not> verifyRazorpaySignature toy_hash ''o'' ''p''
     (butlast (hex_EncodeToString (hmac_mac toy_hash (bytes_of ''k'') (bytes_of ''o|p''))) @ ''x'') ''k''"
proof -
  let ?s = "hex_EncodeToString (hmac_mac toy_hash (bytes_of ''k'') (bytes_of ''o|p''))"
  have acc: "verifyRazorpaySignature toy_hash ''o'' ''p'' ?s ''k''"
    by (simp add: verify_go_mac)
  have "length ?s = 2"
    by (simp add: hmac_mac_def hmac_Sum_fst)
  then have "last ?s \<in> set hextable"
    using set_hex_EncodeToString [of "hmac_mac toy_hash (bytes_of ''k'') (bytes_of ''o|p'')"]
    by (metis last_in_set list.size(3) subsetD zero_neq_numeral)
  moreover have "CHR ''x'' \<notin> set hextable"
    by (simp add: hextable_def)
  ultimately have ne: "butlast ?s @ ''x'' \<noteq> ?s"
    by (metis last_snoc append_Cons append_Nil)
  show ?thesis
    using acc ne verifyRazorpaySignature_rejects_tampered [OF acc ne] by simp
qed

text \<open>C19: the check reads the two signatures obliviously: the positions its
  comparison reads depend only on the lengths, never on the bytes of the
  received signature or of the computed one: every position in order when
  the lengths agree, none otherwise.  (A short-circuiting comparison such as
  \<open>==\<close> or \<open>bytes.Equal\<close> stops at the first difference.)\<close>

theorem verifyRazorpaySignature_constant_time:
  "snd (verifyRazorpaySignature_run H orderID paymentID signature secret) =
     (if length signature = length (computedSignature H orderID paymentID secret)
      then [0..<length signature] else [])"
  using ct_loop_reads [of "bytes_of (computedSignature H orderID paymentID secret)" "bytes_of signature" 0 0]
  by (auto simp: verifyRazorpaySignature_run_def ConstantTimeCompare_run_def Let_def split: prod.split)

end
