(* ===== verification/Go_Url.thy ===== *)
theory Go_Url
  imports Prelude
begin

text \<open>
  Go's \<open>net/url.ParseQuery\<close>, which \<open>PaymentGatewayCallback\<close>
  (src/main.go, line 96) applies to the request body.  The model follows the
  library (Go 1.17 and later):
  \<^item> the query is cut at each \<open>&\<close> (\<open>strings.Cut\<close>); a segment holding a
    \<open>;\<close> sets the error "invalid semicolon separator" (overwriting any
    earlier one) and is skipped; an empty segment is skipped;
  \<^item> a segment is cut at its first \<open>=\<close> into key and value, each decoded by
    \<open>QueryUnescape\<close>; a decoding error is kept if it is the first error and the
    segment is skipped; otherwise the value is appended to the key's list;
  \<^item> \<open>QueryUnescape\<close> first checks every \<open>%\<close> is followed by two hex digits
    (\<open>EscapeError\<close> of the offending three bytes otherwise), returns the
    string unchanged when it holds no \<open>%\<close> and no \<open>+\<close>, and otherwise
    decodes \<open>%XY\<close> to a byte and \<open>+\<close> to a space.
  \<open>ParseQuery\<close> returns the map and the first error together; the caller
  decides what to do with both.  The sender's side, the
  \<open>application/x-www-form-urlencoded\<close> encoding of the callback fields
  (what \<open>url.Values.Encode\<close> produces), is given too, as the format the
  parser is proved to invert; it is not code of this repository.
\<close>

datatype url_error = EscapeError string | SemicolonError

type_synonym url_values = "string \<rightharpoonup> string list"

definition values_get :: "url_values \<Rightarrow> string \<Rightarrow> string list" where
  "values_get m k = (case m k of None \<Rightarrow> [] | Some vs \<Rightarrow> vs)"

definition ishex :: "char \<Rightarrow> bool" where
  "ishex c =
     (let n = (of_char c :: nat) in
      (48 \<le> n \<and> n \<le> 57) \<or> (97 \<le> n \<and> n \<le> 102) \<or> (65 \<le> n \<and> n \<le> 70))"

definition unhex :: "char \<Rightarrow> nat" where
  "unhex c =
     (let n = (of_char c :: nat) in
      if 48 \<le> n \<and> n \<le> 57 then n - 48
      else if 97 \<le> n \<and> n \<le> 102 then n - 87
      else if 65 \<le> n \<and> n \<le> 70 then n - 55 else 0)"

text \<open>The first loop of \<open>unescape\<close>: every \<open>%\<close> is followed by two hex digits.\<close>

fun unescape_check :: "string \<Rightarrow> url_error option" where
  "unescape_check [] = None"
| "unescape_check (c # rest) =
     (if c = CHR ''%'' then
        (case rest of
           a # b # rest' \<Rightarrow>
             if ishex a \<and> ishex b then unescape_check rest'
             else Some (EscapeError (take 3 (c # rest)))
         | _ \<Rightarrow> Some (EscapeError (take 3 (c # rest))))
      else unescape_check rest)"

text \<open>The second loop: \<open>%XY\<close> becomes the byte \<open>unhex(X)<<4 | unhex(Y)\<close>,
  \<open>+\<close> a space.\<close>

fun unescape_decode :: "string \<Rightarrow> string" where
  "unescape_decode [] = []"
| "unescape_decode (c # rest) =
     (if c = CHR ''%'' then
        (case rest of
           a # b # rest' \<Rightarrow> char_of (16 * unhex a + unhex b) # unescape_decode rest'
         | _ \<Rightarrow> [])
      else if c = CHR ''+'' then CHR '' '' # unescape_decode rest
      else c # unescape_decode rest)"

definition QueryUnescape :: "string \<Rightarrow> url_error + string" where
  "QueryUnescape s =
     (case unescape_check s of
        Some e \<Rightarrow> Inl e
      | None \<Rightarrow> Inr (if CHR ''%'' \<notin> set s \<and> CHR ''+'' \<notin> set s then s else unescape_decode s))"

text \<open>\<open>strings.Cut(s, sep)\<close> for a one-byte separator.\<close>

definition strings_Cut :: "char \<Rightarrow> string \<Rightarrow> string \<times> string \<times> bool" where
  "strings_Cut sep s =
     (takeWhile (\<lambda>c. c \<noteq> sep) s, drop 1 (dropWhile (\<lambda>c. c \<noteq> sep) s), sep \<in> set s)"

function parseQuery :: "url_values \<Rightarrow> url_error option \<Rightarrow> string \<Rightarrow> url_values \<times> url_error option" where
  "parseQuery m err query =
     (if query = [] then (m, err)
      else
        (let cut = strings_Cut CHR ''&'' query; key = fst cut; query' = fst (snd cut) in
         if CHR '';'' \<in> set key then parseQuery m (Some SemicolonError) query'
         else if key = [] then parseQuery m err query'
         else
           (let kv = strings_Cut CHR ''='' key in
            case QueryUnescape (fst kv) of
              Inl err1 \<Rightarrow> parseQuery m (if err = None then Some err1 else err) query'
            | Inr k' \<Rightarrow>
                (case QueryUnescape (fst (snd kv)) of
                   Inl err1 \<Rightarrow> parseQuery m (if err = None then Some err1 else err) query'
                 | Inr v' \<Rightarrow> parseQuery (m(k' \<mapsto> values_get m k' @ [v'])) err query'))))"
  by pat_completeness auto
termination
proof -
  have shorter: "length (fst (snd (strings_Cut c q))) < length q" if "q \<noteq> []" for c q
  proof -
    have "length (dropWhile (\<lambda>x. x \<noteq> c) q) \<le> length q" "0 < length q"
      using that by (simp_all add: length_dropWhile_le)
    then show ?thesis unfolding strings_Cut_def by (simp only: fst_conv snd_conv length_drop)
  qed
  show ?thesis
    by (relation "measure (\<lambda>(m, err, q). length q)") (auto simp: shorter)
qed

definition ParseQuery :: "string \<Rightarrow> url_values \<times> url_error option" where
  "ParseQuery query = parseQuery Map.empty None query"

declare values_get_def [go_defs] ishex_def [go_defs] unhex_def [go_defs]
  QueryUnescape_def [go_defs] strings_Cut_def [go_defs] ParseQuery_def [go_defs]

subsection \<open>The form encoding the sender uses\<close>

text \<open>\<open>application/x-www-form-urlencoded\<close> as Go's \<open>url.QueryEscape\<close> writes
  it: letters, digits and \<open>-_.~\<close> stay, a space becomes \<open>+\<close>, every other
  byte becomes \<open>%XY\<close> in uppercase hex; pairs are joined by \<open>&\<close>.\<close>

definition upperhex :: string where
  "upperhex = ''0123456789ABCDEF''"

definition form_unreserved :: "char \<Rightarrow> bool" where
  "form_unreserved c =
     (let n = (of_char c :: nat) in
      (97 \<le> n \<and> n \<le> 122) \<or> (65 \<le> n \<and> n \<le> 90) \<or> (48 \<le> n \<and> n \<le> 57)
      \<or> c \<in> set ''-_.~'')"

fun form_escape :: "string \<Rightarrow> string" where
  "form_escape [] = []"
| "form_escape (c # s) =
     (if form_unreserved c then [c]
      else if c = CHR '' '' then ''+''
      else [CHR ''%'', upperhex ! (of_char c div 16), upperhex ! (of_char c mod 16)])
     @ form_escape s"

fun form_encode :: "(string \<times> string) list \<Rightarrow> string" where
  "form_encode [] = []"
| "form_encode [(k, v)] = form_escape k @ ''='' @ form_escape v"
| "form_encode ((k, v) # p # ps) = form_escape k @ ''='' @ form_escape v @ ''&'' @ form_encode (p # ps)"

definition values_add :: "url_values \<Rightarrow> string \<times> string \<Rightarrow> url_values" where
  "values_add m kv = m(fst kv \<mapsto> values_get m (fst kv) @ [snd kv])"

subsection \<open>Lemmas: the parser's loop\<close>

declare parseQuery.simps [simp del]

lemma parseQuery_Nil [simp]: "parseQuery m err [] = (m, err)"
  by (simp add: parseQuery.simps)

lemma strings_Cut_split:
  "s = fst (strings_Cut c s) @ (if c \<in> set s then c # fst (snd (strings_Cut c s)) else [])"
proof (induction s)
  case Nil
  then show ?case by (simp add: strings_Cut_def)
next
  case (Cons x s)
  then show ?case by (auto simp: strings_Cut_def)
qed

lemma set_strings_Cut:
  "set s \<subseteq> set (fst (strings_Cut c s)) \<union> {c} \<union> set (fst (snd (strings_Cut c s)))"
  by (induction s) (auto simp: strings_Cut_def)

text \<open>One iteration of the loop, for a non-empty query.\<close>

lemma parseQuery_step:
  assumes "query \<noteq> []"
  shows "parseQuery m err query =
     (let cut = strings_Cut CHR ''&'' query; key = fst cut; query' = fst (snd cut) in
      if CHR '';'' \<in> set key then parseQuery m (Some SemicolonError) query'
      else if key = [] then parseQuery m err query'
      else
        (let kv = strings_Cut CHR ''='' key in
         case QueryUnescape (fst kv) of
           Inl err1 \<Rightarrow> parseQuery m (if err = None then Some err1 else err) query'
         | Inr k' \<Rightarrow>
             (case QueryUnescape (fst (snd kv)) of
                Inl err1 \<Rightarrow> parseQuery m (if err = None then Some err1 else err) query'
              | Inr v' \<Rightarrow> parseQuery (m(k' \<mapsto> values_get m k' @ [v'])) err query')))"
  by (subst parseQuery.simps) (simp only: assms if_False)

lemma parseQuery_step_cases:
  assumes "query \<noteq> []"
  obtains m' err' where
    "parseQuery m err query = parseQuery m' err' (fst (snd (strings_Cut CHR ''&'' query)))"
    "m' = m \<or> (\<exists>k v. m' = m(k \<mapsto> values_get m k @ [v]))"
    "err \<noteq> None \<Longrightarrow> err' \<noteq> None"
    "CHR '';'' \<in> set (fst (strings_Cut CHR ''&'' query)) \<Longrightarrow> err' \<noteq> None"
proof -
  let ?key = "fst (strings_Cut CHR ''&'' query)"
  let ?kv = "strings_Cut CHR ''='' ?key"
  show ?thesis
  proof (cases "CHR '';'' \<in> set ?key")
    case True
    then show ?thesis
      using that [of m "Some SemicolonError"] by (simp add: parseQuery_step [OF assms])
  next
    case semi: False
    show ?thesis
    proof (cases "?key = [] ")
      case True
      then show ?thesis
        using that [of m err] semi by (simp add: parseQuery_step [OF assms])
    next
      case False
      show ?thesis
      proof (cases "QueryUnescape (fst ?kv)")
        case (Inl e)
        then show ?thesis
          using that [of m "if err = None then Some e else err"] semi False
          by (simp add: parseQuery_step [OF assms])
      next
        case (Inr k)
        show ?thesis
        proof (cases "QueryUnescape (fst (snd ?kv))")
          case (Inl e)
          then show ?thesis
            using that [of m "if err = None then Some e else err"] semi False Inr
            by (simp add: parseQuery_step [OF assms])
        next
          case (Inr v)
          then show ?thesis
            using that [of "m(k \<mapsto> values_get m k @ [v])" err] semi False \<open>QueryUnescape (fst ?kv) = Inr k\<close>
            by (simp add: parseQuery_step [OF assms]) blast
        qed
      qed
    qed
  qed
qed

lemma strings_Cut_shorter:
  assumes "q \<noteq> []"
  shows "length (fst (snd (strings_Cut c q))) < length q"
proof -
  have "length (dropWhile (\<lambda>x. x \<noteq> c) q) \<le> length q" "0 < length q"
    using assms by (simp_all add: length_dropWhile_le)
  then show ?thesis unfolding strings_Cut_def by (simp only: fst_conv snd_conv length_drop)
qed

lemma parseQuery_induct_len:
  assumes "\<And>m err. P m err []"
    and "\<And>m err query. query \<noteq> [] \<Longrightarrow>
           (\<And>m' err'. P m' err' (fst (snd (strings_Cut CHR ''&'' query)))) \<Longrightarrow> P m err query"
  shows "P m err query"
proof (induction "length query" arbitrary: m err query rule: less_induct)
  case less
  show ?case
  proof (cases "query = []")
    case True
    then show ?thesis using assms(1) by simp
  next
    case False
    then show ?thesis
      using assms(2) less strings_Cut_shorter [OF False] by blast
  qed
qed

lemma parseQuery_values_nonempty:
  "(\<And>k vs. m k = Some vs \<Longrightarrow> vs \<noteq> []) \<Longrightarrow> fst (parseQuery m err query) k = Some vs \<Longrightarrow> vs \<noteq> []"
proof (induction m err query arbitrary: vs rule: parseQuery_induct_len)
  case (1 m err)
  then show ?case by simp
next
  case (2 m err query)
  obtain m' err' where eq: "parseQuery m err query = parseQuery m' err' (fst (snd (strings_Cut CHR ''&'' query)))"
    and m': "m' = m \<or> (\<exists>k v. m' = m(k \<mapsto> values_get m k @ [v]))"
    using parseQuery_step_cases [OF "2.hyps"] by metis
  have "m' k0 = Some ws \<Longrightarrow> ws \<noteq> []" for k0 ws
    using m' "2.prems"(1) by (fastforce split: if_splits)
  with "2.IH" "2.prems"(2) eq show ?case by metis
qed

lemma parseQuery_err_sticky: "err \<noteq> None \<Longrightarrow> snd (parseQuery m err query) \<noteq> None"
proof (induction m err query rule: parseQuery_induct_len)
  case (1 m err)
  then show ?case by simp
next
  case (2 m err query)
  obtain m' err' where "parseQuery m err query = parseQuery m' err' (fst (snd (strings_Cut CHR ''&'' query)))"
    and "err \<noteq> None \<Longrightarrow> err' \<noteq> None"
    using parseQuery_step_cases [OF "2.hyps"] by metis
  with "2.IH" "2.prems" show ?case by metis
qed

lemma parseQuery_semicolon: "CHR '';'' \<in> set query \<Longrightarrow> snd (parseQuery m err query) \<noteq> None"
proof (induction m err query rule: parseQuery_induct_len)
  case (1 m err)
  then show ?case by simp
next
  case (2 m err query)
  obtain m' err' where eq: "parseQuery m err query = parseQuery m' err' (fst (snd (strings_Cut CHR ''&'' query)))"
    and semi: "CHR '';'' \<in> set (fst (strings_Cut CHR ''&'' query)) \<Longrightarrow> err' \<noteq> None"
    using parseQuery_step_cases [OF "2.hyps"] by metis
  show ?case
  proof (cases "CHR '';'' \<in> set (fst (strings_Cut CHR ''&'' query))")
    case True
    then show ?thesis using eq semi parseQuery_err_sticky by metis
  next
    case False
    then have "CHR '';'' \<in> set (fst (snd (strings_Cut CHR ''&'' query)))"
      using "2.prems" set_strings_Cut [of query "CHR ''&''"] by auto
    then show ?thesis using eq "2.IH" by metis
  qed
qed

subsection \<open>Lemmas: the form encoding is parsed back\<close>

lemma upperhex_all: "\<forall>i<16. ishex (upperhex ! i) \<and> unhex (upperhex ! i) = i \<and>
    upperhex ! i \<notin> {CHR ''&'', CHR '';'', CHR ''='', CHR ''%'', CHR ''+''}"
  by (simp add: numeral_eq_Suc All_less_Suc upperhex_def ishex_def unhex_def)

lemma of_char_mod_16: "(of_char c :: nat) mod 16 < 16"
  by simp

lemma upperhex_digit:
  "i < 16 \<Longrightarrow> ishex (upperhex ! i) \<and> unhex (upperhex ! i) = i \<and>
    upperhex ! i \<notin> {CHR ''&'', CHR '';'', CHR ''='', CHR ''%'', CHR ''+''}"
  using upperhex_all by blast

lemmas upperhex_digits [simp] =
  upperhex_digit [OF of_char_div_16] upperhex_digit [OF of_char_mod_16]

lemma form_unreserved_plain:
  "form_unreserved c \<Longrightarrow> c \<notin> {CHR ''&'', CHR '';'', CHR ''='', CHR ''%'', CHR ''+'', CHR '' ''}"
  by (auto simp: form_unreserved_def)

lemma form_escape_no_separators:
  "set (form_escape s) \<inter> {CHR ''&'', CHR '';'', CHR ''=''} = {}"
proof (induction s)
  case Nil
  then show ?case by simp
next
  case (Cons c s)
  then show ?case
    using form_unreserved_plain [of c] upperhex_digit [OF of_char_div_16, of c]
      upperhex_digit [OF of_char_mod_16, of c]
    by auto
qed

lemma unescape_check_form_escape: "unescape_check (form_escape s) = None"
proof (induction s)
  case Nil
  then show ?case by simp
next
  case (Cons c s)
  then show ?case using form_unreserved_plain [of c] by auto
qed

lemma unescape_decode_form_escape: "unescape_decode (form_escape s) = s"
proof (induction s)
  case Nil
  then show ?case by simp
next
  case (Cons c s)
  then show ?case using form_unreserved_plain [of c] by auto
qed

lemma unescape_decode_plain:
  "CHR ''%'' \<notin> set s \<Longrightarrow> CHR ''+'' \<notin> set s \<Longrightarrow> unescape_decode s = s"
  by (induction s) auto

lemma QueryUnescape_form_escape [simp]: "QueryUnescape (form_escape s) = Inr s"
proof -
  have "(if CHR ''%'' \<notin> set (form_escape s) \<and> CHR ''+'' \<notin> set (form_escape s)
         then form_escape s else unescape_decode (form_escape s)) = s"
    using unescape_decode_plain [of "form_escape s"] unescape_decode_form_escape [of s] by auto
  then show ?thesis
    unfolding QueryUnescape_def unescape_check_form_escape by simp
qed

lemma strings_Cut_found:
  assumes "sep \<notin> set a"
  shows "strings_Cut sep (a @ sep # b) = (a, b, True)"
proof -
  have "\<forall>x\<in>set a. x \<noteq> sep" using assms by auto
  then show ?thesis by (simp add: strings_Cut_def takeWhile_append2 dropWhile_append2)
qed

lemma strings_Cut_absent:
  assumes "sep \<notin> set a"
  shows "strings_Cut sep a = (a, [], False)"
proof -
  have "\<forall>x\<in>set a. x \<noteq> sep" using assms by auto
  then have t: "takeWhile (\<lambda>c. c \<noteq> sep) a = a" and d: "dropWhile (\<lambda>c. c \<noteq> sep) a = []"
    by (simp_all add: takeWhile_eq_all_conv dropWhile_eq_Nil_conv)
  show ?thesis
    unfolding strings_Cut_def t d using assms by simp
qed

lemma form_pair_cut:
  "strings_Cut CHR ''='' (form_escape k @ CHR ''='' # form_escape v) = (form_escape k, form_escape v, True)"
  using form_escape_no_separators [of k] by (simp add: strings_Cut_found)

lemma form_pair_plain:
  "CHR '';'' \<notin> set (form_escape k @ ''='' @ form_escape v)"
  "CHR ''&'' \<notin> set (form_escape k @ ''='' @ form_escape v)"
  using form_escape_no_separators [of k] form_escape_no_separators [of v] by auto

lemma parseQuery_form_pair:
  assumes "query = form_escape k @ ''='' @ form_escape v @ rest"
    and "rest = [] \<or> hd rest = CHR ''&''"
  shows "parseQuery m err query = parseQuery (values_add m (k, v)) err (drop 1 rest)"
proof -
  let ?seg = "form_escape k @ ''='' @ form_escape v"
  have ne: "query \<noteq> []" using assms(1) by simp
  have cut: "strings_Cut CHR ''&'' query = (?seg, drop 1 rest, rest \<noteq> [])"
    using assms form_pair_plain(2) [of k v]
      strings_Cut_found [of "CHR ''&''" ?seg "drop 1 rest"] strings_Cut_absent [of "CHR ''&''" ?seg]
    by (cases rest) auto
  show ?thesis
    using form_pair_plain(1) [of k v]
    by (simp add: parseQuery_step [OF ne] cut form_pair_cut values_add_def)
qed

lemma parseQuery_form_encode:
  "parseQuery m err (form_encode ps) = (fold (\<lambda>kv m. values_add m kv) ps m, err)"
proof (induction ps arbitrary: m rule: form_encode.induct)
  case 1
  then show ?case by simp
next
  case (2 k v)
  then show ?case
    using parseQuery_form_pair [of "form_encode [(k, v)]" k v "[]" m err] by simp
next
  case (3 k v p ps)
  then show ?case
    using parseQuery_form_pair [of "form_encode ((k, v) # p # ps)" k v "''&'' @ form_encode (p # ps)" m err]
    by simp
qed

end
