(* ===== verification/Gin_Context.thy ===== *)
theory Gin_Context
  imports Prelude
begin

text \<open>
  The part of the gin web framework the handlers of src/main.go act on: the
  request context \<open>*gin.Context\<close>, as an explicit state passed through every
  handler and returned updated.  It holds the request (method, path, and the
  result of reading the body: \<open>Inl\<close> an I/O error, \<open>Inr\<close> the bytes), the
  response being built (headers, status, body), whether the chain was
  aborted, whether the request body was closed, the lines written to
  standard output (by \<open>fmt.Println\<close>, and the access-log lines of gin's
  \<open>Logger\<close>), and the outbound calls made to the payment gateway.  JSON
  values (\<open>gin.H\<close>, structs with \<open>json\<close> tags, \<open>map[string]interface{}\<close>)
  are the datatype \<open>jval\<close>; objects keep their fields in source order.
  A handler returns \<open>Inr\<close> the new context, or \<open>Inl\<close> a run-time panic
  with the context it happened in.
\<close>

text \<open>JSON values as Go holds them before encoding: \<open>JObj\<close> a struct, its
  fields in declaration order; \<open>JMap\<close> a map (\<open>gin.H\<close>,
  \<open>map[string]interface{}\<close>), whose keys encoding/json writes sorted.\<close>

datatype jval = JNull | JBool bool | JInt int | JStr string
  | JObj "(string \<times> jval) list" | JMap "(string \<times> jval) list"

datatype resp_body = BodyJSON jval | BodyText string

text \<open>A line on standard output: one the program prints, or the access-log
  line gin's \<open>Logger\<close> writes for a request, of which the model keeps the
  status, method and path (the time stamp, latency and client address it
  also holds come from outside the program).\<close>

datatype out_line = Printed string | AccessLog nat string string

record gin_ctx =
  req_method :: string
  req_path :: string
  req_body :: "string + string"
  body_closed :: bool
  resp_headers :: "string \<rightharpoonup> string"
  resp_status :: "nat option"
  resp_body :: "resp_body option"
  aborted :: bool
  stdout :: "out_line list"
  gateway_calls :: "(string \<times> string \<times> (string \<times> jval) list) list"

type_synonym handler_result = "(go_panic \<times> gin_ctx) + gin_ctx"

text \<open>\<open>c.JSON(code, obj)\<close>: status, content type and JSON body.\<close>

definition gin_JSON :: "nat \<Rightarrow> jval \<Rightarrow> gin_ctx \<Rightarrow> gin_ctx" where
  "gin_JSON code obj c =
     c\<lparr>resp_headers := (resp_headers c)(''Content-Type'' \<mapsto> ''application/json; charset=utf-8''),
       resp_status := Some code, resp_body := Some (BodyJSON obj)\<rparr>"

text \<open>\<open>c.AbortWithStatus(code)\<close>: the status is written with no body and the
  remaining handlers of the chain are skipped.\<close>

definition gin_AbortWithStatus :: "nat \<Rightarrow> gin_ctx \<Rightarrow> gin_ctx" where
  "gin_AbortWithStatus code c = c\<lparr>resp_status := Some code, aborted := True\<rparr>"

text \<open>\<open>c.Writer.Header().Set(k, v)\<close>.\<close>

definition header_Set :: "string \<Rightarrow> string \<Rightarrow> gin_ctx \<Rightarrow> gin_ctx" where
  "header_Set k v c = c\<lparr>resp_headers := (resp_headers c)(k \<mapsto> v)\<rparr>"

text \<open>\<open>gin.H{"error": msg}\<close>.\<close>

definition gin_H_error :: "string \<Rightarrow> jval" where
  "gin_H_error msg = JMap [(''error'', JStr msg)]"

text \<open>\<open>fmt.Println(a, b, ...)\<close>: the operands separated by spaces, one line.\<close>

fun join_spaces :: "string list \<Rightarrow> string" where
  "join_spaces [] = []"
| "join_spaces [a] = a"
| "join_spaces (a # b # rest) = a @ '' '' @ join_spaces (b # rest)"

definition fmt_Println :: "string list \<Rightarrow> gin_ctx \<Rightarrow> gin_ctx" where
  "fmt_Println args c = c\<lparr>stdout := stdout c @ [Printed (join_spaces args)]\<rparr>"

text \<open>\<open>c.Request.Body.Close()\<close>.\<close>

definition body_Close :: "gin_ctx \<Rightarrow> gin_ctx" where
  "body_Close c = c\<lparr>body_closed := True\<rparr>"

text \<open>The context gin hands the handler chain for a new request.\<close>

definition new_request :: "string \<Rightarrow> string \<Rightarrow> string + string \<Rightarrow> gin_ctx" where
  "new_request method path body =
     \<lparr>req_method = method, req_path = path, req_body = body, body_closed = False,
      resp_headers = Map.empty, resp_status = None, resp_body = None, aborted = False,
      stdout = [], gateway_calls = []\<rparr>"

text \<open>The two kinds of lines of an output, in order.\<close>

fun printed_lines :: "out_line list \<Rightarrow> string list" where
  "printed_lines [] = []"
| "printed_lines (Printed s # ls) = s # printed_lines ls"
| "printed_lines (AccessLog _ _ _ # ls) = printed_lines ls"

fun access_lines :: "out_line list \<Rightarrow> (nat \<times> string \<times> string) list" where
  "access_lines [] = []"
| "access_lines (Printed _ # ls) = access_lines ls"
| "access_lines (AccessLog st m p # ls) = (st, m, p) # access_lines ls"

text \<open>What a client observes of a handler's result: status and body, or
  nothing when the handler panicked.\<close>

definition response :: "handler_result \<Rightarrow> (nat option \<times> resp_body option) option" where
  "response r = (case r of Inl _ \<Rightarrow> None | Inr c \<Rightarrow> Some (resp_status c, resp_body c))"

declare gin_JSON_def [go_defs] gin_AbortWithStatus_def [go_defs] header_Set_def [go_defs]
  gin_H_error_def [go_defs] fmt_Println_def [go_defs] body_Close_def [go_defs]

subsection \<open>Field equations\<close>

lemma response_Inr [simp]: "response (Inr c) = Some (resp_status c, resp_body c)"
  by (simp add: response_def)

lemma gin_JSON_fields [ctx_simps]:
  "resp_status (gin_JSON code obj c) = Some code"
  "resp_body (gin_JSON code obj c) = Some (BodyJSON obj)"
  "req_method (gin_JSON code obj c) = req_method c"
  "req_path (gin_JSON code obj c) = req_path c"
  "req_body (gin_JSON code obj c) = req_body c"
  "body_closed (gin_JSON code obj c) = body_closed c"
  "aborted (gin_JSON code obj c) = aborted c"
  "stdout (gin_JSON code obj c) = stdout c"
  "gateway_calls (gin_JSON code obj c) = gateway_calls c"
  "resp_headers (gin_JSON code obj c) k =
     (if k = ''Content-Type'' then Some ''application/json; charset=utf-8'' else resp_headers c k)"
  by (simp_all add: gin_JSON_def)

lemma fmt_Println_fields [ctx_simps]:
  "stdout (fmt_Println args c) = stdout c @ [Printed (join_spaces args)]"
  "req_body (fmt_Println args c) = req_body c"
  "resp_status (fmt_Println args c) = resp_status c"
  "resp_body (fmt_Println args c) = resp_body c"
  "resp_headers (fmt_Println args c) = resp_headers c"
  "body_closed (fmt_Println args c) = body_closed c"
  "gateway_calls (fmt_Println args c) = gateway_calls c"
  by (simp_all add: fmt_Println_def)

lemma body_Close_fields [ctx_simps]:
  "body_closed (body_Close c) = True"
  "stdout (body_Close c) = stdout c"
  "req_body (body_Close c) = req_body c"
  "resp_status (body_Close c) = resp_status c"
  "resp_body (body_Close c) = resp_body c"
  "resp_headers (body_Close c) = resp_headers c"
  "gateway_calls (body_Close c) = gateway_calls c"
  by (simp_all add: body_Close_def)

lemma header_Set_fields [ctx_simps]:
  "resp_headers (header_Set k v c) = (resp_headers c)(k \<mapsto> v)"
  "resp_status (header_Set k v c) = resp_status c"
  "resp_body (header_Set k v c) = resp_body c"
  "req_method (header_Set k v c) = req_method c"
  "req_path (header_Set k v c) = req_path c"
  "req_body (header_Set k v c) = req_body c"
  "aborted (header_Set k v c) = aborted c"
  "gateway_calls (header_Set k v c) = gateway_calls c"
  "stdout (header_Set k v c) = stdout c"
  "body_closed (header_Set k v c) = body_closed c"
  by (simp_all add: header_Set_def)

lemma gin_AbortWithStatus_fields [ctx_simps]:
  "resp_status (gin_AbortWithStatus code c) = Some code"
  "aborted (gin_AbortWithStatus code c) = True"
  "resp_body (gin_AbortWithStatus code c) = resp_body c"
  "resp_headers (gin_AbortWithStatus code c) = resp_headers c"
  "gateway_calls (gin_AbortWithStatus code c) = gateway_calls c"
  "stdout (gin_AbortWithStatus code c) = stdout c"
  "body_closed (gin_AbortWithStatus code c) = body_closed c"
  by (simp_all add: gin_AbortWithStatus_def)

lemma printed_lines_append [simp]: "printed_lines (xs @ ys) = printed_lines xs @ printed_lines ys"
  by (induction xs rule: printed_lines.induct) simp_all

lemma printed_lines_Printed [simp]: "printed_lines (map Printed xs) = xs"
  by (induction xs) simp_all

lemma access_lines_Printed [simp]: "access_lines (map Printed xs) = []"
  by (induction xs) simp_all

lemma access_lines_append [simp]: "access_lines (xs @ ys) = access_lines xs @ access_lines ys"
  by (induction xs rule: access_lines.induct) simp_all

end
