(* ===== verification/Callback.thy ===== *)
theory Callback
  imports Signature Go_Url Gin_Context
begin

text \<open>
  \<open>PaymentGatewayCallback\<close> (src/main.go, lines 78--137), the handler of
  \<open>POST /payment-callback\<close>.  It reads the whole body (500 if that fails),
  prints it, defers closing it, parses it with \<open>url.ParseQuery\<close> (500 on any
  parse error), takes the first value of \<open>razorpay_payment_id\<close>,
  \<open>razorpay_order_id\<close> and \<open>razorpay_signature\<close> in that order (400 naming
  the first one that is absent or empty), checks the signature with
  \<open>verifyRazorpaySignature\<close> against \<open>RAZORPAY_KEY_SECRET\<close> (400 if it
  fails) and answers 200 with the payment echoed back.  The handler's
  specification is \<open>callback_spec\<close>, an outcome computed from the body alone,
  and \<open>callback_result\<close>, the context that outcome leaves; the refinement
  theorem says the handler produces exactly that context and never panics.
\<close>

text \<open>The \<open>Payment\<close> struct (lines 78--82) and its JSON encoding by its
  \<open>json\<close> tags.\<close>

record payment =
  PaymentID :: string
  OrderID :: string
  Signature :: string

definition payment_json :: "payment \<Rightarrow> jval" where
  "payment_json p =
     JObj [(''razorpay_payment_id'', JStr (PaymentID p)),
           (''razorpay_order_id'', JStr (OrderID p)),
           (''razorpay_signature'', JStr (Signature p))]"

text \<open>Lines 134--136: \<open>gin.H{"paymentData": Payment}\<close>, the body of the
  200 answer (a map with one key).\<close>

definition payment_response :: "payment \<Rightarrow> jval" where
  "payment_response p = JMap [(''paymentData'', payment_json p)]"

declare payment_response_def [simp]

text \<open>The pattern of lines 103--104 (and 109--110, 115--116):
  \<open>v, exists := parsedQuery[k]; if !exists || len(v[0]) == 0\<close>.  \<open>Inr None\<close>
  is the early return with 400, \<open>Inr (Some v)\<close> the value \<open>v[0]\<close>, and
  \<open>Inl\<close> the panic of \<open>v[0]\<close> on an empty slice.\<close>

definition required_field :: "url_values \<Rightarrow> string \<Rightarrow> go_panic + string option" where
  "required_field parsedQuery k =
     (case parsedQuery k of
        None \<Rightarrow> Inr None
      | Some vs \<Rightarrow>
          (case go_index vs 0 of
             Inl p \<Rightarrow> Inl p
           | Inr v \<Rightarrow> Inr (if length v = 0 then None else Some v)))"

text \<open>Lines 95--136: everything after the body has been read and printed.\<close>

definition callback_parsed :: "hash_fn \<Rightarrow> env \<Rightarrow> string \<Rightarrow> gin_ctx \<Rightarrow> handler_result" where
  "callback_parsed sha256 e body c =
     (case ParseQuery body of
        (parsedQuery, err) \<Rightarrow>
          if err \<noteq> None then Inr (gin_JSON 500 (gin_H_error ''Failed to parse query parameters'') c)
          else
            (case required_field parsedQuery ''razorpay_payment_id'' of
               Inl p \<Rightarrow> Inl (p, c)
             | Inr None \<Rightarrow> Inr (gin_JSON 400 (gin_H_error ''Missing payment_id parameter'') c)
             | Inr (Some paymentID) \<Rightarrow>
                 (case required_field parsedQuery ''razorpay_order_id'' of
                    Inl p \<Rightarrow> Inl (p, c)
                  | Inr None \<Rightarrow> Inr (gin_JSON 400 (gin_H_error ''Missing order_id parameter'') c)
                  | Inr (Some orderID) \<Rightarrow>
                      (case required_field parsedQuery ''razorpay_signature'' of
                         Inl p \<Rightarrow> Inl (p, c)
                       | Inr None \<Rightarrow> Inr (gin_JSON 400 (gin_H_error ''Missing signature parameter'') c)
                       | Inr (Some signature) \<Rightarrow>
                           (let Payment = \<lparr>PaymentID = paymentID, OrderID = orderID, Signature = signature\<rparr>
                            in if \<not> verifyRazorpaySignature sha256 (OrderID Payment) (PaymentID Payment)
                                     (Signature Payment) (os_Getenv e ''RAZORPAY_KEY_SECRET'')
                               then Inr (gin_JSON 400 (gin_H_error ''failed to verify'') c)
                               else Inr (gin_JSON 200 (payment_response Payment) c))))))"

text \<open>Lines 84--93 and the deferred \<open>Close\<close> of line 93, which runs when the
  handler returns or panics after a successful read.\<close>

definition PaymentGatewayCallback :: "hash_fn \<Rightarrow> env \<Rightarrow> gin_ctx \<Rightarrow> handler_result" where
  "PaymentGatewayCallback sha256 e c =
     (case req_body c of
        Inl _ \<Rightarrow> Inr (gin_JSON 500 (gin_H_error ''Unable to read request body'') c)
      | Inr body \<Rightarrow>
          (let c = fmt_Println [''Received request body:'', body] c
           in map_sum (apsnd body_Close) body_Close (callback_parsed sha256 e body c)))"

subsection \<open>Specification\<close>

datatype callback_outcome =
    Unreadable | Unparseable | Missing string | Rejected | Accepted payment

definition first_value :: "url_values \<Rightarrow> string \<Rightarrow> string" where
  "first_value q k = (case q k of Some (v # _) \<Rightarrow> v | _ \<Rightarrow> [])"

definition callback_spec :: "hash_fn \<Rightarrow> string \<Rightarrow> string + string \<Rightarrow> callback_outcome" where
  "callback_spec H secret body =
     (case body of
        Inl _ \<Rightarrow> Unreadable
      | Inr b \<Rightarrow>
          (let q = fst (ParseQuery b); p = first_value q ''razorpay_payment_id'';
               ord = first_value q ''razorpay_order_id''; s = first_value q ''razorpay_signature''
           in if snd (ParseQuery b) \<noteq> None then Unparseable
              else if p = [] then Missing ''payment_id''
              else if ord = [] then Missing ''order_id''
              else if s = [] then Missing ''signature''
              else if s = expected_signature H secret ord p
              then Accepted \<lparr>PaymentID = p, OrderID = ord, Signature = s\<rparr>
              else Rejected))"

fun outcome_response :: "callback_outcome \<Rightarrow> nat \<times> jval" where
  "outcome_response Unreadable = (500, gin_H_error ''Unable to read request body'')"
| "outcome_response Unparseable = (500, gin_H_error ''Failed to parse query parameters'')"
| "outcome_response (Missing f) = (400, gin_H_error (''Missing '' @ f @ '' parameter''))"
| "outcome_response Rejected = (400, gin_H_error ''failed to verify'')"
| "outcome_response (Accepted p) = (200, JMap [(''paymentData'', payment_json p)])"

text \<open>The context the handler should leave: the response of the outcome; after
  a successful read, the body printed once and the body closed.\<close>

definition callback_result :: "hash_fn \<Rightarrow> env \<Rightarrow> gin_ctx \<Rightarrow> gin_ctx" where
  "callback_result H e c =
     (let r = outcome_response (callback_spec H (os_Getenv e ''RAZORPAY_KEY_SECRET'') (req_body c))
      in case req_body c of
           Inl _ \<Rightarrow> gin_JSON (fst r) (snd r) c
         | Inr b \<Rightarrow> body_Close (gin_JSON (fst r) (snd r) (fmt_Println [''Received request body:'', b] c)))"

text \<open>The environment of the witnesses: the secret set to \<open>k\<close>.\<close>

definition env_k :: env where "env_k = Map.empty(''RAZORPAY_KEY_SECRET'' \<mapsto> ''k'')"

subsection \<open>Lemmas\<close>

lemma required_field_first:
  assumes "\<And>vs. q k = Some vs \<Longrightarrow> vs \<noteq> []"
  shows "required_field q k = Inr (if first_value q k = [] then None else Some (first_value q k))"
  using assms by (auto simp: required_field_def first_value_def split: option.split list.split)

lemma ParseQuery_nonempty: "fst (ParseQuery b) k = Some vs \<Longrightarrow> vs \<noteq> []"
  unfolding ParseQuery_def by (rule parseQuery_values_nonempty) auto

lemma callback_parsed_spec:
  assumes "key_digest_fits H (os_Getenv e ''RAZORPAY_KEY_SECRET'')"
  shows "callback_parsed H e b c =
    Inr (gin_JSON (fst (outcome_response (callback_spec H (os_Getenv e ''RAZORPAY_KEY_SECRET'') (Inr b))))
                  (snd (outcome_response (callback_spec H (os_Getenv e ''RAZORPAY_KEY_SECRET'') (Inr b)))) c)"
proof -
  obtain q err where pq: "ParseQuery b = (q, err)" by fastforce
  have ne: "\<And>k vs. q k = Some vs \<Longrightarrow> vs \<noteq> []"
    using ParseQuery_nonempty [of b] pq by auto
  show ?thesis
    using ne assms
    by (simp add: callback_parsed_def callback_spec_def pq required_field_first verify_expected Let_def)
qed

lemma PaymentGatewayCallback_spec:
  assumes "key_digest_fits H (os_Getenv e ''RAZORPAY_KEY_SECRET'')"
  shows "PaymentGatewayCallback H e c = Inr (callback_result H e c)"
  using callback_parsed_spec [OF assms]
  by (simp add: PaymentGatewayCallback_def callback_result_def callback_spec_def Let_def split: sum.split)

lemma required_field_not_Inl: "required_field (fst (ParseQuery b)) k \<noteq> Inl p"
  using ParseQuery_nonempty [of b k]
  by (auto simp: required_field_def go_index_def split: option.splits if_splits)

lemma callback_parsed_Inr: "\<exists>c'. callback_parsed H e b c = Inr c'"
  using required_field_not_Inl [of b]
  by (auto simp: callback_parsed_def Let_def split: prod.split sum.split option.split)

lemma callback_parsed_json: "callback_parsed H e b c = Inr c' \<Longrightarrow> \<exists>code obj. c' = gin_JSON code obj c"
  by (auto simp: callback_parsed_def Let_def split: prod.splits sum.splits option.splits if_splits)

subsection \<open>Lemmas about the form-encoded body\<close>

lemma ParseQuery_form_encode [simp]:
  "ParseQuery (form_encode ps) = (fold (\<lambda>kv m. values_add m kv) ps Map.empty, None)"
  by (simp add: ParseQuery_def parseQuery_form_encode)

lemma callback_parsed_ok:
  assumes "ParseQuery b = (q, None)"
  shows "callback_parsed H e b c =
    (let p = first_value q ''razorpay_payment_id''; ord = first_value q ''razorpay_order_id'';
         s = first_value q ''razorpay_signature''
     in if p = [] then Inr (gin_JSON 400 (gin_H_error ''Missing payment_id parameter'') c)
        else if ord = [] then Inr (gin_JSON 400 (gin_H_error ''Missing order_id parameter'') c)
        else if s = [] then Inr (gin_JSON 400 (gin_H_error ''Missing signature parameter'') c)
        else if verifyRazorpaySignature H ord p s (os_Getenv e ''RAZORPAY_KEY_SECRET'')
        then Inr (gin_JSON 200 (JMap [(''paymentData'',
                   payment_json \<lparr>PaymentID = p, OrderID = ord, Signature = s\<rparr>)]) c)
        else Inr (gin_JSON 400 (gin_H_error ''failed to verify'') c))"
proof -
  have ne: "\<And>k vs. q k = Some vs \<Longrightarrow> vs \<noteq> []"
    using ParseQuery_nonempty [of b] assms by auto
  show ?thesis
    using ne by (simp add: callback_parsed_def assms required_field_first Let_def)
qed

lemma PaymentGatewayCallback_read:
  "req_body c = Inr b \<Longrightarrow> PaymentGatewayCallback H e c =
     map_sum (apsnd body_Close) body_Close (callback_parsed H e b (fmt_Println [''Received request body:'', b] c))"
  by (simp add: PaymentGatewayCallback_def)

lemmas form_values_simps = first_value_def values_add_def values_get_def

subsection \<open>Properties\<close>

text \<open>C3: refinement.  When the secret's digest fits a block (always, for
  SHA-256), the status and JSON body the handler answers are exactly those of
  the outcome \<open>callback_spec\<close> computes from the request body: 500 for an
  unreadable or unparseable body, 400 naming the first missing field, 400 for
  a wrong signature, 200 echoing the payment otherwise.\<close>
theorem PaymentGatewayCallback_refines:
  assumes "key_digest_fits H (os_Getenv e ''RAZORPAY_KEY_SECRET'')"
  shows "response (PaymentGatewayCallback H e c) =
         Some (Some (fst (outcome_response (callback_spec H (os_Getenv e ''RAZORPAY_KEY_SECRET'') (req_body c)))),
               Some (BodyJSON (snd (outcome_response (callback_spec H (os_Getenv e ''RAZORPAY_KEY_SECRET'') (req_body c))))))"
  using PaymentGatewayCallback_spec [OF assms, of c]
  by (simp add: callback_result_def Let_def ctx_simps split: sum.split)

text \<open>C4: the handler never panics: the \<open>paymentID[0]\<close>, \<open>orderID[0]\<close>
  and \<open>signature[0]\<close> indexings are always in range, because every key
  \<open>ParseQuery\<close> reports has at least one value.\<close>
theorem PaymentGatewayCallback_never_panics: "\<exists>c'. PaymentGatewayCallback H e c = Inr c'"
proof (cases "req_body c")
  case (Inl ioerr)
  then show ?thesis by (simp add: PaymentGatewayCallback_def)
next
  case (Inr b)
  obtain c1 where "callback_parsed H e b (fmt_Println [''Received request body:'', b] c) = Inr c1"
    using callback_parsed_Inr by blast
  with Inr show ?thesis by (simp add: PaymentGatewayCallback_read)
qed

text \<open>C5: a body that lacks one of the three fields is answered 400 naming that
  field, whatever the other fields hold; the fields are checked in the order
  payment id, order id, signature.\<close>
theorem PaymentGatewayCallback_missing_field:
  "response (PaymentGatewayCallback H e
      (c\<lparr>req_body := Inr (form_encode [(''razorpay_order_id'', ord), (''razorpay_signature'', s)])\<rparr>))
     = Some (Some 400, Some (BodyJSON (gin_H_error ''Missing payment_id parameter''))) \<and>
   response (PaymentGatewayCallback H e
      (c\<lparr>req_body := Inr (form_encode [(''razorpay_payment_id'', p # ps), (''razorpay_signature'', s)])\<rparr>))
     = Some (Some 400, Some (BodyJSON (gin_H_error ''Missing order_id parameter''))) \<and>
   response (PaymentGatewayCallback H e
      (c\<lparr>req_body := Inr (form_encode [(''razorpay_payment_id'', p # ps), (''razorpay_order_id'', r # rs)])\<rparr>))
     = Some (Some 400, Some (BodyJSON (gin_H_error ''Missing signature parameter'')))"
  by (simp add: PaymentGatewayCallback_read callback_parsed_ok form_values_simps ctx_simps Let_def del: form_encode.simps)

text \<open>C6: a body \<open>ParseQuery\<close> rejects (here: one holding a semicolon) is
  answered 500 "Failed to parse query parameters", not 400, even when all three
  fields are present.\<close>
theorem PaymentGatewayCallback_unparseable:
  assumes "req_body c = Inr b" and "CHR '';'' \<in> set b"
  shows "response (PaymentGatewayCallback H e c)
         = Some (Some 500, Some (BodyJSON (gin_H_error ''Failed to parse query parameters'')))"
proof -
  obtain q err where pq: "ParseQuery b = (q, err)" by fastforce
  have "err \<noteq> None"
    using parseQuery_semicolon [OF assms(2), of Map.empty None] pq by (simp add: ParseQuery_def)
  with pq assms(1) show ?thesis
    by (simp add: PaymentGatewayCallback_def callback_parsed_def ctx_simps)
qed

text \<open>C7: when reading the body fails the handler answers 500 "Unable to read
  request body" and changes nothing else: it prints nothing and does not close
  the body (the \<open>defer\<close> is registered after the read).\<close>
theorem PaymentGatewayCallback_unreadable:
  "PaymentGatewayCallback H e (c\<lparr>req_body := Inl ioerr\<rparr>)
   = Inr (gin_JSON 500 (gin_H_error ''Unable to read request body'') (c\<lparr>req_body := Inl ioerr\<rparr>))"
  by (simp add: PaymentGatewayCallback_def)

text \<open>C8: only the first value of a repeated field counts: an empty first
  \<open>razorpay_payment_id\<close> is reported missing even when a later one is
  set.\<close>
theorem PaymentGatewayCallback_first_value_wins:
  "response (PaymentGatewayCallback H e
      (c\<lparr>req_body := Inr (form_encode [(''razorpay_payment_id'', []), (''razorpay_payment_id'', p),
             (''razorpay_order_id'', ord), (''razorpay_signature'', s)])\<rparr>))
   = Some (Some 400, Some (BodyJSON (gin_H_error ''Missing payment_id parameter'')))"
  by (simp add: PaymentGatewayCallback_read callback_parsed_ok form_values_simps ctx_simps Let_def del: form_encode.simps)

text \<open>C9: after a successful read the handler prints the raw body, signature
  included, exactly once on standard output, and closes the body, on every
  path.\<close>
theorem PaymentGatewayCallback_logs_and_closes:
  "(case PaymentGatewayCallback H e (c\<lparr>req_body := Inr b\<rparr>) of
      Inl _ \<Rightarrow> False
    | Inr c' \<Rightarrow> stdout c' = stdout c @ [Printed (''Received request body: '' @ b)] \<and> body_closed c')"
proof -
  let ?c = "c\<lparr>req_body := Inr b\<rparr>"
  obtain c1 where c1: "callback_parsed H e b (fmt_Println [''Received request body:'', b] ?c) = Inr c1"
    using callback_parsed_Inr by blast
  from callback_parsed_json [OF c1] obtain code obj
    where "c1 = gin_JSON code obj (fmt_Println [''Received request body:'', b] ?c)" by blast
  with c1 show ?thesis by (simp add: PaymentGatewayCallback_read ctx_simps)
qed

text \<open>Witness for C3.\<close>

theorem PaymentGatewayCallback_refines_witness:
  "key_digest_fits toy_hash (os_Getenv env_k ''RAZORPAY_KEY_SECRET'') \<and>
   response (PaymentGatewayCallback toy_hash env_k (new_request ''POST'' ''/payment-callback'' (Inr ''a=b''))) =
     Some (Some (fst (outcome_response (callback_spec toy_hash (os_Getenv env_k ''RAZORPAY_KEY_SECRET'')
                   (req_body (new_request ''POST'' ''/payment-callback'' (Inr ''a=b'')))))),
           Some (BodyJSON (snd (outcome_response (callback_spec toy_hash (os_Getenv env_k ''RAZORPAY_KEY_SECRET'')
                   (req_body (new_request ''POST'' ''/payment-callback'' (Inr ''a=b''))))))))"
proof -
  have h: "key_digest_fits toy_hash (os_Getenv env_k ''RAZORPAY_KEY_SECRET'')"
    by (simp add: env_k_def key_digest_fits_def)
  show ?thesis using h PaymentGatewayCallback_refines [OF h] by blast
qed

text \<open>Witness for C6.\<close>

theorem PaymentGatewayCallback_unparseable_witness:
  "req_body (new_request ''POST'' ''/payment-callback'' (Inr ''a;b'')) = Inr ''a;b'' \<and> CHR '';'' \<in> set ''a;b'' \<and>
   response (PaymentGatewayCallback toy_hash env_k (new_request ''POST'' ''/payment-callback'' (Inr ''a;b'')))
     = Some (Some 500, Some (BodyJSON (gin_H_error ''Failed to parse query parameters'')))"
proof -
  have h1: "req_body (new_request ''POST'' ''/payment-callback'' (Inr ''a;b'')) = Inr ''a;b''"
    by (simp add: new_request_def)
  have h2: "CHR '';'' \<in> set ''a;b''" by simp
  show ?thesis using h1 h2 PaymentGatewayCallback_unparseable [OF h1 h2] by blast
qed

end
