(* ===== verification/Order.thy ===== *)
theory Order
  imports Gin_Context
begin

text \<open>
  \<open>createRazorpayOrder\<close> (src/main.go, lines 52--76), the handler of
  \<open>POST /create-order\<close>.  It builds a Razorpay client from
  \<open>RAZORPAY_KEY_ID\<close> and \<open>RAZORPAY_KEY_SECRET\<close>, sends the fixed order
  (5000 paise, INR, receipt \<open>receipt#1\<close>, captured on payment) to the
  gateway once, and answers 500 with the gateway's error text, or 200 with the
  gateway's \<open>id\<close> and \<open>amount\<close> and the public key id.  The gateway is an
  interface (\<open>order_gateway\<close>): any function from the client and the order
  payload to an error text or the order object the gateway returned; the call
  is recorded in the context's \<open>gateway_calls\<close>, so that "one call, no retry"
  is a statement about the model.
\<close>

text \<open>\<open>razorpay.NewClient(key, secret)\<close>: the credentials the client
  authenticates with.\<close>

record razorpay_client =
  client_key :: string
  client_secret :: string

type_synonym order_gateway = "razorpay_client \<Rightarrow> (string \<times> jval) list \<Rightarrow> string + (string \<rightharpoonup> jval)"

text \<open>Lines 56--61: the order payload.\<close>

definition order_data :: "(string \<times> jval) list" where
  "order_data =
     [(''amount'', JInt 5000), (''currency'', JStr ''INR''),
      (''receipt'', JStr ''receipt#1''), (''payment_capture'', JInt 1)]"

text \<open>\<open>order["id"]\<close> on a \<open>map[string]interface{}\<close>: \<open>nil\<close> (JSON
  \<open>null\<close>) for an absent key.\<close>

definition go_map_get :: "(string \<rightharpoonup> jval) \<Rightarrow> string \<Rightarrow> jval" where
  "go_map_get m k = (case m k of None \<Rightarrow> JNull | Some v \<Rightarrow> v)"

text \<open>Lines 69--73: the response object.\<close>

definition order_response :: "(string \<rightharpoonup> jval) \<Rightarrow> string \<Rightarrow> jval" where
  "order_response order keyID =
     JMap [(''id'', go_map_get order ''id''), (''amount'', go_map_get order ''amount''),
           (''key'', JStr keyID)]"

definition createRazorpayOrder :: "order_gateway \<Rightarrow> env \<Rightarrow> gin_ctx \<Rightarrow> gin_ctx" where
  "createRazorpayOrder gateway e c =
     (let client = \<lparr>client_key = os_Getenv e ''RAZORPAY_KEY_ID'',
                    client_secret = os_Getenv e ''RAZORPAY_KEY_SECRET''\<rparr>;
          data = order_data;
          c = c\<lparr>gateway_calls := gateway_calls c @ [(client_key client, client_secret client, data)]\<rparr>
      in case gateway client data of
           Inl err \<Rightarrow> gin_JSON 500 (gin_H_error err) c
         | Inr order \<Rightarrow> gin_JSON 200 (order_response order (os_Getenv e ''RAZORPAY_KEY_ID'')) c)"

text \<open>Field \<open>k\<close> of a JSON object, for stating properties of responses.\<close>

definition jfield :: "resp_body option \<Rightarrow> string \<Rightarrow> jval option" where
  "jfield b k =
     (case b of Some (BodyJSON (JObj fs)) \<Rightarrow> map_of fs k | Some (BodyJSON (JMap fs)) \<Rightarrow> map_of fs k
      | _ \<Rightarrow> None)"

text \<open>Witness inputs: a gateway that returns an order without an \<open>id\<close>, and
  one that is down.\<close>

definition gateway_no_id :: order_gateway where
  "gateway_no_id client data = Inr (Map.empty(''amount'' \<mapsto> JInt 5000))"

definition gateway_down :: order_gateway where
  "gateway_down client data = Inl ''Post https://api.razorpay.com/v1/orders: connection refused''"

definition env_keys :: env where
  "env_keys = Map.empty(''RAZORPAY_KEY_ID'' \<mapsto> ''rzp_test_1'', ''RAZORPAY_KEY_SECRET'' \<mapsto> ''s3cr3t'')"

subsection \<open>Lemmas\<close>

lemma createRazorpayOrder_cases:
  "createRazorpayOrder gateway e c =
     (let c' = c\<lparr>gateway_calls := gateway_calls c @
                  [(os_Getenv e ''RAZORPAY_KEY_ID'', os_Getenv e ''RAZORPAY_KEY_SECRET'', order_data)]\<rparr>
      in case gateway \<lparr>client_key = os_Getenv e ''RAZORPAY_KEY_ID'',
                       client_secret = os_Getenv e ''RAZORPAY_KEY_SECRET''\<rparr> order_data of
           Inl err \<Rightarrow> gin_JSON 500 (gin_H_error err) c'
         | Inr order \<Rightarrow> gin_JSON 200 (order_response order (os_Getenv e ''RAZORPAY_KEY_ID'')) c')"
  by (simp add: createRazorpayOrder_def)

lemma createRazorpayOrder_fields [ctx_simps]:
  "req_method (createRazorpayOrder gateway e c) = req_method c"
  "req_path (createRazorpayOrder gateway e c) = req_path c"
  "req_body (createRazorpayOrder gateway e c) = req_body c"
  "body_closed (createRazorpayOrder gateway e c) = body_closed c"
  "aborted (createRazorpayOrder gateway e c) = aborted c"
  "stdout (createRazorpayOrder gateway e c) = stdout c"
  "k \<noteq> ''Content-Type'' \<Longrightarrow> resp_headers (createRazorpayOrder gateway e c) k = resp_headers c k"
  by (simp_all add: createRazorpayOrder_cases Let_def ctx_simps split: sum.split)

subsection \<open>Properties\<close>

text \<open>C10: every successful answer carries the configured public key id
  verbatim, whatever the gateway's order object holds.\<close>

theorem createRazorpayOrder_key_verbatim:
  assumes "resp_status (createRazorpayOrder gateway e c) = Some 200"
  shows "jfield (resp_body (createRazorpayOrder gateway e c)) ''key'' = Some (JStr (os_Getenv e ''RAZORPAY_KEY_ID''))"
  using assms
  by (auto simp: createRazorpayOrder_cases Let_def ctx_simps jfield_def order_response_def split: sum.splits)

text \<open>Witness for C10.\<close>

theorem createRazorpayOrder_key_verbatim_witness:
  "resp_status (createRazorpayOrder gateway_no_id env_keys (new_request ''POST'' ''/create-order'' (Inr [])))
     = Some 200 \<and>
   jfield (resp_body (createRazorpayOrder gateway_no_id env_keys (new_request ''POST'' ''/create-order'' (Inr []))))
     ''key'' = Some (JStr ''rzp_test_1'')"
proof -
  have h: "resp_status (createRazorpayOrder gateway_no_id env_keys (new_request ''POST'' ''/create-order'' (Inr [])))
     = Some 200"
    by (simp add: createRazorpayOrder_cases gateway_no_id_def Let_def ctx_simps)
  have k: "os_Getenv env_keys ''RAZORPAY_KEY_ID'' = ''rzp_test_1''"
    by (simp add: env_keys_def)
  show ?thesis using h createRazorpayOrder_key_verbatim [OF h] k by simp
qed

text \<open>C11: when the gateway call fails the handler answers 500 with the
  gateway's error text passed through unchanged.\<close>

theorem createRazorpayOrder_gateway_error:
  assumes "gateway \<lparr>client_key = os_Getenv e ''RAZORPAY_KEY_ID'',
                    client_secret = os_Getenv e ''RAZORPAY_KEY_SECRET''\<rparr> order_data = Inl msg"
  shows "resp_status (createRazorpayOrder gateway e c) = Some 500 \<and>
         resp_body (createRazorpayOrder gateway e c) = Some (BodyJSON (JMap [(''error'', JStr msg)]))"
  using assms by (simp add: createRazorpayOrder_cases Let_def ctx_simps gin_H_error_def)

text \<open>Witness for C11.\<close>

theorem createRazorpayOrder_gateway_error_witness:
  "gateway_down \<lparr>client_key = os_Getenv env_keys ''RAZORPAY_KEY_ID'',
                 client_secret = os_Getenv env_keys ''RAZORPAY_KEY_SECRET''\<rparr> order_data
     = Inl ''Post https://api.razorpay.com/v1/orders: connection refused'' \<and>
   resp_status (createRazorpayOrder gateway_down env_keys (new_request ''POST'' ''/create-order'' (Inr []))) = Some 500 \<and>
   resp_body (createRazorpayOrder gateway_down env_keys (new_request ''POST'' ''/create-order'' (Inr [])))
     = Some (BodyJSON (JMap [(''error'', JStr ''Post https://api.razorpay.com/v1/orders: connection refused'')]))"
proof -
  have h: "gateway_down \<lparr>client_key = os_Getenv env_keys ''RAZORPAY_KEY_ID'',
                 client_secret = os_Getenv env_keys ''RAZORPAY_KEY_SECRET''\<rparr> order_data
     = Inl ''Post https://api.razorpay.com/v1/orders: connection refused''"
    by (simp add: gateway_down_def)
  show ?thesis using h createRazorpayOrder_gateway_error [where gateway = gateway_down and e = env_keys, OF h] by blast
qed

text \<open>C12: on every path the handler calls the gateway exactly once, with the
  credentials from the environment and the fixed order of 5000 paise in INR,
  receipt \<open>receipt#1\<close>, captured on payment; there is no retry.\<close>

theorem createRazorpayOrder_one_call:
  "gateway_calls (createRazorpayOrder gateway e c) =
     gateway_calls c @ [(os_Getenv e ''RAZORPAY_KEY_ID'', os_Getenv e ''RAZORPAY_KEY_SECRET'',
       [(''amount'', JInt 5000), (''currency'', JStr ''INR''),
        (''receipt'', JStr ''receipt#1''), (''payment_capture'', JInt 1)])]"
  by (simp add: createRazorpayOrder_cases Let_def ctx_simps order_data_def split: sum.split)

text \<open>C13: the gateway's answer is not checked: an order object without an
  \<open>id\<close> still gives a 200 answer, whose \<open>id\<close> is \<open>null\<close>.\<close>

theorem createRazorpayOrder_missing_id:
  assumes "gateway \<lparr>client_key = os_Getenv e ''RAZORPAY_KEY_ID'',
                    client_secret = os_Getenv e ''RAZORPAY_KEY_SECRET''\<rparr> order_data = Inr order"
    and "order ''id'' = None"
  shows "resp_status (createRazorpayOrder gateway e c) = Some 200 \<and>
         jfield (resp_body (createRazorpayOrder gateway e c)) ''id'' = Some JNull"
  using assms
  by (simp add: createRazorpayOrder_cases Let_def ctx_simps jfield_def order_response_def go_map_get_def)

text \<open>Witness for C13.\<close>

theorem createRazorpayOrder_missing_id_witness:
  "gateway_no_id \<lparr>client_key = os_Getenv env_keys ''RAZORPAY_KEY_ID'',
                  client_secret = os_Getenv env_keys ''RAZORPAY_KEY_SECRET''\<rparr> order_data
     = Inr (Map.empty(''amount'' \<mapsto> JInt 5000)) \<and>
   (Map.empty(''amount'' \<mapsto> JInt 5000)) ''id'' = (None :: jval option) \<and>
   resp_status (createRazorpayOrder gateway_no_id env_keys (new_request ''POST'' ''/create-order'' (Inr []))) = Some 200 \<and>
   jfield (resp_body (createRazorpayOrder gateway_no_id env_keys (new_request ''POST'' ''/create-order'' (Inr []))))
     ''id'' = Some JNull"
proof -
  have h1: "gateway_no_id \<lparr>client_key = os_Getenv env_keys ''RAZORPAY_KEY_ID'',
                  client_secret = os_Getenv env_keys ''RAZORPAY_KEY_SECRET''\<rparr> order_data
     = Inr (Map.empty(''amount'' \<mapsto> JInt 5000))"
    by (simp add: gateway_no_id_def)
  have h2: "(Map.empty(''amount'' \<mapsto> JInt 5000)) ''id'' = (None :: jval option)"
    by simp
  show ?thesis using h1 h2 createRazorpayOrder_missing_id [where gateway = gateway_no_id and e = env_keys, OF h1 h2] by blast
qed

end
