(* ===== verification/Go_Sha256.thy ===== *)
theory Go_Sha256
  imports Go_Hmac
begin

text \<open>
  Go's crypto/sha256, the hash \<open>verifyRazorpaySignature\<close> passes to
  \<open>hmac.New\<close> (src/main.go, line 140) as \<open>sha256.New\<close>: SHA-256 of FIPS
  180-4 as Go computes it.  \<open>blockGeneric\<close> (sha256block.go) is
  \<open>sha256_block\<close>: the message schedule \<open>w[16..63]\<close> (\<open>sha256_schedule\<close>),
  the 64 rounds (\<open>sha256_round\<close>, one step of the loop over \<open>i\<close>) and the
  addition into \<open>h0..h7\<close>; its loop \<open>for len(p) >= chunk\<close> is
  \<open>sha256_blocks\<close>.  \<open>checkSum\<close> (sha256.go) is \<open>sha256_pad\<close> followed by
  the big-endian digest: a \<open>0x80\<close> byte, zeros up to 56 modulo 64, and the
  length in bits as a big-endian \<open>uint64\<close> (\<open>len <<= 3\<close>, which wraps, as
  the \<open>64 word\<close> does).  \<open>bits.RotateLeft32(x, -k)\<close> is
  \<open>rotr32 k x = x << (32 - k) | x >> k\<close>.  The streaming \<open>Write\<close>/\<open>Sum\<close>
  of a \<open>Digest\<close> buffers its input and hashes the whole written message,
  so the model is the one-shot \<open>Sum256\<close>.
\<close>

unbundle bit_operations_syntax

text \<open>\<open>_K\<close> and the initial \<open>h0..h7\<close>.\<close>

definition sha256_K :: "32 word list" where
  "sha256_K =
     [0x428a2f98, 0x71374491, 0xb5c0fbcf, 0xe9b5dba5, 0x3956c25b, 0x59f111f1, 0x923f82a4, 0xab1c5ed5] @
     [0xd807aa98, 0x12835b01, 0x243185be, 0x550c7dc3, 0x72be5d74, 0x80deb1fe, 0x9bdc06a7, 0xc19bf174] @
     [0xe49b69c1, 0xefbe4786, 0x0fc19dc6, 0x240ca1cc, 0x2de92c6f, 0x4a7484aa, 0x5cb0a9dc, 0x76f988da] @
     [0x983e5152, 0xa831c66d, 0xb00327c8, 0xbf597fc7, 0xc6e00bf3, 0xd5a79147, 0x06ca6351, 0x14292967] @
     [0x27b70a85, 0x2e1b2138, 0x4d2c6dfc, 0x53380d13, 0x650a7354, 0x766a0abb, 0x81c2c92e, 0x92722c85] @
     [0xa2bfe8a1, 0xa81a664b, 0xc24b8b70, 0xc76c51a3, 0xd192e819, 0xd6990624, 0xf40e3585, 0x106aa070] @
     [0x19a4c116, 0x1e376c08, 0x2748774c, 0x34b0bcb5, 0x391c0cb3, 0x4ed8aa4a, 0x5b9cca4f, 0x682e6ff3] @
     [0x748f82ee, 0x78a5636f, 0x84c87814, 0x8cc70208, 0x90befffa, 0xa4506ceb, 0xbef9a3f7, 0xc67178f2]"

definition sha256_init :: "32 word list" where
  "sha256_init = [0x6a09e667, 0xbb67ae85, 0x3c6ef372, 0xa54ff53a, 0x510e527f, 0x9b05688c, 0x1f83d9ab, 0x5be0cd19]"

definition rotr32 :: "nat \<Rightarrow> 32 word \<Rightarrow> 32 word" where
  "rotr32 k x = push_bit (32 - k) x OR drop_bit k x"

definition be_uint32 :: "byte \<Rightarrow> byte \<Rightarrow> byte \<Rightarrow> byte \<Rightarrow> 32 word" where
  "be_uint32 b0 b1 b2 b3 = push_bit 24 (ucast b0) OR push_bit 16 (ucast b1) OR push_bit 8 (ucast b2) OR ucast b3"

fun be_words :: "byte list \<Rightarrow> 32 word list" where
  "be_words (b0 # b1 # b2 # b3 # p) = be_uint32 b0 b1 b2 b3 # be_words p"
| "be_words _ = []"

definition sha256_next :: "32 word list \<Rightarrow> 32 word" where
  "sha256_next w =
     (let i = length w;
          v1 = w ! (i - 2); t1 = rotr32 17 v1 XOR rotr32 19 v1 XOR drop_bit 10 v1;
          v2 = w ! (i - 15); t2 = rotr32 7 v2 XOR rotr32 18 v2 XOR drop_bit 3 v2
      in t1 + w ! (i - 7) + t2 + w ! (i - 16))"

fun sha256_schedule :: "nat \<Rightarrow> 32 word list \<Rightarrow> 32 word list" where
  "sha256_schedule 0 w = w"
| "sha256_schedule (Suc n) w = sha256_schedule n (w @ [sha256_next w])"

fun sha256_round :: "32 word list \<Rightarrow> 32 word \<times> 32 word \<Rightarrow> 32 word list" where
  "sha256_round [a, b, c, d, e, f, g, h] (k, wi) =
     (let t1 = h + (rotr32 6 e XOR rotr32 11 e XOR rotr32 25 e) + ((e AND f) XOR (NOT e AND g)) + k + wi;
          t2 = (rotr32 2 a XOR rotr32 13 a XOR rotr32 22 a) + ((a AND b) XOR (a AND c) XOR (b AND c))
      in [t1 + t2, a, b, c, d + t1, e, f, g])"
| "sha256_round s kw = s"

definition sha256_block :: "32 word list \<Rightarrow> byte list \<Rightarrow> 32 word list" where
  "sha256_block h p =
     (let w = sha256_schedule 48 (be_words p)
      in map2 (+) h (foldl sha256_round h (zip sha256_K w)))"

function sha256_blocks :: "32 word list \<Rightarrow> byte list \<Rightarrow> 32 word list" where
  "sha256_blocks h p = (if length p < 64 then h else sha256_blocks (sha256_block h (take 64 p)) (drop 64 p))"
  by pat_completeness auto
termination
  by (relation "measure (\<lambda>(h, p). length p)") auto

declare sha256_blocks.simps [simp del]

definition be_uint64 :: "64 word \<Rightarrow> byte list" where
  "be_uint64 x = map (\<lambda>i. ucast (drop_bit (8 * i) x)) [7, 6, 5, 4, 3, 2, 1, 0]"

definition be_bytes32 :: "32 word \<Rightarrow> byte list" where
  "be_bytes32 x = [ucast (drop_bit 24 x), ucast (drop_bit 16 x), ucast (drop_bit 8 x), ucast x]"

definition sha256_pad :: "byte list \<Rightarrow> byte list" where
  "sha256_pad m =
     (let len = length m;
          t = (if len mod 64 < 56 then 56 - len mod 64 else 64 + 56 - len mod 64)
      in m @ 0x80 # replicate (t - 1) 0 @ be_uint64 (word_of_nat (len * 8)))"

definition sha256 :: "byte list \<Rightarrow> byte list" where
  "sha256 m = concat (map be_bytes32 (sha256_blocks sha256_init (sha256_pad m)))"

text \<open>\<open>sha256.New\<close> as a \<open>hash.Hash\<close>: \<open>BlockSize() = 64\<close>,
  \<open>Size() = 32\<close>.\<close>

definition sha256_hash :: hash_fn where
  "sha256_hash = \<lparr>hash_block_size = 64, hash_size = 32, hash_digest = sha256\<rparr>"

subsection \<open>Lemmas\<close>

lemma length_sha256_round: "length s = 8 \<Longrightarrow> length (sha256_round s kw) = 8"
  by (cases "(s, kw)" rule: sha256_round.cases) (simp_all add: Let_def)

lemma length_foldl_sha256_round: "length s = 8 \<Longrightarrow> length (foldl sha256_round s kws) = 8"
  by (induction kws arbitrary: s) (simp_all add: length_sha256_round)

lemma length_sha256_block: "length h = 8 \<Longrightarrow> length (sha256_block h p) = 8"
  by (simp add: sha256_block_def Let_def length_foldl_sha256_round)

lemma length_sha256_blocks: "length h = 8 \<Longrightarrow> length (sha256_blocks h p) = 8"
proof (induction h p rule: sha256_blocks.induct)
  case (1 h p)
  then show ?case
    by (subst sha256_blocks.simps) (simp add: length_sha256_block)
qed

lemma length_concat_be_bytes32: "length (concat (map be_bytes32 ws)) = 4 * length ws"
  by (induction ws) (simp_all add: be_bytes32_def)

lemma length_sha256: "length (sha256 m) = 32"
  by (simp add: sha256_def length_concat_be_bytes32 length_sha256_blocks sha256_init_def)

lemma sha256_digest_fits_block: "length (hash_digest sha256_hash m) \<le> hash_block_size sha256_hash"
  by (simp add: sha256_hash_def length_sha256)

lemma length_sha256_pad:
  "length (sha256_pad m) = 64 * (length m div 64) + (if length m mod 64 < 56 then 64 else 128)"
proof -
  have e: "length m mod 64 + 64 * (length m div 64) = length m" by (rule mod_mult_div_eq)
  show ?thesis
  proof (cases "length m mod 64 < 56")
    case True
    then show ?thesis by (simp add: sha256_pad_def Let_def be_uint64_def) (use e in arith)
  next
    case False
    then show ?thesis by (simp add: sha256_pad_def Let_def be_uint64_def) (use e in arith)
  qed
qed

lemma sha256_pad_blocks: "length (sha256_pad m) mod 64 = 0"
  unfolding length_sha256_pad by simp

lemma sha256_pad_bounds: "length m + 9 \<le> length (sha256_pad m) \<and> length (sha256_pad m) \<le> length m + 72"
proof -
  have e: "length m mod 64 + 64 * (length m div 64) = length m" by (rule mod_mult_div_eq)
  have r: "length m mod 64 < 64" by simp
  show ?thesis
  proof (cases "length m mod 64 < 56")
    case True
    show ?thesis using e True unfolding length_sha256_pad if_P [OF True] by linarith
  next
    case False
    show ?thesis using e r False unfolding length_sha256_pad if_not_P [OF False] by linarith
  qed
qed

text \<open>The FIPS 180-4 test vector for \<open>"abc"\<close>, evaluated on the model.\<close>

lemma sha256_abc:
  "sha256 (bytes_of ''abc'') =
   [0xba, 0x78, 0x16, 0xbf, 0x8f, 0x01, 0xcf, 0xea, 0x41, 0x41, 0x40, 0xde, 0x5d, 0xae, 0x22, 0x23,
    0xb0, 0x03, 0x61, 0xa3, 0x96, 0x17, 0x7a, 0x9c, 0xb4, 0x10, 0xff, 0x61, 0xf2, 0x00, 0x15, 0xad]"
  by code_simp

lemma sha256_pad_prefix: "take (length m) (sha256_pad m) = m"
  by (simp add: sha256_pad_def Let_def)

end
