(* ===== verification/Server.thy ===== *)
theory Server
  imports Callback Order Go_Sha256
begin

text \<open>
  How src/main.go wires the handlers (lines 19--50).  \<open>main\<close> loads
  \<open>.env\<close> (a fatal exit if that fails), creates \<open>gin.Default()\<close>, installs
  \<open>corsMiddleware\<close> for every request and registers the two POST routes;
  the server listens on port 8080.  \<open>corsMiddleware\<close> sets three
  \<open>Access-Control-*\<close> headers, answers an \<open>OPTIONS\<close> request at once with
  200, and otherwise calls \<open>c.Next()\<close>, modelled as the continuation
  \<open>next\<close>.  The dispatch of gin's engine is modelled from gin's documented
  behaviour: the global middleware runs before the route's handler, a
  request with no route runs the middleware and then gets 404
  \<open>404 page not found\<close> unless something was already written, and the
  \<open>Recovery\<close> middleware of \<open>gin.Default\<close> turns a panic into 500; its
  \<open>Logger\<close> writes an access-log line per request after the chain.
  gin's trailing-slash redirect (\<open>RedirectTrailingSlash\<close>, on in
  \<open>gin.Default\<close>) answers before any middleware runs.
  \<open>router.Run\<close>'s socket handling and 405 handling (off by default) are
  not modelled.
\<close>

text \<open>The configuration the process runs with: the hash behind
  \<open>sha256.New\<close>, the environment after \<open>godotenv.Load\<close>, and the payment
  gateway behind the Razorpay client.\<close>

record server_cfg =
  cfg_sha256 :: hash_fn
  cfg_env :: env
  cfg_gateway :: order_gateway

text \<open>Lines 39--41: the three \<open>Access-Control-*\<close> headers, set in order.\<close>

definition cors_headers :: "gin_ctx \<Rightarrow> gin_ctx" where
  "cors_headers c =
     (let c = header_Set ''Access-Control-Allow-Origin'' ''*'' c;
          c = header_Set ''Access-Control-Allow-Methods'' ''GET, POST, PUT, DELETE, OPTIONS'' c
      in header_Set ''Access-Control-Allow-Headers''
           ''Content-Type, Content-Length, Accept-Encoding, X-CSRF-Token, Authorization'' c)"

text \<open>Lines 37--50.\<close>

definition corsMiddleware :: "(gin_ctx \<Rightarrow> handler_result) \<Rightarrow> gin_ctx \<Rightarrow> handler_result" where
  "corsMiddleware next c =
     (let c = cors_headers c
      in if req_method c = ''OPTIONS'' then Inr (gin_AbortWithStatus 200 c) else next c)"

text \<open>Lines 30--31: the route table.\<close>

definition routes :: "server_cfg \<Rightarrow> (string \<times> string \<times> (gin_ctx \<Rightarrow> handler_result)) list" where
  "routes cfg =
     [(''POST'', ''/create-order'', \<lambda>c. Inr (createRazorpayOrder (cfg_gateway cfg) (cfg_env cfg) c)),
      (''POST'', ''/payment-callback'', PaymentGatewayCallback (cfg_sha256 cfg) (cfg_env cfg))]"

fun find_route :: "(string \<times> string \<times> 'h) list \<Rightarrow> string \<Rightarrow> string \<Rightarrow> 'h option" where
  "find_route [] m p = None"
| "find_route ((m', p', h) # rs) m p = (if m' = m \<and> p' = p then Some h else find_route rs m p)"

text \<open>gin's \<open>Recovery\<close>: a panic becomes \<open>c.AbortWithStatus(500)\<close>.\<close>

definition gin_Recovery :: "handler_result \<Rightarrow> gin_ctx" where
  "gin_Recovery r = (case r of Inl (_, c) \<Rightarrow> gin_AbortWithStatus 500 c | Inr c \<Rightarrow> c)"

text \<open>gin's \<open>Logger\<close>, the first middleware of \<open>gin.Default()\<close> (line 26):
  after the rest of the chain it writes the request's line to standard output,
  with the status written (200 when none was) and the request's method and
  path.\<close>

definition gin_Logger :: "gin_ctx \<Rightarrow> gin_ctx \<Rightarrow> gin_ctx" where
  "gin_Logger c c' =
     c'\<lparr>stdout := stdout c' @
        [AccessLog (case resp_status c' of None \<Rightarrow> 200 | Some st \<Rightarrow> st) (req_method c) (req_path c)]\<rparr>"

text \<open>The chain after \<open>Logger\<close> for one request (lines 26--31): the route's
  handlers under \<open>Recovery\<close>, or the engine's 404 handling.\<close>

definition engine_handle :: "server_cfg \<Rightarrow> gin_ctx \<Rightarrow> gin_ctx" where
  "engine_handle cfg c =
     (case find_route (routes cfg) (req_method c) (req_path c) of
        Some h \<Rightarrow> gin_Recovery (corsMiddleware h c)
      | None \<Rightarrow>
          (let c' = gin_Recovery (corsMiddleware Inr c)
           in if resp_status c' = None
              then c'\<lparr>resp_headers := (resp_headers c')(''Content-Type'' \<mapsto> ''text/plain''),
                      resp_status := Some 404, resp_body := Some (BodyText ''404 page not found'')\<rparr>
              else c'))"

text \<open>gin's \<open>handleHTTPRequest\<close> with \<open>RedirectTrailingSlash\<close>: when the
  request's method has a route tree (here only \<open>POST\<close>), the path is not
  \<open>/\<close> and has no route, but the path with its trailing slash removed, or
  with one added, has one, the request is redirected to that path.\<close>

definition gin_tsr :: "server_cfg \<Rightarrow> string \<Rightarrow> string \<Rightarrow> string option" where
  "gin_tsr cfg m p =
     (if list_ex (\<lambda>(m', _). m' = m) (routes cfg) \<and> p \<noteq> ''/'' \<and> find_route (routes cfg) m p = None then
        (if p \<noteq> [] \<and> last p = CHR ''/'' \<and> find_route (routes cfg) m (butlast p) \<noteq> None then Some (butlast p)
         else if find_route (routes cfg) m (p @ ''/'') \<noteq> None then Some (p @ ''/'')
         else None)
      else None)"

text \<open>\<open>redirectTrailingSlash\<close> and \<open>redirectRequest\<close>: \<open>http.Redirect\<close>
  with 301 for \<open>GET\<close> and 307 otherwise, which sets \<open>Location\<close>; no
  handler and no middleware of the engine runs.  (The HTML body
  \<open>http.Redirect\<close> writes for a \<open>GET\<close> is not modelled: no \<open>GET\<close>
  route is registered, so only \<open>POST\<close> requests are redirected.  Requests
  carry no headers or query string here, so \<open>X-Forwarded-Prefix\<close> and the
  query gin keeps in \<open>Location\<close> do not arise; gin's debug-mode
  "redirecting request" line is not part of the modelled standard output.)\<close>

definition gin_redirect :: "gin_ctx \<Rightarrow> string \<Rightarrow> gin_ctx" where
  "gin_redirect c loc =
     c\<lparr>resp_headers := (resp_headers c)(''Location'' \<mapsto> loc),
       resp_status := Some (if req_method c = ''GET'' then 301 else 307)\<rparr>"

text \<open>One request through the engine of lines 26--31.\<close>

definition serve :: "server_cfg \<Rightarrow> gin_ctx \<Rightarrow> gin_ctx" where
  "serve cfg c =
     (case gin_tsr cfg (req_method c) (req_path c) of
        Some loc \<Rightarrow> gin_redirect c loc
      | None \<Rightarrow> gin_Logger c (engine_handle cfg c))"

text \<open>Lines 19--34: start-up.  \<open>godotenv.Load\<close> gives \<open>Inl\<close> an error or
  \<open>Inr\<close> the variables of \<open>.env\<close>, which do not override variables already
  set in the process environment.  The hash is crypto/sha256's
  (\<open>sha256.New\<close>, line 140).\<close>

datatype startup = Fatal string | Listening string server_cfg

definition main :: "string + env \<Rightarrow> env \<Rightarrow> order_gateway \<Rightarrow> startup" where
  "main dotenv procenv gateway =
     (case dotenv of
        Inl _ \<Rightarrow> Fatal ''Error loading .env file''
      | Inr file \<Rightarrow>
          Listening '':8080'' \<lparr>cfg_sha256 = sha256_hash, cfg_env = file ++ procenv, cfg_gateway = gateway\<rparr>)"

definition cors_ok :: "gin_ctx \<Rightarrow> bool" where
  "cors_ok c \<longleftrightarrow>
     resp_headers c ''Access-Control-Allow-Origin'' = Some ''*'' \<and>
     resp_headers c ''Access-Control-Allow-Methods'' = Some ''GET, POST, PUT, DELETE, OPTIONS'' \<and>
     resp_headers c ''Access-Control-Allow-Headers''
       = Some ''Content-Type, Content-Length, Accept-Encoding, X-CSRF-Token, Authorization''"

definition cfg_witness :: server_cfg where
  "cfg_witness = \<lparr>cfg_sha256 = toy_hash, cfg_env = env_k, cfg_gateway = gateway_down\<rparr>"


subsection \<open>Lemmas\<close>

lemma gin_Logger_fields [ctx_simps]:
  "stdout (gin_Logger c c') =
     stdout c' @ [AccessLog (case resp_status c' of None \<Rightarrow> 200 | Some st \<Rightarrow> st) (req_method c) (req_path c)]"
  "resp_status (gin_Logger c c') = resp_status c'"
  "resp_body (gin_Logger c c') = resp_body c'"
  "resp_headers (gin_Logger c c') = resp_headers c'"
  "gateway_calls (gin_Logger c c') = gateway_calls c'"
  "body_closed (gin_Logger c c') = body_closed c'"
  by (simp_all add: gin_Logger_def)

lemma callback_keeps_headers:
  assumes "k \<noteq> ''Content-Type''"
  shows "(case PaymentGatewayCallback H e c of Inl (_, c1) \<Rightarrow> resp_headers c1 k | Inr c1 \<Rightarrow> resp_headers c1 k)
         = resp_headers c k"
proof (cases "req_body c")
  case (Inl ioerr)
  with assms show ?thesis by (simp add: PaymentGatewayCallback_def ctx_simps)
next
  case (Inr b)
  obtain c1 where c1: "callback_parsed H e b (fmt_Println [''Received request body:'', b] c) = Inr c1"
    using callback_parsed_Inr by blast
  from callback_parsed_json [OF c1] obtain code obj
    where "c1 = gin_JSON code obj (fmt_Println [''Received request body:'', b] c)" by blast
  with c1 Inr assms show ?thesis by (simp add: PaymentGatewayCallback_read ctx_simps)
qed

lemma routes_keep_headers:
  assumes "find_route (routes cfg) m p = Some h" and "k \<noteq> ''Content-Type''"
  shows "resp_headers (gin_Recovery (h c)) k = resp_headers c k"
proof -
  have "h = (\<lambda>c. Inr (createRazorpayOrder (cfg_gateway cfg) (cfg_env cfg) c)) \<or>
        h = PaymentGatewayCallback (cfg_sha256 cfg) (cfg_env cfg)"
    using assms(1) by (auto simp: routes_def split: if_splits)
  then show ?thesis
  proof
    assume "h = (\<lambda>c. Inr (createRazorpayOrder (cfg_gateway cfg) (cfg_env cfg) c))"
    with assms(2) show ?thesis by (simp add: gin_Recovery_def ctx_simps)
  next
    assume h: "h = PaymentGatewayCallback (cfg_sha256 cfg) (cfg_env cfg)"
    show ?thesis
      using callback_keeps_headers [OF assms(2), of "cfg_sha256 cfg" "cfg_env cfg" c]
      by (simp add: h gin_Recovery_def ctx_simps split: sum.splits prod.splits)
  qed
qed

lemma corsMiddleware_cases:
  "corsMiddleware next c =
     (let c' = header_Set ''Access-Control-Allow-Headers''
                 ''Content-Type, Content-Length, Accept-Encoding, X-CSRF-Token, Authorization''
                 (header_Set ''Access-Control-Allow-Methods'' ''GET, POST, PUT, DELETE, OPTIONS''
                   (header_Set ''Access-Control-Allow-Origin'' ''*'' c))
      in if req_method c = ''OPTIONS'' then Inr (gin_AbortWithStatus 200 c') else next c')"
  by (simp add: corsMiddleware_def cors_headers_def ctx_simps)

lemma cors_ok_headers:
  "cors_ok (header_Set ''Access-Control-Allow-Headers''
                 ''Content-Type, Content-Length, Accept-Encoding, X-CSRF-Token, Authorization''
                 (header_Set ''Access-Control-Allow-Methods'' ''GET, POST, PUT, DELETE, OPTIONS''
                   (header_Set ''Access-Control-Allow-Origin'' ''*'' c)))"
  by (simp add: cors_ok_def ctx_simps)

lemma cors_ok_gin_Logger [simp]: "cors_ok (gin_Logger c c') = cors_ok c'"
  by (simp add: cors_ok_def gin_Logger_def)

lemma cors_ok_cong:
  "cors_ok c \<Longrightarrow> (\<And>k. k \<noteq> ''Content-Type'' \<Longrightarrow> resp_headers c' k = resp_headers c k) \<Longrightarrow> cors_ok c'"
  by (simp add: cors_ok_def)

lemma snoc_slash_iff: "(p \<noteq> [] \<and> last p = CHR ''/'' \<and> butlast p = q) \<longleftrightarrow> p = q @ ''/''"
  by (cases p rule: rev_cases) auto

lemma find_route_routes:
  "(find_route (routes cfg) m q = None) \<longleftrightarrow> \<not> (m = ''POST'' \<and> (q = ''/create-order'' \<or> q = ''/payment-callback''))"
  by (auto simp: routes_def)

lemma gin_tsr_routes:
  "gin_tsr cfg m p =
     (if m = ''POST'' \<and> (p = ''/create-order/'' \<or> p = ''/payment-callback/'') then Some (butlast p) else None)"
proof -
  have l: "list_ex (\<lambda>(m', _). m' = m) (routes cfg) = (m = ''POST'')"
    by (auto simp: routes_def)
  have s: "(p @ ''/'' = ''/create-order'') = False" "(p @ ''/'' = ''/payment-callback'') = False"
    by (auto dest: arg_cong [where f = last])
  have b: "(p \<noteq> [] \<and> last p = CHR ''/'' \<and> (butlast p = ''/create-order'' \<or> butlast p = ''/payment-callback''))
           = (p = ''/create-order/'' \<or> p = ''/payment-callback/'')"
  proof -
    have "(p \<noteq> [] \<and> last p = CHR ''/'' \<and> butlast p = ''/create-order'') = (p = ''/create-order/'')"
         "(p \<noteq> [] \<and> last p = CHR ''/'' \<and> butlast p = ''/payment-callback'') = (p = ''/payment-callback/'')"
      using snoc_slash_iff [of p "''/create-order''"] snoc_slash_iff [of p "''/payment-callback''"] by simp_all
    then show ?thesis by blast
  qed
  show ?thesis
    unfolding gin_tsr_def l find_route_routes not_not s
    by (cases "m = ''POST''") (auto simp only: b simp_thms if_True if_False, auto)
qed

lemma serve_cases:
  "serve cfg c =
     (if req_method c = ''POST'' \<and> (req_path c = ''/create-order/'' \<or> req_path c = ''/payment-callback/'')
      then gin_redirect c (butlast (req_path c))
      else gin_Logger c (engine_handle cfg c))"
  by (auto simp: serve_def gin_tsr_routes)

lemma serve_no_redirect:
  "\<not> (req_method c = ''POST'' \<and> (req_path c = ''/create-order/'' \<or> req_path c = ''/payment-callback/'')) \<Longrightarrow>
   serve cfg c = gin_Logger c (engine_handle cfg c)"
  unfolding serve_cases by (rule if_not_P)

lemma serve_redirect:
  "req_method c = ''POST'' \<Longrightarrow> req_path c = ''/create-order/'' \<or> req_path c = ''/payment-callback/'' \<Longrightarrow>
   serve cfg c = gin_redirect c (butlast (req_path c))"
  by (simp add: serve_cases)

lemma engine_cors: "cors_ok (engine_handle cfg c)"
proof -
  let ?c = "header_Set ''Access-Control-Allow-Headers''
                 ''Content-Type, Content-Length, Accept-Encoding, X-CSRF-Token, Authorization''
                 (header_Set ''Access-Control-Allow-Methods'' ''GET, POST, PUT, DELETE, OPTIONS''
                   (header_Set ''Access-Control-Allow-Origin'' ''*'' c))"
  have base: "cors_ok ?c" by (rule cors_ok_headers)
  show ?thesis
  proof (cases "find_route (routes cfg) (req_method c) (req_path c)")
    case None
    then show ?thesis
      using base by (auto simp: engine_handle_def corsMiddleware_cases gin_Recovery_def cors_ok_def Let_def ctx_simps)
  next
    case (Some h)
    show ?thesis
    proof (cases "req_method c = ''OPTIONS''")
      case True
      with Some base show ?thesis
        by (simp add: engine_handle_def corsMiddleware_cases gin_Recovery_def cors_ok_def ctx_simps)
    next
      case False
      have "cors_ok (gin_Recovery (h ?c))"
        using base routes_keep_headers [OF Some] by (rule cors_ok_cong)
      with Some False show ?thesis
        by (simp add: engine_handle_def corsMiddleware_cases Let_def)
    qed
  qed
qed

subsection \<open>Properties\<close>

text \<open>C14: a response to a new request carries the three CORS headers of
  \<open>corsMiddleware\<close> exactly when gin does not redirect it: whatever the
  route, the method and the handler's outcome (the handlers only ever set
  \<open>Content-Type\<close>), but not on the trailing-slash redirects, which gin
  answers before any middleware runs.\<close>
theorem serve_cors_headers:
  "cors_ok (serve cfg (new_request m p b)) \<longleftrightarrow> gin_tsr cfg m p = None"
proof (cases "gin_tsr cfg m p")
  case None
  then show ?thesis using engine_cors by (simp add: serve_def new_request_def)
next
  case (Some loc)
  then show ?thesis by (simp add: serve_def new_request_def gin_redirect_def cors_ok_def)
qed

text \<open>C15: a preflight \<open>OPTIONS\<close> request, on any path, is answered 200
  with no body by the middleware alone: no handler runs, the only output is
  gin's access-log line, and the payment gateway is not called.\<close>
theorem serve_options_preflight:
  "resp_status (serve cfg (new_request ''OPTIONS'' path body)) = Some 200 \<and>
   resp_body (serve cfg (new_request ''OPTIONS'' path body)) = None \<and>
   gateway_calls (serve cfg (new_request ''OPTIONS'' path body)) = [] \<and>
   stdout (serve cfg (new_request ''OPTIONS'' path body)) = [AccessLog 200 ''OPTIONS'' path]"
  by (simp add: serve_no_redirect new_request_def engine_handle_def corsMiddleware_cases gin_Recovery_def Let_def
      ctx_simps gin_AbortWithStatus_def header_Set_def split: option.split)


text \<open>C16: start-up.  If \<open>.env\<close> cannot be loaded the process exits with
  \<open>Error loading .env file\<close>; otherwise it listens on \<open>:8080\<close> with the
  environment in which a variable of the process environment takes precedence
  over the same variable in \<open>.env\<close>, and signatures are computed with
  crypto/sha256.\<close>
theorem main_startup:
  "main (Inl err) procenv gw = Fatal ''Error loading .env file'' \<and>
   (\<exists>cfg. main (Inr file) procenv gw = Listening '':8080'' cfg \<and> cfg_sha256 cfg = sha256_hash \<and>
      cfg_gateway cfg = gw \<and> (\<forall>k. cfg_env cfg k = (case procenv k of Some v \<Rightarrow> Some v | None \<Rightarrow> file k)))"
  by (simp add: main_def map_add_def split: option.split)

text \<open>C28: \<open>POST /create-order/\<close> and \<open>POST /payment-callback/\<close> (the
  routes with a trailing slash) are answered 307 with \<open>Location\<close> the route
  by gin itself: no CORS header, no body, no access-log line, and no handler
  runs (the gateway is not called).\<close>
theorem serve_trailing_slash_redirect:
  assumes "p \<in> {''/create-order/'', ''/payment-callback/''}"
  shows "resp_status (serve cfg (new_request ''POST'' p b)) = Some 307 \<and>
         resp_headers (serve cfg (new_request ''POST'' p b)) = [''Location'' \<mapsto> butlast p] \<and>
         resp_body (serve cfg (new_request ''POST'' p b)) = None \<and>
         stdout (serve cfg (new_request ''POST'' p b)) = [] \<and>
         gateway_calls (serve cfg (new_request ''POST'' p b)) = []"
proof -
  have "serve cfg (new_request ''POST'' p b) = gin_redirect (new_request ''POST'' p b) (butlast p)"
    using assms by (subst serve_redirect) (auto simp: new_request_def)
  then show ?thesis by (simp add: gin_redirect_def new_request_def)
qed

text \<open>Witness for C28: \<open>POST /create-order/\<close>.\<close>

theorem serve_trailing_slash_redirect_witness:
  "''/create-order/'' \<in> {''/create-order/'', ''/payment-callback/''} \<and>
   resp_status (serve cfg_witness (new_request ''POST'' ''/create-order/'' (Inr []))) = Some 307 \<and>
   resp_headers (serve cfg_witness (new_request ''POST'' ''/create-order/'' (Inr []))) =
     [''Location'' \<mapsto> ''/create-order'']"
proof -
  have h: "''/create-order/'' \<in> {''/create-order/'', ''/payment-callback/''}" by simp
  show ?thesis using h serve_trailing_slash_redirect [OF h, of cfg_witness "Inr []"] by simp
qed


end
