(* ===== verification/Process.thy ===== *)
theory Process
  imports Server
begin

text \<open>
  The process as a sequence of requests.  Standard output and the calls made
  to the payment gateway are the only state the program keeps across
  requests (src/main.go keeps no other global state); each request starts
  from a fresh gin context that shares them.  \<open>handle\<close> serves one request
  and appends its answer, \<open>serve_all\<close> a list of requests in order, and
  \<open>reachable\<close> is the step relation's reachable states.
\<close>

record proc_state =
  log :: "out_line list"
  calls :: "(string \<times> string \<times> (string \<times> jval) list) list"
  answered :: "(nat option \<times> resp_body option) list"

type_synonym request = "string \<times> string \<times> (string + string)"

definition proc_init :: proc_state where
  "proc_init = \<lparr>log = [], calls = [], answered = []\<rparr>"

definition handle :: "server_cfg \<Rightarrow> proc_state \<Rightarrow> request \<Rightarrow> proc_state" where
  "handle cfg st r =
     (case r of (m, p, b) \<Rightarrow>
       (let c = serve cfg ((new_request m p b)\<lparr>stdout := log st, gateway_calls := calls st\<rparr>)
        in \<lparr>log = stdout c, calls = gateway_calls c, answered = answered st @ [(resp_status c, resp_body c)]\<rparr>))"

definition serve_all :: "server_cfg \<Rightarrow> proc_state \<Rightarrow> request list \<Rightarrow> proc_state" where
  "serve_all cfg st rs = fold (\<lambda>r st. handle cfg st r) rs st"

inductive reachable :: "server_cfg \<Rightarrow> proc_state \<Rightarrow> bool" where
  init: "reachable cfg proc_init"
| step: "reachable cfg st \<Longrightarrow> reachable cfg (handle cfg st r)"

definition is_create_order :: "request \<Rightarrow> bool" where
  "is_create_order r = (case r of (m, p, _) \<Rightarrow> m = ''POST'' \<and> p = ''/create-order'')"

text \<open>A request gin answers with a trailing-slash redirect.\<close>

definition is_redirected :: "server_cfg \<Rightarrow> request \<Rightarrow> bool" where
  "is_redirected cfg r = (case r of (m, p, _) \<Rightarrow> gin_tsr cfg m p \<noteq> None)"

definition callback_log :: "request \<Rightarrow> string list" where
  "callback_log r =
     (case r of (m, p, Inr b) \<Rightarrow>
        if m = ''POST'' \<and> p = ''/payment-callback'' then [''Received request body: '' @ b] else []
      | _ \<Rightarrow> [])"

definition order_call :: "server_cfg \<Rightarrow> string \<times> string \<times> (string \<times> jval) list" where
  "order_call cfg =
     (os_Getenv (cfg_env cfg) ''RAZORPAY_KEY_ID'', os_Getenv (cfg_env cfg) ''RAZORPAY_KEY_SECRET'', order_data)"

subsection \<open>One request\<close>

lemma PaymentGatewayCallback_shape:
  "\<exists>code obj. PaymentGatewayCallback H e c =
     Inr (case req_body c of
            Inl _ \<Rightarrow> gin_JSON code obj c
          | Inr b \<Rightarrow> body_Close (gin_JSON code obj (fmt_Println [''Received request body:'', b] c)))"
proof (cases "req_body c")
  case (Inl ioerr)
  then show ?thesis by (auto simp: PaymentGatewayCallback_def)
next
  case (Inr b)
  obtain c1 where c1: "callback_parsed H e b (fmt_Println [''Received request body:'', b] c) = Inr c1"
    using callback_parsed_Inr by blast
  from callback_parsed_json [OF c1] obtain code obj
    where "c1 = gin_JSON code obj (fmt_Println [''Received request body:'', b] c)" by blast
  with c1 Inr show ?thesis by (auto simp: PaymentGatewayCallback_read)
qed

lemma engine_effects:
  "gateway_calls (engine_handle cfg c) =
     gateway_calls c @ (if req_method c = ''POST'' \<and> req_path c = ''/create-order'' then [order_call cfg] else []) \<and>
   stdout (engine_handle cfg c) =
     stdout c @ map Printed (case req_body c of
                   Inr b \<Rightarrow> if req_method c = ''POST'' \<and> req_path c = ''/payment-callback''
                            then [''Received request body: '' @ b] else []
                 | Inl _ \<Rightarrow> []) \<and>
   resp_status (engine_handle cfg c) \<noteq> None"
proof -
  let ?c0 = "header_Set ''Access-Control-Allow-Headers''
                 ''Content-Type, Content-Length, Accept-Encoding, X-CSRF-Token, Authorization''
                 (header_Set ''Access-Control-Allow-Methods'' ''GET, POST, PUT, DELETE, OPTIONS''
                   (header_Set ''Access-Control-Allow-Origin'' ''*'' c))"
  obtain code obj where cb: "PaymentGatewayCallback (cfg_sha256 cfg) (cfg_env cfg) ?c0 =
     Inr (case req_body ?c0 of
            Inl _ \<Rightarrow> gin_JSON code obj ?c0
          | Inr b \<Rightarrow> body_Close (gin_JSON code obj (fmt_Println [''Received request body:'', b] ?c0)))"
    using PaymentGatewayCallback_shape by blast
  note defs = engine_handle_def routes_def corsMiddleware_cases gin_Recovery_def Let_def ctx_simps cb
    createRazorpayOrder_cases
  show ?thesis
  proof (intro conjI)
    show "gateway_calls (engine_handle cfg c) =
     gateway_calls c @ (if req_method c = ''POST'' \<and> req_path c = ''/create-order'' then [order_call cfg] else [])"
      by (auto simp: defs order_call_def split: sum.split)
    show "stdout (engine_handle cfg c) =
     stdout c @ map Printed (case req_body c of
                   Inr b \<Rightarrow> if req_method c = ''POST'' \<and> req_path c = ''/payment-callback''
                            then [''Received request body: '' @ b] else []
                 | Inl _ \<Rightarrow> [])"
      by (auto simp: defs split: sum.split)
    show "resp_status (engine_handle cfg c) \<noteq> None"
      by (auto simp: defs split: sum.split)
  qed
qed

lemma serve_tsr_path:
  "gin_tsr cfg (req_method c) (req_path c) = Some loc \<Longrightarrow>
   req_method c = ''POST'' \<and> req_path c \<noteq> ''/create-order'' \<and> req_path c \<noteq> ''/payment-callback'' \<and>
   serve cfg c = gin_redirect c loc"
  by (auto simp: gin_tsr_routes serve_def split: if_splits)

lemma serve_gateway_calls:
  "gateway_calls (serve cfg c) =
     gateway_calls c @ (if req_method c = ''POST'' \<and> req_path c = ''/create-order'' then [order_call cfg] else [])"
proof (cases "gin_tsr cfg (req_method c) (req_path c)")
  case None
  then show ?thesis using engine_effects [of cfg c] by (simp add: serve_def ctx_simps)
next
  case (Some loc)
  then show ?thesis using serve_tsr_path [OF Some] by (simp add: gin_redirect_def)
qed

lemma serve_status: "resp_status (serve cfg c) \<noteq> None"
proof (cases "gin_tsr cfg (req_method c) (req_path c)")
  case None
  then show ?thesis using engine_effects [of cfg c] by (simp add: serve_def ctx_simps)
next
  case (Some loc)
  then show ?thesis using serve_tsr_path [OF Some] by (simp add: gin_redirect_def)
qed

lemma serve_stdout:
  "stdout (serve cfg c) =
     stdout c @ map Printed (case req_body c of
                   Inr b \<Rightarrow> if req_method c = ''POST'' \<and> req_path c = ''/payment-callback''
                            then [''Received request body: '' @ b] else []
                 | Inl _ \<Rightarrow> []) @
     (if gin_tsr cfg (req_method c) (req_path c) = None
      then [AccessLog (the (resp_status (serve cfg c))) (req_method c) (req_path c)] else [])"
proof (cases "gin_tsr cfg (req_method c) (req_path c)")
  case None
  then show ?thesis using engine_effects [of cfg c] by (auto simp: serve_def ctx_simps split: option.split)
next
  case (Some loc)
  then show ?thesis using serve_tsr_path [OF Some] by (simp add: gin_redirect_def split: sum.split)
qed

lemmas serve_effects = serve_gateway_calls serve_stdout serve_status

lemma handle_effects:
  "calls (handle cfg st r) = calls st @ (if is_create_order r then [order_call cfg] else []) \<and>
   log (handle cfg st r) = log st @ map Printed (callback_log r) @
     (if is_redirected cfg r then []
      else [AccessLog (the (fst (last (answered (handle cfg st r))))) (fst r) (fst (snd r))]) \<and>
   answered (handle cfg st r) = answered st @ [last (answered (handle cfg st r))] \<and>
   fst (last (answered (handle cfg st r))) \<noteq> None"
  using serve_effects [of cfg]
  by (auto simp: handle_def is_create_order_def is_redirected_def callback_log_def new_request_def Let_def
      split: prod.split sum.split)

lemma serve_all_Cons: "serve_all cfg st (r # rs) = serve_all cfg (handle cfg st r) rs"
  by (simp add: serve_all_def)

subsection \<open>Properties\<close>

text \<open>C20: over any run, the gateway is called once per \<open>POST /create-order\<close>
  request and never otherwise, each time with the configured credentials and
  the fixed order.\<close>

theorem serve_all_gateway_calls:
  "calls (serve_all cfg st rs) =
     calls st @ replicate (length (filter is_create_order rs)) (order_call cfg)"
proof (induction rs arbitrary: st)
  case Nil
  then show ?case by (simp add: serve_all_def)
next
  case (Cons r rs)
  then show ?case
    using handle_effects [of cfg st r] by (simp add: serve_all_Cons replicate_app_Cons_same)
qed

text \<open>C21: over any run, the program itself prints exactly one line per
  readable callback request, in request order, holding the raw body, and
  nothing else; besides, gin's \<open>Logger\<close> writes exactly one access-log
  line per request that is not a trailing-slash redirect, in request order,
  with its method and path (the redirects leave no trace).\<close>

theorem serve_all_log:
  "printed_lines (log (serve_all cfg st rs)) = printed_lines (log st) @ concat (map callback_log rs) \<and>
   map snd (access_lines (log (serve_all cfg st rs))) =
     map snd (access_lines (log st)) @ map (\<lambda>r. (fst r, fst (snd r))) (filter (\<lambda>r. \<not> is_redirected cfg r) rs)"
proof (induction rs arbitrary: st)
  case Nil
  then show ?case by (simp add: serve_all_def)
next
  case (Cons r rs)
  then show ?case
    using handle_effects [of cfg st r] by (simp add: serve_all_Cons)
qed


text \<open>C22: in every reachable state every request so far has been answered
  with a status, every gateway call carried the configured credentials and
  the fixed order, and there were no more gateway calls than requests.\<close>

theorem reachable_invariant:
  assumes "reachable cfg st"
  shows "(\<forall>a \<in> set (answered st). fst a \<noteq> None) \<and> set (calls st) \<subseteq> {order_call cfg} \<and>
         length (calls st) \<le> length (answered st)"
  using assms
proof (induction rule: reachable.induct)
  case init
  then show ?case by (simp add: proc_init_def)
next
  case (step cfg st r)
  have e: "calls (handle cfg st r) = calls st @ (if is_create_order r then [order_call cfg] else [])"
      "answered (handle cfg st r) = answered st @ [last (answered (handle cfg st r))]"
      "fst (last (answered (handle cfg st r))) \<noteq> None"
    using handle_effects [of cfg st r] by simp_all
  show ?case
  proof (intro conjI)
    show "\<forall>a\<in>set (answered (handle cfg st r)). fst a \<noteq> None"
      using step.IH e(3) by (subst e(2)) auto
    show "set (calls (handle cfg st r)) \<subseteq> {order_call cfg}"
      using step.IH by (auto simp: e(1))
    show "length (calls (handle cfg st r)) \<le> length (answered (handle cfg st r))"
      using step.IH by (subst e(2)) (simp add: e(1))
  qed
qed

text \<open>Witness for C22: one order request from the initial state.\<close>

theorem reachable_invariant_witness:
  "reachable cfg_witness (handle cfg_witness proc_init (''POST'', ''/create-order'', Inr [])) \<and>
   set (calls (handle cfg_witness proc_init (''POST'', ''/create-order'', Inr []))) \<subseteq> {order_call cfg_witness}"
proof -
  have h: "reachable cfg_witness (handle cfg_witness proc_init (''POST'', ''/create-order'', Inr []))"
    by (intro reachable.step reachable.init)
  show ?thesis using h reachable_invariant [OF h] by blast
qed

end
