(* ===== verification/Go_Io.thy ===== *)
theory Go_Io
  imports Prelude
begin

text \<open>
  \<open>io.ReadAll\<close> of the Go standard library, which the callback handler uses
  to read the request body (src/main.go line 87).  The body is a reader:
  the \<open>i\<close>-th call of \<open>Read\<close> returns some bytes together with no error,
  \<open>EOF\<close>, or another error.  \<open>ReadAll\<close> appends what every call returns and
  stops at the first error, turning \<open>EOF\<close> into success; a reader that never
  reports an error (a client that keeps sending) makes it loop for ever.  The
  loop is therefore a \<open>partial_function (option)\<close>: \<open>None\<close> is "does not
  return".  The growth of the buffer (\<open>append(b, 0)[:len(b)]\<close>) only
  manages capacity and is not modelled.
\<close>

datatype read_err = EOF | ReadErr string

type_synonym body_reader = "nat \<Rightarrow> string \<times> read_err option"

text \<open>\<open>for { n, err := r.Read(b[len(b):cap(b)]); b = b[:len(b)+n];
  if err != nil { if err == EOF { err = nil }; return b, err } }\<close>.\<close>

partial_function (option) readAll_loop ::
  "body_reader \<Rightarrow> nat \<Rightarrow> string \<Rightarrow> (string \<times> string option) option" where
  "readAll_loop r i b =
     (case r i of
        (d, None) \<Rightarrow> readAll_loop r (Suc i) (b @ d)
      | (d, Some EOF) \<Rightarrow> Some (b @ d, None)
      | (d, Some (ReadErr e)) \<Rightarrow> Some (b @ d, Some e))"

definition io_ReadAll :: "body_reader \<Rightarrow> (string \<times> string option) option" where
  "io_ReadAll r = readAll_loop r 0 []"

text \<open>The bytes of calls \<open>i\<close> to \<open>n\<close>, and what the final call reports.\<close>

definition reads_upto :: "body_reader \<Rightarrow> nat \<Rightarrow> nat \<Rightarrow> string" where
  "reads_upto r i n = concat (map (\<lambda>j. fst (r j)) [i..<Suc n])"

definition read_outcome :: "read_err \<Rightarrow> string option" where
  "read_outcome err = (case err of EOF \<Rightarrow> None | ReadErr e \<Rightarrow> Some e)"

text \<open>A reader that delivers the given chunks and then reports \<open>err\<close>.\<close>

definition chunks_reader :: "string list \<Rightarrow> read_err \<Rightarrow> body_reader" where
  "chunks_reader cs err i = (if i < length cs then (cs ! i, None) else ([], Some err))"

subsection \<open>Lemmas\<close>

lemma readAll_loop_step:
  "snd (r i) = None \<Longrightarrow> readAll_loop r i b = readAll_loop r (Suc i) (b @ fst (r i))"
  by (cases "r i") (simp add: readAll_loop.simps [of r i])

lemma readAll_loop_stop:
  "snd (r i) = Some err \<Longrightarrow> readAll_loop r i b = Some (b @ fst (r i), read_outcome err)"
  by (cases "r i", cases err) (simp_all add: readAll_loop.simps [of r i] read_outcome_def)

text \<open>Where the loop returns, some call at or after \<open>i\<close> reported an error.\<close>

lemma readAll_loop_Some_error:
  assumes "readAll_loop r i b = Some y"
  shows "\<exists>n\<ge>i. snd (r n) \<noteq> None"
proof (rule readAll_loop.raw_induct [where P = "\<lambda>r i b y. \<exists>n\<ge>i. snd (r n) \<noteq> None", OF _ assms])
  fix f :: "body_reader \<Rightarrow> nat \<Rightarrow> string \<Rightarrow> (string \<times> string option) option"
    and r :: body_reader and i :: nat and b :: string and y :: "string \<times> string option"
  assume IH: "\<And>r i b y. f r i b = Some y \<Longrightarrow> \<exists>n\<ge>i. snd (r n) \<noteq> None"
    and eq: "(case r i of (d, None) \<Rightarrow> f r (Suc i) (b @ d)
              | (d, Some EOF) \<Rightarrow> Some (b @ d, None)
              | (d, Some (ReadErr e)) \<Rightarrow> Some (b @ d, Some e)) = Some y"
  show "\<exists>n\<ge>i. snd (r n) \<noteq> None"
  proof (cases "snd (r i)")
    case None
    with eq have "f r (Suc i) (b @ fst (r i)) = Some y"
      by (simp split: prod.splits)
    then obtain n where "n \<ge> Suc i" "snd (r n) \<noteq> None" using IH by blast
    then show ?thesis by (intro exI [of _ n]) simp
  next
    case (Some err)
    then show ?thesis by blast
  qed
qed

text \<open>From call \<open>i\<close>, with no error before call \<open>n\<close> and one at \<open>n\<close>, the
  loop returns everything read, and the outcome of call \<open>n\<close>.\<close>

lemma readAll_loop_result_from:
  assumes "\<forall>j. n - d \<le> j \<and> j < n \<longrightarrow> snd (r j) = None" and "snd (r n) = Some err" and "d \<le> n"
  shows "readAll_loop r (n - d) b = Some (b @ reads_upto r (n - d) n, read_outcome err)"
  using assms
proof (induction d arbitrary: b)
  case 0
  then show ?case by (simp add: readAll_loop_stop reads_upto_def)
next
  case (Suc d)
  let ?i = "n - Suc d"
  have none: "snd (r ?i) = None" and si: "Suc ?i = n - d"
    using Suc.prems by auto
  have rec: "readAll_loop r (n - d) (b @ fst (r ?i)) =
             Some ((b @ fst (r ?i)) @ reads_upto r (n - d) n, read_outcome err)"
    using Suc.prems by (intro Suc.IH) auto
  have "reads_upto r ?i n = fst (r ?i) @ reads_upto r (n - d) n"
    using Suc.prems si by (simp add: reads_upto_def upt_conv_Cons)
  moreover have "readAll_loop r ?i b = readAll_loop r (n - d) (b @ fst (r ?i))"
    using readAll_loop_step [of r ?i b, OF none] by (simp only: si)
  ultimately show ?case
    using rec by simp
qed

lemma readAll_loop_result:
  assumes "\<forall>j. i \<le> j \<and> j < n \<longrightarrow> snd (r j) = None" and "snd (r n) = Some err" and "i \<le> n"
  shows "readAll_loop r i b = Some (b @ reads_upto r i n, read_outcome err)"
  using readAll_loop_result_from [of n "n - i" r err b] assms by simp

lemma exists_first_error:
  fixes r :: body_reader
  assumes "\<exists>n. snd (r n) \<noteq> None"
  obtains n err where "\<forall>j<n. snd (r j) = None" "snd (r n) = Some err"
proof -
  let ?n = "LEAST n. snd (r n) \<noteq> None"
  have "snd (r ?n) \<noteq> None" by (rule LeastI_ex [OF assms])
  then obtain err where err: "snd (r ?n) = Some err" by blast
  have "\<forall>j<?n. snd (r j) = None"
  proof (intro allI impI)
    fix j assume "j < ?n"
    then show "snd (r j) = None" by (rule not_less_Least [THEN notnotD])
  qed
  then show ?thesis using err by (rule that)
qed

lemma io_ReadAll_Some_iff: "(\<exists>y. io_ReadAll r = Some y) \<longleftrightarrow> (\<exists>n. snd (r n) \<noteq> None)"
proof
  assume "\<exists>y. io_ReadAll r = Some y"
  then show "\<exists>n. snd (r n) \<noteq> None"
    unfolding io_ReadAll_def using readAll_loop_Some_error by blast
next
  assume "\<exists>n. snd (r n) \<noteq> None"
  then obtain n err where "\<forall>j<n. snd (r j) = None" "snd (r n) = Some err"
    by (rule exists_first_error)
  then show "\<exists>y. io_ReadAll r = Some y"
    unfolding io_ReadAll_def using readAll_loop_result [of 0 n r err "[]"] by auto
qed

lemma io_ReadAll_result:
  "\<forall>j<n. snd (r j) = None \<Longrightarrow> snd (r n) = Some err \<Longrightarrow>
   io_ReadAll r = Some (reads_upto r 0 n, read_outcome err)"
  unfolding io_ReadAll_def using readAll_loop_result [of 0 n r err "[]"] by auto

lemma io_ReadAll_chunks:
  "io_ReadAll (chunks_reader cs err) = Some (concat cs, read_outcome err)"
proof -
  have "io_ReadAll (chunks_reader cs err) = Some (reads_upto (chunks_reader cs err) 0 (length cs), read_outcome err)"
    by (rule io_ReadAll_result) (simp_all add: chunks_reader_def)
  moreover have "map (\<lambda>j. fst (chunks_reader cs err j)) [0..<length cs] = cs"
    by (rule nth_equalityI) (simp_all add: chunks_reader_def)
  then have "reads_upto (chunks_reader cs err) 0 (length cs) = concat cs"
    by (simp add: reads_upto_def chunks_reader_def)
  ultimately show ?thesis by simp
qed

end
