(* ===== verification/Http_Api.thy ===== *)
theory Http_Api
  imports Process Go_Io
begin

text \<open>
  The HTTP interface as a client sees it.  First, the request body as a
  stream: \<open>PaymentGatewayCallback\<close> starts by \<open>io.ReadAll(c.Request.Body)\<close>
  (src/main.go lines 87--91); \<open>serve_io\<close> serves a request whose body is a
  reader, reading it where the callback handler does and leaving it unread on
  every other route.  Nothing before line 87 looks at the body, so reading it
  first and then running the engine is the same as reading it inside the
  handler.  Second, the response contract of the spec (section 5): the
  status and body shapes each endpoint may answer with, and the proof that
  every answer gin does not redirect has one of them.
\<close>

text \<open>Lines 87--91: \<open>body, err := io.ReadAll(...); if err != nil\<close>; the
  bytes read before an error are dropped.\<close>

definition read_result :: "string \<times> string option \<Rightarrow> string + string" where
  "read_result res = (case res of (body, None) \<Rightarrow> Inr body | (_, Some err) \<Rightarrow> Inl err)"

definition serve_io :: "server_cfg \<Rightarrow> gin_ctx \<Rightarrow> body_reader \<Rightarrow> gin_ctx option" where
  "serve_io cfg c r =
     (if req_method c = ''POST'' \<and> req_path c = ''/payment-callback''
      then map_option (\<lambda>res. serve cfg (c\<lparr>req_body := read_result res\<rparr>)) (io_ReadAll r)
      else Some (serve cfg c))"

subsection \<open>The response contract\<close>

definition error_body :: "string list \<Rightarrow> resp_body option \<Rightarrow> bool" where
  "error_body msgs b = list_ex (\<lambda>m. b = Some (BodyJSON (gin_H_error m))) msgs"

definition payment_body :: "resp_body option \<Rightarrow> bool" where
  "payment_body b =
     (case b of
        Some (BodyJSON (JMap [(k, JObj [(k1, JStr _), (k2, JStr _), (k3, JStr _)])])) \<Rightarrow>
          k = ''paymentData'' \<and> k1 = ''razorpay_payment_id'' \<and> k2 = ''razorpay_order_id'' \<and>
          k3 = ''razorpay_signature''
      | _ \<Rightarrow> False)"

definition order_body :: "resp_body option \<Rightarrow> bool" where
  "order_body b =
     (case b of
        Some (BodyJSON (JMap [(k1, _), (k2, _), (k3, JStr _)])) \<Rightarrow> k1 = ''id'' \<and> k2 = ''amount'' \<and> k3 = ''key''
      | _ \<Rightarrow> False)"

definition any_error_body :: "resp_body option \<Rightarrow> bool" where
  "any_error_body b = (case b of Some (BodyJSON (JMap [(k, JStr _)])) \<Rightarrow> k = ''error'' | _ \<Rightarrow> False)"

text \<open>Spec section 5: the endpoints and the answers each may give.\<close>

definition documented_response :: "string \<Rightarrow> string \<Rightarrow> nat option \<Rightarrow> resp_body option \<Rightarrow> bool" where
  "documented_response m p st b =
     (if m = ''OPTIONS'' then st = Some 200 \<and> b = None
      else if m = ''POST'' \<and> p = ''/create-order'' then
        (st = Some 200 \<and> order_body b) \<or> (st = Some 500 \<and> any_error_body b)
      else if m = ''POST'' \<and> p = ''/payment-callback'' then
        (st = Some 200 \<and> payment_body b) \<or>
        (st = Some 400 \<and> error_body [''Missing payment_id parameter'', ''Missing order_id parameter'',
                                   ''Missing signature parameter'', ''failed to verify''] b) \<or>
        (st = Some 500 \<and> error_body [''Unable to read request body'', ''Failed to parse query parameters''] b)
      else st = Some 404 \<and> b = Some (BodyText ''404 page not found''))"

definition callback_documented :: "gin_ctx \<Rightarrow> bool" where
  "callback_documented c = documented_response ''POST'' ''/payment-callback'' (resp_status c) (resp_body c)"

subsection \<open>Lemmas\<close>

lemmas documented_simps = callback_documented_def documented_response_def payment_body_def
  error_body_def payment_json_def gin_H_error_def

lemma callback_parsed_documented:
  assumes "callback_parsed H e b c = Inr c'"
  shows "callback_documented c'"
proof -
  obtain q err where pq: "ParseQuery b = (q, err)" by fastforce
  show ?thesis
  proof (cases err)
    case None
    with pq have pq': "ParseQuery b = (q, None)" by simp
    have "(Inr c' :: handler_result) =
      (let p = first_value q ''razorpay_payment_id''; ord = first_value q ''razorpay_order_id'';
           s = first_value q ''razorpay_signature''
       in if p = [] then Inr (gin_JSON 400 (gin_H_error ''Missing payment_id parameter'') c)
          else if ord = [] then Inr (gin_JSON 400 (gin_H_error ''Missing order_id parameter'') c)
          else if s = [] then Inr (gin_JSON 400 (gin_H_error ''Missing signature parameter'') c)
          else if verifyRazorpaySignature H ord p s (os_Getenv e ''RAZORPAY_KEY_SECRET'')
          then Inr (gin_JSON 200 (JMap [(''paymentData'',
                     payment_json \<lparr>PaymentID = p, OrderID = ord, Signature = s\<rparr>)]) c)
          else Inr (gin_JSON 400 (gin_H_error ''failed to verify'') c))"
      unfolding assms [symmetric] by (rule callback_parsed_ok [OF pq'])
    then show ?thesis
      by (simp add: Let_def documented_simps ctx_simps split: if_splits)
  next
    case (Some er)
    then show ?thesis
      using assms pq by (auto simp: callback_parsed_def documented_simps ctx_simps)
  qed
qed

lemma PaymentGatewayCallback_documented:
  "\<exists>c'. PaymentGatewayCallback H e c = Inr c' \<and> callback_documented c'"
proof (cases "req_body c")
  case (Inl ioerr)
  then show ?thesis
    by (simp add: PaymentGatewayCallback_def callback_documented_def documented_response_def
        error_body_def gin_H_error_def ctx_simps)
next
  case (Inr b)
  obtain c1 where c1: "callback_parsed H e b (fmt_Println [''Received request body:'', b] c) = Inr c1"
    using callback_parsed_Inr by blast
  have "callback_documented c1" using c1 by (rule callback_parsed_documented)
  then have "callback_documented (body_Close c1)"
    by (simp add: callback_documented_def ctx_simps)
  with c1 Inr show ?thesis by (simp add: PaymentGatewayCallback_read)
qed

lemma createRazorpayOrder_documented:
  "documented_response ''POST'' ''/create-order''
     (resp_status (createRazorpayOrder gw e c)) (resp_body (createRazorpayOrder gw e c))"
  by (auto simp: createRazorpayOrder_cases Let_def documented_response_def order_body_def
      any_error_body_def order_response_def gin_H_error_def ctx_simps split: sum.split)

lemma new_request_body_update [simp]: "(new_request m p b)\<lparr>req_body := b'\<rparr> = new_request m p b'"
  by (simp add: new_request_def)

lemma serve_new_request_documented:
  assumes "gin_tsr cfg m p = None"
  shows "documented_response m p (resp_status (serve cfg (new_request m p b))) (resp_body (serve cfg (new_request m p b)))"
proof -
  have s: "serve cfg (new_request m p b) = gin_Logger (new_request m p b) (engine_handle cfg (new_request m p b))"
    using assms by (simp add: serve_def new_request_def)
  let ?c0 = "header_Set ''Access-Control-Allow-Headers''
                 ''Content-Type, Content-Length, Accept-Encoding, X-CSRF-Token, Authorization''
                 (header_Set ''Access-Control-Allow-Methods'' ''GET, POST, PUT, DELETE, OPTIONS''
                   (header_Set ''Access-Control-Allow-Origin'' ''*'' (new_request m p b)))"
  consider (opt) "m = ''OPTIONS''" | (ord) "m = ''POST''" "p = ''/create-order''"
    | (cb) "m = ''POST''" "p = ''/payment-callback''"
    | (other) "m \<noteq> ''OPTIONS''" "\<not> (m = ''POST'' \<and> p = ''/create-order'')"
        "\<not> (m = ''POST'' \<and> p = ''/payment-callback'')"
    by blast
  then show ?thesis
  proof cases
    case opt
    then show ?thesis
      unfolding s by (simp add: engine_handle_def routes_def corsMiddleware_cases gin_Recovery_def Let_def ctx_simps
          documented_response_def new_request_def split: option.split)
  next
    case ord
    then show ?thesis
      using createRazorpayOrder_documented [of "cfg_gateway cfg" "cfg_env cfg" ?c0]
      unfolding s by (simp add: engine_handle_def routes_def corsMiddleware_cases gin_Recovery_def ctx_simps new_request_def)
  next
    case cb
    obtain c' where "PaymentGatewayCallback (cfg_sha256 cfg) (cfg_env cfg) ?c0 = Inr c'" "callback_documented c'"
      using PaymentGatewayCallback_documented by blast
    with cb show ?thesis
      unfolding s by (simp add: engine_handle_def routes_def corsMiddleware_cases gin_Recovery_def ctx_simps new_request_def
          callback_documented_def)
  next
    case other
    then show ?thesis
      unfolding s by (auto simp: engine_handle_def routes_def corsMiddleware_cases gin_Recovery_def Let_def ctx_simps
          documented_response_def new_request_def)
  qed
qed

subsection \<open>Properties\<close>

text \<open>C24: every answer the server gives to a new request has one of the
  shapes the spec documents for its endpoint: on \<open>/create-order\<close> 200
  with \<open>id\<close>, \<open>amount\<close>, \<open>key\<close> or 500 with an error; on
  \<open>/payment-callback\<close> 200 with \<open>paymentData\<close>, 400 with one of the four
  documented messages, or 500 with one of the two; a bare 200 to a
  preflight; 404 elsewhere; except the trailing-slash redirects, which the
  spec does not document.\<close>

theorem serve_documented:
  assumes "gin_tsr cfg m p = None"
  shows "documented_response m p (resp_status (serve cfg (new_request m p b))) (resp_body (serve cfg (new_request m p b)))"
  using assms by (rule serve_new_request_documented)


text \<open>C23: a read that fails, even after part of the body arrived, is
  answered 500 "Unable to read request body"; the program prints nothing
  (the only line is gin's access-log line) and the gateway is not called.\<close>

theorem serve_io_read_error:
  "map_option (\<lambda>c. (resp_status c, resp_body c, stdout c, gateway_calls c))
     (serve_io cfg (new_request ''POST'' ''/payment-callback'' b) (chunks_reader cs (ReadErr err))) =
   Some (Some 500, Some (BodyJSON (gin_H_error ''Unable to read request body'')),
         [AccessLog 500 ''POST'' ''/payment-callback''], [])"
  by (simp add: serve_io_def io_ReadAll_chunks read_result_def read_outcome_def serve_def gin_tsr_routes
      engine_handle_def routes_def
      corsMiddleware_cases gin_Recovery_def PaymentGatewayCallback_def new_request_def ctx_simps)


text \<open>Witness for C24: \<open>GET /\<close>, which gin does not redirect.\<close>

theorem serve_documented_witness:
  "gin_tsr cfg_witness ''GET'' ''/'' = None \<and>
   documented_response ''GET'' ''/'' (resp_status (serve cfg_witness (new_request ''GET'' ''/'' (Inr []))))
     (resp_body (serve cfg_witness (new_request ''GET'' ''/'' (Inr []))))"
proof -
  have h: "gin_tsr cfg_witness ''GET'' ''/'' = None" by (simp add: gin_tsr_routes)
  show ?thesis using h serve_documented [OF h, of "Inr []"] by blast
qed

end
