(* ===== verification/Go_Json.thy ===== *)
theory Go_Json
  imports Go_Hex Gin_Context "HOL-Library.List_Lexorder" "HOL-Library.Char_ord"
begin

text \<open>
  encoding/json's \<open>Marshal\<close>, which gin's \<open>c.JSON\<close> uses to write a
  response body (gin's \<open>render.JSON\<close> calls \<open>json.Marshal\<close> and writes
  the bytes).  Structs keep their fields in declaration order; maps are
  written with their keys sorted bytewise (\<open>strings.Compare\<close>, here the
  lexicographic order of \<open>List_Lexorder\<close> on characters ordered by code).
  Strings are written by \<open>appendString\<close> with HTML escaping on (as in
  \<open>Marshal\<close>): ASCII bytes other than the HTML-safe ones are escaped
  (\<open>\\\<close> and \<open>"\<close> with a backslash, \<open>\b \f \n \r \t\<close> by name, all others
  as \<open>\u00XX\<close>, which covers \<open><\<close>, \<open>>\<close>, \<open>&\<close> and the control bytes); at a
  byte of 0x80 or more the UTF-8 sequence is decoded
  (\<open>utf8.DecodeRuneInString\<close>): an invalid byte becomes \<open>\ufffd\<close>, U+2028
  and U+2029 become \<open>\u2028\<close> and \<open>\u2029\<close>, and any other valid sequence
  is copied.  Integers are written in decimal.  The escapes by name of
  \<open>\b\<close> and \<open>\f\<close> are those of Go 1.22 and later.
\<close>

definition RuneError :: nat where "RuneError = 65533"

definition in_range :: "nat \<Rightarrow> nat \<Rightarrow> char \<Rightarrow> bool" where
  "in_range lo hi c = (lo \<le> of_char c \<and> of_char c \<le> hi)"

text \<open>\<open>utf8.DecodeRuneInString\<close>: the rune at the start and its length in
  bytes; \<open>(RuneError, 1)\<close> for an invalid or incomplete sequence.\<close>

definition utf8_DecodeRune :: "string \<Rightarrow> nat \<times> nat" where
  "utf8_DecodeRune s =
     (case s of
        [] \<Rightarrow> (RuneError, 0)
      | c0 # rest \<Rightarrow>
          (let b0 = (of_char c0 :: nat) in
           if b0 < 0x80 then (b0, 1)
           else if b0 < 0xC2 \<or> 0xF4 < b0 then (RuneError, 1)
           else if b0 < 0xE0 then
             (case rest of
                c1 # _ \<Rightarrow>
                  if in_range 0x80 0xBF c1 then ((b0 - 0xC0) * 64 + (of_char c1 - 0x80), 2)
                  else (RuneError, 1)
              | [] \<Rightarrow> (RuneError, 1))
           else if b0 < 0xF0 then
             (case rest of
                c1 # c2 # _ \<Rightarrow>
                  if in_range (if b0 = 0xE0 then 0xA0 else 0x80) (if b0 = 0xED then 0x9F else 0xBF) c1
                     \<and> in_range 0x80 0xBF c2
                  then ((b0 - 0xE0) * 4096 + (of_char c1 - 0x80) * 64 + (of_char c2 - 0x80), 3)
                  else (RuneError, 1)
              | _ \<Rightarrow> (RuneError, 1))
           else
             (case rest of
                c1 # c2 # c3 # _ \<Rightarrow>
                  if in_range (if b0 = 0xF0 then 0x90 else 0x80) (if b0 = 0xF4 then 0x8F else 0xBF) c1
                     \<and> in_range 0x80 0xBF c2 \<and> in_range 0x80 0xBF c3
                  then ((b0 - 0xF0) * 262144 + (of_char c1 - 0x80) * 4096 + (of_char c2 - 0x80) * 64
                        + (of_char c3 - 0x80), 4)
                  else (RuneError, 1)
              | _ \<Rightarrow> (RuneError, 1))))"

definition backslash :: char where "backslash = CHR 0x5C"
definition dquote :: char where "dquote = CHR 0x22"

text \<open>\<open>htmlSafeSet\<close>: the ASCII bytes written as they are.\<close>

definition html_safe :: "char \<Rightarrow> bool" where
  "html_safe c = ((0x20::nat) \<le> of_char c \<and> of_char c < (0x80::nat) \<and>
                  c \<notin> set [dquote, backslash, CHR ''<'', CHR ''>'', CHR ''&''])"

text \<open>The escape of an ASCII byte (the \<open>b < utf8.RuneSelf\<close> branch).\<close>

definition json_esc_ascii :: "char \<Rightarrow> string" where
  "json_esc_ascii c =
     (if html_safe c then [c]
      else if c = backslash \<or> c = dquote then [backslash, c]
      else if of_char c = (8::nat) then [backslash, CHR ''b'']
      else if of_char c = (12::nat) then [backslash, CHR ''f'']
      else if of_char c = (10::nat) then [backslash, CHR ''n'']
      else if of_char c = (13::nat) then [backslash, CHR ''r'']
      else if of_char c = (9::nat) then [backslash, CHR ''t'']
      else [backslash, CHR ''u'', CHR ''0'', CHR ''0'',
            hextable ! (of_char c div 16), hextable ! (of_char c mod 16)])"

function json_esc :: "string \<Rightarrow> string" where
  "json_esc [] = []"
| "json_esc (c # cs) =
     (if of_char c < (0x80::nat) then json_esc_ascii c @ json_esc cs
      else
        (let d = utf8_DecodeRune (c # cs) in
         if fst d = RuneError \<and> snd d = 1 then backslash # ''ufffd'' @ json_esc cs
         else if fst d = 0x2028 \<or> fst d = 0x2029
         then backslash # ''u202'' @ [hextable ! (fst d mod 16)] @ json_esc (drop (snd d - 1) cs)
         else c # take (snd d - 1) cs @ json_esc (drop (snd d - 1) cs)))"
  by pat_completeness auto
termination
  by (relation "measure length") (auto simp: Let_def)

definition json_string :: "string \<Rightarrow> string" where
  "json_string s = dquote # json_esc s @ [dquote]"

fun nat_digits :: "nat \<Rightarrow> string" where
  "nat_digits n = (if n < 10 then [hextable ! n] else nat_digits (n div 10) @ [hextable ! (n mod 10)])"

declare nat_digits.simps [simp del]

definition go_itoa :: "int \<Rightarrow> string" where
  "go_itoa i = (if i < 0 then CHR ''-'' # nat_digits (nat (- i)) else nat_digits (nat i))"

fun join_commas :: "string list \<Rightarrow> string" where
  "join_commas [] = []"
| "join_commas [s] = s"
| "join_commas (s # t # rest) = s @ '','' @ join_commas (t # rest)"

fun json_Marshal :: "jval \<Rightarrow> string" where
  "json_Marshal JNull = ''null''"
| "json_Marshal (JBool b) = (if b then ''true'' else ''false'')"
| "json_Marshal (JInt i) = go_itoa i"
| "json_Marshal (JStr s) = json_string s"
| "json_Marshal (JObj fs) =
     ''{'' @ join_commas (map (\<lambda>kv. json_string (fst kv) @ '':'' @ json_Marshal (snd kv)) fs) @ ''}''"
| "json_Marshal (JMap fs) =
     ''{'' @ join_commas (map snd (sort_key fst
        (map (\<lambda>kv. (fst kv, json_string (fst kv) @ '':'' @ json_Marshal (snd kv))) fs))) @ ''}''"

text \<open>The bytes of a response body: JSON as encoded, text as it is.\<close>

definition wire_body :: "resp_body option \<Rightarrow> string" where
  "wire_body b = (case b of None \<Rightarrow> [] | Some (BodyJSON v) \<Rightarrow> json_Marshal v | Some (BodyText t) \<Rightarrow> t)"

text \<open>Go's \<open>utf8.ValidString\<close>: no invalid sequence.\<close>

function valid_utf8 :: "string \<Rightarrow> bool" where
  "valid_utf8 [] = True"
| "valid_utf8 (c # cs) =
     (let d = utf8_DecodeRune (c # cs)
      in \<not> (fst d = RuneError \<and> snd d = 1) \<and> valid_utf8 (drop (snd d - 1) cs))"
  by pat_completeness auto
termination
  by (relation "measure length") auto

text \<open>A reader of JSON string tokens (RFC 8259, section 7), as a client
  decodes the body: given the text after the opening quote, the decoded
  bytes (UTF-8) and the text after the closing quote.  Surrogate escapes,
  which the encoder never writes, are refused.\<close>

definition hex_val :: "char \<Rightarrow> nat option" where
  "hex_val c =
     (let n = (of_char c :: nat) in
      if 48 \<le> n \<and> n \<le> 57 then Some (n - 48)
      else if 97 \<le> n \<and> n \<le> 102 then Some (n - 87)
      else if 65 \<le> n \<and> n \<le> 70 then Some (n - 55) else None)"

definition hex4 :: "char \<Rightarrow> char \<Rightarrow> char \<Rightarrow> char \<Rightarrow> nat option" where
  "hex4 a b c d =
     (case (hex_val a, hex_val b, hex_val c, hex_val d) of
        (Some w, Some x, Some y, Some z) \<Rightarrow> Some (((w * 16 + x) * 16 + y) * 16 + z)
      | _ \<Rightarrow> None)"

definition utf8_encode :: "nat \<Rightarrow> string" where
  "utf8_encode cp =
     (if cp < 0x80 then [char_of cp]
      else if cp < 0x800 then [char_of (0xC0 + cp div 64), char_of (0x80 + cp mod 64)]
      else [char_of (0xE0 + cp div 4096), char_of (0x80 + cp div 64 mod 64), char_of (0x80 + cp mod 64)])"

definition prepend :: "string \<Rightarrow> (string \<times> string) option \<Rightarrow> (string \<times> string) option" where
  "prepend xs r = map_option (\<lambda>(v, rest). (xs @ v, rest)) r"

fun json_token :: "string \<Rightarrow> (string \<times> string) option" where
  "json_token [] = None"
| "json_token (c # cs) =
     (if c = dquote then Some ([], cs)
      else if c = backslash then
        (case cs of
           [] \<Rightarrow> None
         | e # cs' \<Rightarrow>
             if e = dquote \<or> e = backslash \<or> e = CHR ''/'' then prepend [e] (json_token cs')
             else if e = CHR ''b'' then prepend [char_of (8::nat)] (json_token cs')
             else if e = CHR ''f'' then prepend [char_of (12::nat)] (json_token cs')
             else if e = CHR ''n'' then prepend [char_of (10::nat)] (json_token cs')
             else if e = CHR ''r'' then prepend [char_of (13::nat)] (json_token cs')
             else if e = CHR ''t'' then prepend [char_of (9::nat)] (json_token cs')
             else if e = CHR ''u'' then
               (case cs' of
                  h1 # h2 # h3 # h4 # rest \<Rightarrow>
                    (case hex4 h1 h2 h3 h4 of
                       Some cp \<Rightarrow> if 0xD800 \<le> cp \<and> cp < 0xE000 then None
                                 else prepend (utf8_encode cp) (json_token rest)
                     | None \<Rightarrow> None)
                | _ \<Rightarrow> None)
             else None)
      else if of_char c < (0x20::nat) then None
      else prepend [c] (json_token cs))"

text \<open>The bytes of the output that a browser could read as markup, and
  control bytes, which JSON forbids inside strings.\<close>

definition json_safe :: "char \<Rightarrow> bool" where
  "json_safe c = ((0x20::nat) \<le> of_char c \<and> c \<notin> set [CHR ''<'', CHR ''>'', CHR ''&''])"

text \<open>What a reader gets back from \<open>json_string s\<close>: \<open>s\<close> with every
  invalid byte replaced by the UTF-8 encoding of U+FFFD.\<close>

function json_echo :: "string \<Rightarrow> string" where
  "json_echo [] = []"
| "json_echo (c # cs) =
     (if of_char c < (0x80::nat) then c # json_echo cs
      else
        (let d = utf8_DecodeRune (c # cs) in
         if fst d = RuneError \<and> snd d = 1 then utf8_encode RuneError @ json_echo cs
         else c # take (snd d - 1) cs @ json_echo (drop (snd d - 1) cs)))"
  by pat_completeness auto
termination
  by (relation "measure length") (auto simp: Let_def)

subsection \<open>UTF-8 decoding\<close>

lemma utf8_DecodeRune_multi:
  assumes "utf8_DecodeRune (c # cs) = (r, n)" and "(0x80::nat) \<le> of_char c"
    and "\<not> (r = RuneError \<and> n = 1)"
  shows "2 \<le> n \<and> n - 1 \<le> length cs \<and> (\<forall>x\<in>set (take (n - 1) cs). (0x80::nat) \<le> of_char x)"
  using assms
  by (auto simp: utf8_DecodeRune_def Let_def in_range_def RuneError_def
      split: list.splits if_splits)

lemma set_hextable_safe: "x \<in> set hextable \<Longrightarrow> json_safe x"
  by (auto simp: hextable_def json_safe_def)

lemma hextable_nth_safe: "n < 16 \<Longrightarrow> json_safe (hextable ! n)"
  by (rule set_hextable_safe) (simp add: nth_mem)

lemma json_esc_ascii_safe:
  assumes "x \<in> set (json_esc_ascii c)"
  shows "json_safe x"
proof -
  have "of_char c div 16 < (16::nat)" by (rule of_char_div_16)
  then show ?thesis
    using assms hextable_nth_safe [of "of_char c div 16"] hextable_nth_safe [of "of_char c mod 16"]
    by (auto simp: json_esc_ascii_def html_safe_def json_safe_def backslash_def dquote_def
        split: if_splits)
qed

lemma json_esc_safe: "x \<in> set (json_esc s) \<Longrightarrow> json_safe x"
proof (induction s rule: json_esc.induct)
  case 1
  then show ?case by simp
next
  case (2 c cs)
  obtain r n where d: "utf8_DecodeRune (c # cs) = (r, n)" by fastforce
  show ?case
  proof (cases "of_char c < (0x80::nat)")
    case True
    with 2 show ?thesis by (auto intro: json_esc_ascii_safe)
  next
    case False
    have "r mod 16 < 16" by simp
    then have hx: "json_safe (hextable ! (r mod 16))" by (rule hextable_nth_safe)
    consider (err) "r = RuneError \<and> n = 1" | (ls) "\<not> (r = RuneError \<and> n = 1)" "r = 0x2028 \<or> r = 0x2029"
      | (copy) "\<not> (r = RuneError \<and> n = 1)" "\<not> (r = 0x2028 \<or> r = 0x2029)" by blast
    then show ?thesis
    proof cases
      case err
      with 2 False d show ?thesis
        by (auto simp: json_safe_def backslash_def)
    next
      case ls
      with 2 False d hx show ?thesis
        by (auto simp: json_safe_def backslash_def)
    next
      case copy
      have big: "\<forall>y\<in>set (take (n - 1) cs). (0x80::nat) \<le> of_char y"
        using utf8_DecodeRune_multi [OF d] False copy(1) by simp
      have "x = c \<or> x \<in> set (take (n - 1) cs) \<or> x \<in> set (json_esc (drop (n - 1) cs))"
        using "2.prems" False d copy by (simp add: Let_def split: if_splits)
      then show ?thesis
      proof (elim disjE)
        assume "x = c" with False show ?thesis by (auto simp: json_safe_def)
      next
        assume "x \<in> set (take (n - 1) cs)" with big show ?thesis by (auto simp: json_safe_def)
      next
        assume "x \<in> set (json_esc (drop (n - 1) cs))"
        with "2.IH" False d copy show ?thesis by fastforce
      qed
    qed
  qed
qed

lemma json_string_safe: "x \<in> set (json_string s) \<Longrightarrow> json_safe x"
  using json_esc_safe [of x s] by (auto simp: json_string_def json_safe_def dquote_def)

lemma nat_digits_hextable: "set (nat_digits n) \<subseteq> set hextable"
proof (induction n rule: nat_digits.induct)
  case (1 n)
  have "hextable ! (n mod 10) \<in> set hextable" by (simp add: nth_mem)
  moreover have "n < 10 \<Longrightarrow> hextable ! n \<in> set hextable" by (simp add: nth_mem)
  ultimately show ?case
    using "1.IH" by (subst nat_digits.simps) auto
qed

lemma go_itoa_safe: "x \<in> set (go_itoa i) \<Longrightarrow> json_safe x"
proof -
  assume "x \<in> set (go_itoa i)"
  then have "x = CHR ''-'' \<or> x \<in> set hextable"
    using nat_digits_hextable by (auto simp: go_itoa_def split: if_splits)
  then show ?thesis using set_hextable_safe by (auto simp: json_safe_def)
qed

lemma set_join_commas: "set (join_commas ss) \<subseteq> insert (CHR '','') (\<Union>s\<in>set ss. set s)"
  by (induction ss rule: join_commas.induct) auto

lemma join_commas_safe:
  assumes "\<And>s x. s \<in> set ss \<Longrightarrow> x \<in> set s \<Longrightarrow> json_safe x" and "x \<in> set (join_commas ss)"
  shows "json_safe x"
proof -
  have "x = CHR '','' \<or> (\<exists>s\<in>set ss. x \<in> set s)"
    using set_join_commas [of ss] assms(2) by blast
  then show ?thesis
  proof
    assume "x = CHR '',''" then show ?thesis by (simp add: json_safe_def)
  next
    assume "\<exists>s\<in>set ss. x \<in> set s" then show ?thesis using assms(1) by blast
  qed
qed

lemma json_field_safe:
  assumes IH: "\<And>kv x. kv \<in> set fs \<Longrightarrow> x \<in> set (json_Marshal (snd kv)) \<Longrightarrow> json_safe x"
    and "kv \<in> set fs" and "y \<in> set (json_string (fst kv) @ CHR '':'' # json_Marshal (snd kv))"
  shows "json_safe y"
proof -
  have "y \<in> set (json_string (fst kv)) \<or> y = CHR '':'' \<or> y \<in> set (json_Marshal (snd kv))"
    using assms(3) by auto
  then show ?thesis
    using IH [OF assms(2)] json_string_safe by (auto simp: json_safe_def)
qed

lemma json_braces_safe: "json_safe CHR ''{''" "json_safe CHR ''}''"
  by (simp_all add: json_safe_def)

lemma json_object_safe:
  assumes "x \<in> set (''{'' @ join_commas ss @ ''}'')" and "\<And>s y. s \<in> set ss \<Longrightarrow> y \<in> set s \<Longrightarrow> json_safe y"
  shows "json_safe x"
  using join_commas_safe [OF assms(2)] assms(1) json_braces_safe by auto

lemma json_Marshal_safe: "x \<in> set (json_Marshal v) \<Longrightarrow> json_safe x"
proof (induction v arbitrary: x rule: json_Marshal.induct)
  case (5 fs)
  have f: "json_safe y" if "kv \<in> set fs" "y \<in> set (json_string (fst kv) @ CHR '':'' # json_Marshal (snd kv))"
    for kv y
    using "5.IH" that by (rule json_field_safe)
  show ?case
    using "5.prems" by (simp only: json_Marshal.simps) (erule json_object_safe, use f in \<open>auto\<close>)
next
  case (6 fs)
  have f: "json_safe y" if "kv \<in> set fs" "y \<in> set (json_string (fst kv) @ CHR '':'' # json_Marshal (snd kv))"
    for kv y
    using "6.IH" that by (rule json_field_safe)
  show ?case
    using "6.prems" by (simp only: json_Marshal.simps) (erule json_object_safe, use f in \<open>auto simp: set_sort\<close>)
qed (auto simp: json_safe_def dest: go_itoa_safe json_string_safe split: if_splits)

subsection \<open>Reading back what the encoder writes\<close>

lemma prepend_prepend [simp]: "prepend xs (prepend ys r) = prepend (xs @ ys) r"
  by (cases r) (auto simp: prepend_def)

lemma prepend_Some [simp]: "prepend xs (Some (v, rest)) = Some (xs @ v, rest)"
  by (simp add: prepend_def)

lemma json_token_plain:
  assumes "\<forall>x\<in>set xs. x \<noteq> dquote \<and> x \<noteq> backslash \<and> (0x20::nat) \<le> of_char x"
  shows "json_token (xs @ t) = prepend xs (json_token t)"
  using assms
proof (induction xs)
  case Nil
  then show ?case by (cases "json_token t") (auto simp: prepend_def)
next
  case (Cons x xs)
  then show ?case by (simp add: not_less)
qed

lemma hex_val_hextable_all: "\<forall>n<16. hex_val (hextable ! n) = Some n"
  by (simp add: numeral_eq_Suc All_less_Suc hextable_def hex_val_def)

lemma hex_val_hextable: "n < 16 \<Longrightarrow> hex_val (hextable ! n) = Some n"
  using hex_val_hextable_all by blast

lemma hex_val_digits: "hex_val CHR ''0'' = Some 0" "hex_val CHR ''2'' = Some 2"
  by (simp_all add: hex_val_def)

lemma char_of_eq: "of_char c = (n::nat) \<Longrightarrow> char_of n = c"
  by (metis char_of_char)

lemma json_token_ascii:
  assumes "of_char c < (0x80::nat)"
  shows "json_token (json_esc_ascii c @ t) = prepend [c] (json_token t)"
proof -
  let ?b = "of_char c :: nat"
  have hx: "hex4 CHR ''0'' CHR ''0'' (hextable ! (?b div 16)) (hextable ! (?b mod 16)) = Some ?b"
    using of_char_div_16 [of c]
    by (simp add: hex4_def hex_val_digits hex_val_hextable)
  have enc: "utf8_encode ?b = [c]"
    using assms by (simp add: utf8_encode_def)
  have ns: "\<not> (0xD800 \<le> ?b \<and> ?b < 0xE000)" using assms by simp
  show ?thesis
    using assms hx enc ns
    by (auto simp: json_esc_ascii_def html_safe_def backslash_def dquote_def not_less
        char_of_eq prepend_def split: option.split)
qed

lemma three_byte_rune:
  fixes x y z :: nat
  assumes "y < 64" and "z < 64" and "x * 4096 + y * 64 + z = 8232 + k" and "k < 2"
  shows "x = 2 \<and> y = 0 \<and> z = 40 + k"
proof -
  have w: "y * 64 + z < 4096" using assms(1,2) by linarith
  have "1 < x" using assms(3,4) w by linarith
  moreover have "x < 3" using assms(3,4) by linarith
  ultimately have x: "x = 2" by linarith
  with assms(3) have "y * 64 + z = 40 + k" by linarith
  then have "y = 0" using assms(4) by linarith
  with \<open>y * 64 + z = 40 + k\<close> x show ?thesis by simp
qed

lemma utf8_DecodeRune_not_two:
  assumes "utf8_DecodeRune (c # cs) = (r, n)" and "(0x80::nat) \<le> of_char c"
    and "of_char c < (0xE0::nat)" and "r \<noteq> RuneError"
  shows "r < 2048"
  using assms by (auto simp: utf8_DecodeRune_def Let_def in_range_def split: list.splits if_splits)

lemma utf8_DecodeRune_not_four:
  assumes "utf8_DecodeRune (c # cs) = (r, n)" and "(0xF0::nat) \<le> of_char c" and "r \<noteq> RuneError"
  shows "65536 \<le> r"
  using assms by (auto simp: utf8_DecodeRune_def Let_def in_range_def split: list.splits if_splits)

lemma utf8_DecodeRune_three:
  assumes "utf8_DecodeRune (c # cs) = (r, n)" and "(0xE0::nat) \<le> of_char c" and "of_char c < (0xF0::nat)"
    and "r \<noteq> RuneError"
  shows "\<exists>c1 c2 rest. cs = c1 # c2 # rest \<and> n = 3 \<and>
           r = (of_char c - 0xE0) * 4096 + (of_char c1 - 0x80) * 64 + (of_char c2 - 0x80) \<and>
           (0x80::nat) \<le> of_char c1 \<and> of_char c1 \<le> (0xBF::nat) \<and>
           (0x80::nat) \<le> of_char c2 \<and> of_char c2 \<le> (0xBF::nat)"
  using assms by (auto simp: utf8_DecodeRune_def Let_def in_range_def split: list.splits if_splits)

lemma utf8_DecodeRune_line_sep:
  assumes d: "utf8_DecodeRune (c # cs) = (r, n)" and big: "(0x80::nat) \<le> of_char c"
    and ls: "r = 8232 \<or> r = 8233"
  shows "n = 3 \<and> 2 \<le> length cs \<and> c # take 2 cs = utf8_encode r"
proof -
  have ne: "r \<noteq> RuneError" using ls by (auto simp: RuneError_def)
  have lo: "(0xE0::nat) \<le> of_char c"
    using utf8_DecodeRune_not_two [OF d big _ ne] ls by force
  have hi: "of_char c < (0xF0::nat)"
    using utf8_DecodeRune_not_four [OF d _ ne] ls by force
  obtain c1 c2 rest where cs: "cs = c1 # c2 # rest" and n: "n = 3"
    and rv: "r = (of_char c - 0xE0) * 4096 + (of_char c1 - 0x80) * 64 + (of_char c2 - 0x80)"
    and rg: "(0x80::nat) \<le> of_char c1" "of_char c1 \<le> (0xBF::nat)"
            "(0x80::nat) \<le> of_char c2" "of_char c2 \<le> (0xBF::nat)"
    using utf8_DecodeRune_three [OF d lo hi ne] by blast
  have "of_char c - 0xE0 = (2::nat) \<and> of_char c1 - 0x80 = (0::nat) \<and> of_char c2 - 0x80 = 40 + (r - 8232)"
    using rg ls rv by (intro three_byte_rune) auto
  then have "of_char c = (226::nat)" "of_char c1 = (128::nat)" "of_char c2 = 168 + (r - 8232)"
    using rg lo by auto
  then have "c = char_of (226::nat)" "c1 = char_of (128::nat)" "c2 = char_of (168 + (r - 8232))"
    by (metis char_of_char)+
  then show ?thesis
    using cs n ls by (auto simp: utf8_encode_def)
qed

lemma utf8_DecodeRune_ascii: "of_char c < (0x80::nat) \<Longrightarrow> utf8_DecodeRune (c # cs) = (of_char c, 1)"
  by (simp add: utf8_DecodeRune_def)

lemma json_token_line_sep:
  assumes "r = 8232 \<or> r = 8233"
  shows "json_token (backslash # ''u202'' @ [hextable ! (r mod 16)] @ t) = prepend (utf8_encode r) (json_token t)"
proof -
  have m: "r mod 16 < 16" by simp
  have "hex4 CHR ''2'' CHR ''0'' CHR ''2'' (hextable ! (r mod 16)) = Some r"
    using assms by (auto simp: hex4_def hex_val_digits hex_val_hextable)
  then show ?thesis
    using assms by (auto simp: backslash_def dquote_def)
qed

lemma json_token_ufffd: "json_token (backslash # ''ufffd'' @ t) = prepend (utf8_encode RuneError) (json_token t)"
  by (simp add: backslash_def dquote_def hex4_def hex_val_def RuneError_def)

lemma json_token_json_esc:
  "json_token (json_esc s @ dquote # rest) = Some (json_echo s, rest)"
proof (induction s arbitrary: rest rule: json_esc.induct)
  case 1
  then show ?case by simp
next
  case (2 c cs)
  show ?case
  proof (cases "of_char c < (0x80::nat)")
    case True
    then show ?thesis using "2.IH"(1) True by (simp add: json_token_ascii)
  next
    case False
    obtain r n where d: "utf8_DecodeRune (c # cs) = (r, n)" by fastforce
    consider (err) "r = RuneError \<and> n = 1" | (ls) "\<not> (r = RuneError \<and> n = 1)" "r = 8232 \<or> r = 8233"
      | (copy) "\<not> (r = RuneError \<and> n = 1)" "\<not> (r = 8232 \<or> r = 8233)" by blast
    then show ?thesis
    proof cases
      case err
      have "json_token (json_esc cs @ dquote # rest) = Some (json_echo cs, rest)"
        using "2.IH"(2) [of "(r, n)"] False d err by simp
      then show ?thesis using False d err json_token_ufffd by (simp add: Let_def)
    next
      case ls
      have ih: "json_token (json_esc (drop (n - 1) cs) @ dquote # rest) = Some (json_echo (drop (n - 1) cs), rest)"
        using "2.IH"(3) [of "(r, n)"] False d ls by (simp add: Let_def)
      have sep: "n = 3 \<and> 2 \<le> length cs \<and> c # take 2 cs = utf8_encode r"
        using utf8_DecodeRune_line_sep [OF d] False ls(2) by simp
      have e: "json_esc (c # cs) = backslash # ''u202'' @ [hextable ! (r mod 16)] @ json_esc (drop (n - 1) cs)"
        using False d ls by (auto simp: Let_def)
      have o: "json_echo (c # cs) = (c # take 2 cs) @ json_echo (drop 2 cs)"
        using False d ls sep by (auto simp: Let_def)
      have "json_token (json_esc (c # cs) @ dquote # rest) =
            prepend (utf8_encode r) (json_token (json_esc (drop 2 cs) @ dquote # rest))"
        using e json_token_line_sep [OF ls(2)] sep by simp
      also have "\<dots> = Some (utf8_encode r @ json_echo (drop 2 cs), rest)"
        using ih sep by simp
      also have "utf8_encode r @ json_echo (drop 2 cs) = json_echo (c # cs)"
        using sep o by simp
      finally show ?thesis .
    next
      case copy
      have ih: "json_token (json_esc (drop (n - 1) cs) @ dquote # rest) = Some (json_echo (drop (n - 1) cs), rest)"
        using "2.IH"(4) [of "(r, n)"] False d copy by (simp add: Let_def)
      have m: "2 \<le> n \<and> n - 1 \<le> length cs \<and> (\<forall>x\<in>set (take (n - 1) cs). (0x80::nat) \<le> of_char x)"
        using utf8_DecodeRune_multi [OF d] False copy(1) by simp
      have "json_esc (c # cs) = (c # take (n - 1) cs) @ json_esc (drop (n - 1) cs)"
        using False d copy by (auto simp: Let_def)
      moreover have "json_echo (c # cs) = (c # take (n - 1) cs) @ json_echo (drop (n - 1) cs)"
        using False d copy by (auto simp: Let_def)
      moreover have "\<forall>x\<in>set (c # take (n - 1) cs). x \<noteq> dquote \<and> x \<noteq> backslash \<and> (0x20::nat) \<le> of_char x"
        using m False by (auto simp: dquote_def backslash_def)
      ultimately show ?thesis
        using json_token_plain ih by simp
    qed
  qed
qed

lemma json_echo_valid: "valid_utf8 s \<Longrightarrow> json_echo s = s"
proof (induction s rule: json_echo.induct)
  case (2 c cs)
  show ?case
  proof (cases "of_char c < (0x80::nat)")
    case True
    then show ?thesis using "2.IH"(1) "2.prems" by (simp add: utf8_DecodeRune_ascii)
  next
    case False
    obtain r n where d: "utf8_DecodeRune (c # cs) = (r, n)" by fastforce
    have ok: "\<not> (r = RuneError \<and> n = 1)" and v: "valid_utf8 (drop (n - 1) cs)"
      using "2.prems" d by (simp_all add: Let_def)
    have "json_echo (drop (n - 1) cs) = drop (n - 1) cs"
      using "2.IH"(3) [of "(r, n)"] False d ok v by simp
    moreover have "json_echo (c # cs) = c # take (n - 1) cs @ json_echo (drop (n - 1) cs)"
      using False d ok by (auto simp: Let_def)
    ultimately show ?thesis by simp
  qed
qed simp

lemma json_esc_plain: "\<forall>c\<in>set s. html_safe c \<Longrightarrow> json_esc s = s"
proof (induction s)
  case (Cons c s)
  then have "of_char c < (0x80::nat)" and "json_esc_ascii c = [c]"
    by (simp_all add: html_safe_def json_esc_ascii_def)
  with Cons show ?case by simp
qed simp

lemma json_string_plain: "\<forall>c\<in>set s. html_safe c \<Longrightarrow> json_string s = dquote # s @ [dquote]"
  by (simp add: json_string_def json_esc_plain)

subsection \<open>Length of the escaped text\<close>

lemma length_json_esc_ascii: "length (json_esc_ascii c) \<le> 6"
  by (simp add: json_esc_ascii_def)

lemma length_json_esc: "length (json_esc s) \<le> 6 * length s"
proof (induction s rule: json_esc.induct)
  case 1
  then show ?case by simp
next
  case (2 c cs)
  obtain r n where d: "utf8_DecodeRune (c # cs) = (r, n)" by fastforce
  show ?case
  proof (cases "of_char c < (0x80::nat)")
    case True
    then show ?thesis using "2.IH"(1) length_json_esc_ascii [of c] by simp
  next
    case False
    consider (err) "r = RuneError \<and> n = 1" | (ls) "\<not> (r = RuneError \<and> n = 1)" "r = 8232 \<or> r = 8233"
      | (copy) "\<not> (r = RuneError \<and> n = 1)" "\<not> (r = 8232 \<or> r = 8233)" by blast
    then show ?thesis
    proof cases
      case err
      then show ?thesis using "2.IH"(2) [of "(r, n)"] False d by (simp add: Let_def)
    next
      case ls
      have "length (json_esc (drop (n - 1) cs)) \<le> 6 * length cs"
        using "2.IH"(3) [of "(r, n)"] False d ls by (simp add: Let_def)
      then show ?thesis using False d ls by (auto simp: Let_def RuneError_def)
    next
      case copy
      have m: "n - 1 \<le> length cs"
        using utf8_DecodeRune_multi [OF d] False copy(1) by simp
      have ih: "length (json_esc (drop (n - 1) cs)) \<le> 6 * (length cs - (n - 1))"
        using "2.IH"(4) [of "(r, n)"] False d copy by (simp add: Let_def)
      have e: "json_esc (c # cs) = (c # take (n - 1) cs) @ json_esc (drop (n - 1) cs)"
        using False d copy by (auto simp: Let_def)
      have "length (json_esc (c # cs)) = n + length (json_esc (drop (n - 1) cs))"
        using e m utf8_DecodeRune_multi [OF d] False copy(1) by simp
      then show ?thesis using ih m by simp
    qed
  qed
qed

end
