(* ===== verification/Wire.thy ===== *)
theory Wire
  imports Http_Api Go_Json
begin

text \<open>
  The bytes the server sends: \<open>wire_body\<close> of a response, with its JSON
  written by encoding/json as gin's \<open>c.JSON\<close> does.  The handlers echo
  values that come from the client (the three payment fields) and from the
  gateway (order id, amount, error text) into these bytes.  A client reads
  the accepted callback's answer with \<open>read_payment_response\<close>, a reader of
  the documented shape \<open>{"paymentData":{...}}\<close> built on the JSON string
  reader \<open>json_token\<close>; the properties are stated on the bytes of whole
  requests through \<open>serve\<close>.
\<close>

text \<open>A callback request: \<open>POST /payment-callback\<close> with the three
  fields form-encoded in the body, in the order the gateway sends them.\<close>

abbreviation callback_request :: "string \<Rightarrow> string \<Rightarrow> string \<Rightarrow> gin_ctx" where
  "callback_request paymentID orderID signature \<equiv>
     new_request ''POST'' ''/payment-callback''
       (Inr (form_encode [(''razorpay_payment_id'', paymentID), (''razorpay_order_id'', orderID),
                          (''razorpay_signature'', signature)]))"

definition strip_prefix :: "string \<Rightarrow> string \<Rightarrow> string option" where
  "strip_prefix pre s = (if take (length pre) s = pre then Some (drop (length pre) s) else None)"

definition read_payment_response :: "string \<Rightarrow> payment option" where
  "read_payment_response s =
     (case strip_prefix ''{\"paymentData\":{\"razorpay_payment_id\":\"'' s of
        None \<Rightarrow> None
      | Some s1 \<Rightarrow>
          (case json_token s1 of
             None \<Rightarrow> None
           | Some (p, s2) \<Rightarrow>
               (case strip_prefix '',\"razorpay_order_id\":\"'' s2 of
                  None \<Rightarrow> None
                | Some s3 \<Rightarrow>
                    (case json_token s3 of
                       None \<Rightarrow> None
                     | Some (ord, s4) \<Rightarrow>
                         (case strip_prefix '',\"razorpay_signature\":\"'' s4 of
                            None \<Rightarrow> None
                          | Some s5 \<Rightarrow>
                              (case json_token s5 of
                                 None \<Rightarrow> None
                               | Some (sig, s6) \<Rightarrow>
                                   if s6 = ''}}'' then Some \<lparr>PaymentID = p, OrderID = ord, Signature = sig\<rparr>
                                   else None))))))"

text \<open>Witness input: the keys of \<open>env_keys\<close> and a gateway that returns an
  order with an amount and no id.\<close>

definition cfg_order_witness :: server_cfg where
  "cfg_order_witness = \<lparr>cfg_sha256 = toy_hash, cfg_env = env_keys, cfg_gateway = gateway_no_id\<rparr>"

subsection \<open>Lemmas\<close>

lemma strip_prefix_append [simp]: "strip_prefix pre (pre @ s) = Some s"
  by (simp add: strip_prefix_def)

lemma serve_callback_route:
  assumes "req_method c = ''POST''" and "req_path c = ''/payment-callback''"
  shows "serve cfg c =
    gin_Logger c (gin_Recovery (corsMiddleware (PaymentGatewayCallback (cfg_sha256 cfg) (cfg_env cfg)) c))"
  using assms by (simp add: serve_def gin_tsr_routes engine_handle_def routes_def)

lemma serve_create_order_route:
  assumes "req_method c = ''POST''" and "req_path c = ''/create-order''"
  shows "serve cfg c =
    gin_Logger c (gin_Recovery (corsMiddleware (\<lambda>c. Inr (createRazorpayOrder (cfg_gateway cfg) (cfg_env cfg) c)) c))"
  using assms by (simp add: serve_def gin_tsr_routes engine_handle_def routes_def)

lemma serve_callback_spec:
  assumes "req_method c = ''POST''" and "req_path c = ''/payment-callback''"
    and "key_digest_fits (cfg_sha256 cfg) (os_Getenv (cfg_env cfg) ''RAZORPAY_KEY_SECRET'')"
  shows "resp_status (serve cfg c) = Some (fst (outcome_response (callback_spec (cfg_sha256 cfg)
            (os_Getenv (cfg_env cfg) ''RAZORPAY_KEY_SECRET'') (req_body c)))) \<and>
         resp_body (serve cfg c) = Some (BodyJSON (snd (outcome_response (callback_spec (cfg_sha256 cfg)
            (os_Getenv (cfg_env cfg) ''RAZORPAY_KEY_SECRET'') (req_body c)))))"
  using assms
  by (simp add: serve_callback_route corsMiddleware_cases PaymentGatewayCallback_spec gin_Recovery_def
      callback_result_def Let_def ctx_simps split: sum.split)

lemma callback_spec_form:
  "callback_spec H secret (Inr (form_encode [(''razorpay_payment_id'', p # ps), (''razorpay_order_id'', r # rs),
      (''razorpay_signature'', s)])) =
   (if s = [] then Missing ''signature''
    else if s = expected_signature H secret (r # rs) (p # ps)
    then Accepted \<lparr>PaymentID = p # ps, OrderID = r # rs, Signature = s\<rparr> else Rejected)"
  by (simp add: callback_spec_def form_values_simps Let_def del: form_encode.simps)

lemma payment_response_bytes:
  "json_Marshal (JMap [(''paymentData'', payment_json P)]) =
   ''{\"paymentData\":{\"razorpay_payment_id\":'' @ json_string (PaymentID P) @
   '',\"razorpay_order_id\":'' @ json_string (OrderID P) @
   '',\"razorpay_signature\":'' @ json_string (Signature P) @ ''}}''"
  by (simp add: payment_json_def json_string_plain html_safe_def dquote_def backslash_def)

lemma read_payment_response_Marshal:
  "read_payment_response (json_Marshal (JMap [(''paymentData'', payment_json P)])) =
   Some \<lparr>PaymentID = json_echo (PaymentID P), OrderID = json_echo (OrderID P),
         Signature = json_echo (Signature P)\<rparr>"
  unfolding payment_response_bytes json_string_def
  by (simp add: read_payment_response_def strip_prefix_def json_token_json_esc [unfolded dquote_def] dquote_def)

lemma documented_body_text:
  "documented_response m p st (Some (BodyText t)) \<Longrightarrow> t = ''404 page not found''"
  by (simp add: documented_response_def payment_body_def order_body_def any_error_body_def error_body_def
      list_ex_iff split: if_splits)

lemma documented_wire_safe:
  assumes "documented_response m p st b"
  shows "list_all json_safe (wire_body b)"
proof (cases b)
  case None
  then show ?thesis by (simp add: wire_body_def)
next
  case (Some rb)
  then show ?thesis
  proof (cases rb)
    case (BodyJSON v)
    then show ?thesis using Some json_Marshal_safe by (simp add: wire_body_def list_all_iff)
  next
    case (BodyText t)
    then have "t = ''404 page not found''" using Some assms documented_body_text by simp
    then show ?thesis using Some BodyText by (simp add: wire_body_def json_safe_def)
  qed
qed

lemma valid_utf8_ascii: "\<forall>c\<in>set s. of_char c < (0x80::nat) \<Longrightarrow> valid_utf8 s"
  by (induction s) (simp_all add: utf8_DecodeRune_ascii RuneError_def)

lemma expected_signature_ascii:
  "\<forall>c\<in>set (expected_signature H secret ord p). of_char c < (0x80::nat)"
proof
  fix c assume "c \<in> set (expected_signature H secret ord p)"
  then have "c \<in> set hextable"
    using set_hex_EncodeToString unfolding expected_signature_def by blast
  then show "of_char c < (0x80::nat)" by (auto simp: hextable_def)
qed

lemma serve_accepted_body:
  assumes "key_digest_fits (cfg_sha256 cfg) (os_Getenv (cfg_env cfg) ''RAZORPAY_KEY_SECRET'')"
    and "s = expected_signature (cfg_sha256 cfg) (os_Getenv (cfg_env cfg) ''RAZORPAY_KEY_SECRET'') (r # rs) (p # ps)"
    and "s \<noteq> []"
  shows "resp_body (serve cfg (callback_request (p # ps) (r # rs) s)) =
         Some (BodyJSON (JMap [(''paymentData'', payment_json \<lparr>PaymentID = p # ps, OrderID = r # rs, Signature = s\<rparr>)]))"
  using serve_callback_spec [of "callback_request (p # ps) (r # rs) s" cfg] assms
  by (simp add: new_request_def callback_spec_form del: form_encode.simps)

lemma order_response_bytes:
  "json_Marshal (order_response order k) =
   ''{\"amount\":'' @ json_Marshal (go_map_get order ''amount'') @ '',\"id\":'' @
   json_Marshal (go_map_get order ''id'') @ '',\"key\":'' @ json_string k @ ''}''"
  by (simp add: order_response_def json_string_plain html_safe_def dquote_def backslash_def)

lemma valid_utf8_witness_ids: "valid_utf8 ''pay_1''" "valid_utf8 ''order_1''"
  by (rule valid_utf8_ascii, simp)+

lemma json_echo_FF: "json_echo [CHR 0xFF] = [CHR 0xEF, CHR 0xBF, CHR 0xBD]"
  by (simp add: utf8_DecodeRune_def in_range_def RuneError_def utf8_encode_def Let_def, code_simp)

subsection \<open>Properties\<close>

text \<open>C25: every byte of every answer the server sends to a new request
  (redirects included) is
  safe to embed: no control character, and none of \<open><\<close>, \<open>>\<close>,
  \<open>&\<close>, whatever the client sent and whatever the gateway returned.  The
  values the handlers echo are escaped by encoding/json (HTML-safe, with
  \<open>\u2028\<close> and \<open>\u2029\<close> escaped and invalid UTF-8 replaced).\<close>
theorem serve_wire_safe:
  "list_all json_safe (wire_body (resp_body (serve cfg (new_request m p b))))"
proof (cases "gin_tsr cfg m p")
  case None
  then show ?thesis by (rule documented_wire_safe [OF serve_new_request_documented])
next
  case (Some loc)
  then have "serve cfg (new_request m p b) = gin_redirect (new_request m p b) loc"
    by (simp add: serve_def new_request_def)
  then show ?thesis by (simp add: gin_redirect_def new_request_def wire_body_def)
qed

text \<open>C26: end to end on the bytes: a client that reads the 200 answer to a
  genuine callback gets back the signature it sent and each id with every
  byte that is not valid UTF-8 replaced by U+FFFD (encoding/json's
  replacement), not the bytes the form carried.\<close>
theorem serve_callback_reads_back:
  assumes "key_digest_fits (cfg_sha256 cfg) (os_Getenv (cfg_env cfg) ''RAZORPAY_KEY_SECRET'')"
    and "s = expected_signature (cfg_sha256 cfg) (os_Getenv (cfg_env cfg) ''RAZORPAY_KEY_SECRET'') (r # rs) (p # ps)"
    and "s \<noteq> []"
  shows "read_payment_response (wire_body (resp_body (serve cfg (callback_request (p # ps) (r # rs) s)))) =
         Some \<lparr>PaymentID = json_echo (p # ps), OrderID = json_echo (r # rs), Signature = s\<rparr>"
proof -
  have "valid_utf8 s"
    unfolding assms(2) by (rule valid_utf8_ascii [OF expected_signature_ascii])
  then have "json_echo s = s" by (rule json_echo_valid)
  then show ?thesis
    by (simp only: serve_accepted_body [OF assms] wire_body_def option.case resp_body.case read_payment_response_Marshal
        payment.simps)
qed


text \<open>C27: the bytes of a successful \<open>/create-order\<close> answer: the
  \<open>gin.H\<close> map is written with its keys sorted, \<open>amount\<close>, \<open>id\<close>,
  \<open>key\<close>, not in the order of the source (\<open>id\<close>, \<open>amount\<close>, \<open>key\<close>);
  the key id is written as an escaped JSON string.\<close>
theorem serve_create_order_bytes:
  assumes "cfg_gateway cfg \<lparr>client_key = os_Getenv (cfg_env cfg) ''RAZORPAY_KEY_ID'',
             client_secret = os_Getenv (cfg_env cfg) ''RAZORPAY_KEY_SECRET''\<rparr> order_data = Inr order"
  shows "wire_body (resp_body (serve cfg (new_request ''POST'' ''/create-order'' b))) =
    ''{\"amount\":'' @ json_Marshal (go_map_get order ''amount'') @ '',\"id\":'' @
    json_Marshal (go_map_get order ''id'') @ '',\"key\":'' @ json_string (os_Getenv (cfg_env cfg) ''RAZORPAY_KEY_ID'') @ ''}''"
  by (simp add: serve_create_order_route corsMiddleware_cases gin_Recovery_def new_request_def
      createRazorpayOrder_cases Let_def ctx_simps assms wire_body_def order_response_bytes gin_JSON_def)


text \<open>Witness for C26: a payment id with the invalid byte \<open>0xFF\<close> is read back as \<open>EF BF BD\<close>.\<close>

theorem serve_callback_reads_back_witness:
  "key_digest_fits (cfg_sha256 cfg_witness) (os_Getenv (cfg_env cfg_witness) ''RAZORPAY_KEY_SECRET'') \<and>
   read_payment_response (wire_body (resp_body (serve cfg_witness (callback_request [CHR 0xFF] ''order_1''
     (expected_signature toy_hash ''k'' ''order_1'' [CHR 0xFF]))))) =
   Some \<lparr>PaymentID = [CHR 0xEF, CHR 0xBF, CHR 0xBD], OrderID = ''order_1'',
         Signature = expected_signature toy_hash ''k'' ''order_1'' [CHR 0xFF]\<rparr>"
proof -
  have k: "key_digest_fits (cfg_sha256 cfg_witness) (os_Getenv (cfg_env cfg_witness) ''RAZORPAY_KEY_SECRET'')"
    by (simp add: cfg_witness_def env_k_def key_digest_fits_def)
  have e: "expected_signature toy_hash ''k'' ''order_1'' [CHR 0xFF] =
           expected_signature (cfg_sha256 cfg_witness) (os_Getenv (cfg_env cfg_witness) ''RAZORPAY_KEY_SECRET'') ''order_1'' [CHR 0xFF]"
    by (simp add: cfg_witness_def env_k_def)
  have n: "expected_signature toy_hash ''k'' ''order_1'' [CHR 0xFF] \<noteq> []"
    by (simp add: expected_signature_def fips_HMAC_def Let_def)
  show ?thesis
    using k serve_callback_reads_back [OF k e n]
    by (simp only: json_echo_FF json_echo_valid valid_utf8_witness_ids simp_thms)
qed


text \<open>Witness for C27: an order with amount 5000 and no id.\<close>

theorem serve_create_order_bytes_witness:
  "cfg_gateway cfg_order_witness \<lparr>client_key = os_Getenv (cfg_env cfg_order_witness) ''RAZORPAY_KEY_ID'',
      client_secret = os_Getenv (cfg_env cfg_order_witness) ''RAZORPAY_KEY_SECRET''\<rparr> order_data =
     Inr (Map.empty(''amount'' \<mapsto> JInt 5000)) \<and>
   wire_body (resp_body (serve cfg_order_witness (new_request ''POST'' ''/create-order'' (Inr [])))) =
     ''{\"amount\":5000,\"id\":null,\"key\":\"rzp_test_1\"}''"
proof -
  have h: "cfg_gateway cfg_order_witness \<lparr>client_key = os_Getenv (cfg_env cfg_order_witness) ''RAZORPAY_KEY_ID'',
      client_secret = os_Getenv (cfg_env cfg_order_witness) ''RAZORPAY_KEY_SECRET''\<rparr> order_data =
     Inr (Map.empty(''amount'' \<mapsto> JInt 5000))"
    by (simp add: cfg_order_witness_def gateway_no_id_def)
  show ?thesis
    using h serve_create_order_bytes [OF h, of "Inr []"]
    by (simp add: cfg_order_witness_def env_keys_def go_map_get_def go_itoa_def nat_digits.simps hextable_def
        json_string_plain html_safe_def dquote_def backslash_def)
qed

end
