(* ===== verification/Spec2Isabelle.thy ===== *)
theory Spec2Isabelle
  imports Wire
begin

text \<open>
  \<^bold>\<open>A verified model of the Razorpay payment back end (src/main.go).\<close>

  \<^medskip>\<^bold>\<open>The program.\<close>  One Go file.  \<open>main\<close> (lines 19--34) loads
  \<open>.env\<close> with godotenv, exits with \<open>Error loading .env file\<close> if that fails,
  builds a gin engine, installs \<open>corsMiddleware\<close> (lines 37--50) for every
  request, registers \<open>POST /create-order\<close> to \<open>createRazorpayOrder\<close>
  (lines 52--76) and \<open>POST /payment-callback\<close> to \<open>PaymentGatewayCallback\<close>
  (lines 84--137), and listens on \<open>:8080\<close>.  The order handler asks the
  Razorpay gateway for an order of 5000 paise and returns its id and amount
  with the public key id.  The callback handler reads the form-encoded body,
  parses it with \<open>url.ParseQuery\<close>, extracts the three fields of the
  \<open>Payment\<close> struct (lines 78--82), and checks the signature with
  \<open>verifyRazorpaySignature\<close> (lines 139--144): HMAC-SHA256 of
  \<open>orderID|paymentID\<close> under \<open>RAZORPAY_KEY_SECRET\<close>, hex-encoded and compared
  with \<open>hmac.Equal\<close>.

  \<^medskip>\<^bold>\<open>Theories.\<close>
  \<^item> \<open>Prelude\<close>: the collections \<open>go_defs\<close> and \<open>ctx_simps\<close>; bytes as
    \<open>8 word\<close>, Go's \<open>[]byte(s)\<close> as \<open>bytes_of\<close>, \<open>os.Getenv\<close> as
    \<open>os_Getenv\<close> (unset is the empty string), slice indexing with its panic
    as \<open>go_index\<close>, and the word and list lemmas the components share.
  \<^item> \<open>Go_Hex\<close>: \<open>hex.EncodeToString\<close> nibble by nibble, with a decoder and
    the round trip.
  \<^item> \<open>Go_Subtle\<close>: \<open>subtle.ConstantTimeByteEq\<close> on 32-bit words with the
    wrap-around of \<open>uint32(x^y) - 1\<close>, the loop of
    \<open>ConstantTimeCompare\<close> as a terminating \<open>function\<close> that also returns
    the positions it reads, and \<open>hmac.Equal\<close>.
  \<^item> \<open>Go_Hmac\<close>: \<open>hmac.New\<close>, \<open>Write\<close>, \<open>Sum\<close> of crypto/hmac over a hash
    given as an interface record \<open>hash_fn\<close> (block size, digest size, digest
    function), the FIPS 198-1 definition \<open>fips_HMAC\<close>, and the refinement
    of the streaming calls to it.
  \<^item> \<open>Go_Sha256\<close>: SHA-256 as crypto/sha256 computes it (\<open>checkSum\<close>'s
    padding, \<open>blockGeneric\<close>'s schedule and 64 rounds on \<open>32 word\<close>), the
    instance \<open>sha256_hash\<close> of the interface, the bounds of the padding and
    of the digest, and the FIPS 180-4 test vector for \<open>abc\<close>.
  \<^item> \<open>Signature\<close>: the message \<open>orderID|paymentID\<close>,
    \<open>computedSignature\<close> and \<open>verifyRazorpaySignature\<close>
    (lines 139--144) and their correctness against the expected signature.
  \<^item> \<open>Go_Url\<close>: \<open>url.ParseQuery\<close> and \<open>QueryUnescape\<close> of net/url, the loop
    over \<open>&\<close>-separated pairs as a \<open>function\<close> terminating on the length of
    the rest of the query, the semicolon error, and form encoding with the
    round trip \<open>ParseQuery (form_encode ps)\<close>.
  \<^item> \<open>Gin_Context\<close>: the state \<open>gin_ctx\<close> of one request (request, response
    headers, status and body, abort flag, body closed, standard output, and
    the calls made to the gateway), JSON values, and \<open>c.JSON\<close>,
    \<open>c.AbortWithStatus\<close>, \<open>Header().Set\<close>, \<open>fmt.Println\<close>, \<open>Body.Close\<close>.
    A handler returns \<open>Inr\<close> its final context or \<open>Inl\<close> a panic.
  \<^item> \<open>Callback\<close>: \<open>Payment\<close>, \<open>required_field\<close> (the pattern of lines
    103--119, including the \<open>v[0]\<close> that would panic on an empty slice),
    \<open>callback_parsed\<close> (lines 95--136) and \<open>PaymentGatewayCallback\<close> (lines
    84--137, with the deferred \<open>Close\<close>); the specification
    \<open>callback_spec\<close> of what a callback must be answered, and the
    refinement of the handler to it.
  \<^item> \<open>Order\<close>: the Razorpay client, the order payload and
    \<open>createRazorpayOrder\<close>, with the gateway an interface function
    (\<open>order_gateway\<close>) from client and payload to an error or an order.
  \<^item> \<open>Server\<close>: \<open>corsMiddleware\<close> with \<open>c.Next()\<close> as a continuation, the
    route table, gin's dispatch with the trailing-slash redirect, \<open>Logger\<close>,
    \<open>Recovery\<close> and 404, as \<open>serve\<close>, and \<open>main\<close>, which configures
    crypto/sha256.
  \<^item> \<open>Process\<close>: the process as a sequence of requests sharing standard
    output and the gateway's call log (\<open>handle\<close>, \<open>serve_all\<close>), the
    inductive step relation \<open>reachable\<close>, and invariants proved by rule
    induction and by induction on the run.
  \<^item> \<open>Go_Io\<close>: \<open>io.ReadAll\<close> over a body reader (the \<open>i\<close>-th \<open>Read\<close>
    gives bytes and no error, \<open>EOF\<close> or an error) as a
    \<open>partial_function (option)\<close>, with the proof that it returns exactly
    when some read reports an error or \<open>EOF\<close>, and what it returns.
  \<^item> \<open>Http_Api\<close>: \<open>serve_io\<close>, a request whose body is a stream, read
    where the callback handler reads it (line 87); and the response contract
    of the spec, \<open>documented_response\<close>.
  \<^item> \<open>Go_Json\<close>: encoding/json's \<open>Marshal\<close> as gin's \<open>c.JSON\<close> writes a
    body: \<open>utf8.DecodeRuneInString\<close>, the HTML-safe string escaper
    \<open>appendString\<close> (\<open>json_esc\<close>), struct fields in declaration order and
    map keys sorted; a reference reader of JSON strings (\<open>json_token\<close>),
    with the proof that it reads back \<open>json_echo s\<close> (\<open>s\<close> with invalid
    UTF-8 replaced by U+FFFD) from the escape of \<open>s\<close>, and the bounds of
    the escape.
  \<^item> \<open>Wire\<close>: the bytes of a response (\<open>wire_body\<close>), the routing
    lemmas of whole requests, and a client reader of the callback's
    \<open>{"paymentData":{...}}\<close> answer.
  \<^item> this theory: properties of whole requests through \<open>serve\<close>.

  \<^medskip>\<^bold>\<open>What is proved.\<close>  The signature check accepts exactly the lowercase
  hex of the FIPS 198-1 HMAC of \<open>orderID|paymentID\<close> under the secret, and
  so at most one signature per payment; the comparison of line 143 is
  oblivious (the positions it reads depend only on the lengths, which a
  short-circuiting \<open>==\<close> would not satisfy).  The callback handler
  refines its specification on every branch (unreadable, unparseable, each
  missing field in order, rejected, accepted), never panics, takes the first
  of repeated values, prints the raw body and closes it.  The order handler
  calls the gateway exactly once, passes gateway errors through as 500, and
  returns the key id verbatim, also when the gateway's order has no id.
  Every response that is not a redirect carries the CORS headers;
  preflights are answered 200 by
  the middleware alone; start-up fails exactly when \<open>.env\<close> cannot be
  loaded and otherwise configures crypto/sha256 and lets the process
  environment win.
  Over any run of requests the gateway is called exactly once per order
  request with the configured credentials, exactly one line is printed per
  readable callback, gin's Logger writes one access-log line per request
  that is not redirected, and every request is answered with a status.
  With the body a stream, a read that fails, even after part of the body
  arrived, is answered 500 with nothing printed, and every request gin
  does not redirect gets one of the responses the spec documents for its
  endpoint (404 on the unknown routes).
  End to end, a genuine callback is accepted and a forged one rejected,
  whatever the secret, also the empty one an unset
  \<open>RAZORPAY_KEY_SECRET\<close> gives.
  gin answers \<open>POST /create-order/\<close> and \<open>POST /payment-callback/\<close> with
  a 307 redirect before any middleware, so these answers carry no CORS
  header and leave no access-log line; every other answer carries the CORS
  headers.
  On the bytes sent: no answer contains a control byte or \<open><\<close>, \<open>>\<close>,
  \<open>&\<close>; a client reading an accepted callback's answer gets back the three
  values it sent with each byte of an id that is not valid UTF-8 replaced
  by U+FFFD; the order answer lists its keys sorted (\<open>amount\<close>,
  \<open>id\<close>, \<open>key\<close>).

  \<^medskip>\<^bold>\<open>Bounds and hypotheses.\<close>  No fuel is used: every loop of the model
  (\<open>ct_loop\<close>, \<open>parseQuery\<close>, the hex and form encoders, the JSON
  escaper and reader, which step over a whole UTF-8 sequence) is a terminating
  recursion, except the read loop of \<open>io.ReadAll\<close>, which really may not
  end and is a \<open>partial_function (option)\<close> whose termination is proved
  exactly for the readers that eventually report \<open>EOF\<close> or an error.
  SHA-256's block loop recurses on the length of the rest of the message and
  its schedule on a count of 48.  The components take the hash as a
  parameter \<open>hash_fn\<close>, and their theorems hold for every hash with the one
  hypothesis \<open>key_digest_fits\<close> (a secret longer than a block hashes to a
  digest that fits a block); \<open>main\<close> configures SHA-256, for which the
  hypothesis holds for every secret (32-byte digest, 64-byte block,
  \<open>sha256_digest_fits_block\<close>).
  Most witnesses use a toy hash with a 4-byte block and a 1-byte digest,
  since evaluating SHA-256 by the simplifier takes about a minute and a half
  per block; the one evaluation of SHA-256 kept is the test vector.

  \<^medskip>\<^bold>\<open>Not modelled.\<close>  The Razorpay
  HTTP client (the \<open>order_gateway\<close> interface); godotenv's file parser (its
  result is an input of \<open>main\<close>); the time stamp, latency and client
  address of gin's access-log lines (they come from outside the program);
  socket handling,
  the goroutine per connection (requests are modelled one after another; the
  handlers share no state but standard output and the gateway); the HTML
  body \<open>http.Redirect\<close> writes for a redirected \<open>GET\<close> (no \<open>GET\<close> route
  is registered, so no \<open>GET\<close> is redirected), the
  \<open>X-Forwarded-Prefix\<close> header and the query string gin carries into a
  redirect's \<open>Location\<close> (requests are a method, a path and a body), and
  gin's debug-mode "redirecting request" line (release mode is assumed:
  standard output holds what \<open>fmt.Println\<close> and the Logger write); the
  error \<open>router.Run\<close> returns when it cannot listen, which \<open>main\<close> ignores
  (\<open>startup\<close> records only the address); floating-point numbers in JSON (the gateway's
  amount is an \<open>interface{}\<close> that encoding/json decodes as \<open>float64\<close>;
  the model keeps integers, \<open>JInt\<close>, written in decimal, which agrees for
  the integral amounts the gateway returns); JSON decoding of the
  gateway's answer (part of the Razorpay client).  Strings are byte strings,
  as Go's are; UTF-8 is decoded only where encoding/json decodes it.
\<close>

subsection \<open>Properties of the whole server\<close>

text \<open>C17: end to end, a callback whose form body carries a payment id, an
  order id and the signature the gateway computes with the configured secret
  is answered 200 by the running server, echoing the three values under
  \<open>paymentData\<close>.\<close>
theorem serve_accepts_genuine_callback:
  assumes "key_digest_fits (cfg_sha256 cfg) (os_Getenv (cfg_env cfg) ''RAZORPAY_KEY_SECRET'')"
    and "s = expected_signature (cfg_sha256 cfg) (os_Getenv (cfg_env cfg) ''RAZORPAY_KEY_SECRET'') (r # rs) (p # ps)"
    and "s \<noteq> []"
  shows "resp_status (serve cfg (callback_request (p # ps) (r # rs) s)) = Some 200 \<and>
         resp_body (serve cfg (callback_request (p # ps) (r # rs) s)) =
           Some (BodyJSON (JMap [(''paymentData'', JObj [(''razorpay_payment_id'', JStr (p # ps)),
              (''razorpay_order_id'', JStr (r # rs)), (''razorpay_signature'', JStr s)])]))"
  using serve_callback_spec [of "callback_request (p # ps) (r # rs) s" cfg] assms
  by (simp add: new_request_def callback_spec_form payment_json_def del: form_encode.simps)

text \<open>C18: end to end, a callback whose (non-empty) signature is not the one
  computed with the configured secret is answered 400 "failed to verify".\<close>
theorem serve_rejects_forged_callback:
  assumes "key_digest_fits (cfg_sha256 cfg) (os_Getenv (cfg_env cfg) ''RAZORPAY_KEY_SECRET'')"
    and "s \<noteq> expected_signature (cfg_sha256 cfg) (os_Getenv (cfg_env cfg) ''RAZORPAY_KEY_SECRET'') (r # rs) (p # ps)"
    and "s \<noteq> []"
  shows "resp_status (serve cfg (callback_request (p # ps) (r # rs) s)) = Some 400 \<and>
         resp_body (serve cfg (callback_request (p # ps) (r # rs) s)) =
           Some (BodyJSON (JMap [(''error'', JStr ''failed to verify'')]))"
  using serve_callback_spec [of "callback_request (p # ps) (r # rs) s" cfg] assms
  by (simp add: new_request_def callback_spec_form gin_H_error_def del: form_encode.simps)


text \<open>Witness for C17: the toy hash and the secret \<open>k\<close>.\<close>

theorem serve_accepts_genuine_callback_witness:
  "key_digest_fits (cfg_sha256 cfg_witness) (os_Getenv (cfg_env cfg_witness) ''RAZORPAY_KEY_SECRET'') \<and>
   resp_status (serve cfg_witness (callback_request ''pay_1'' ''order_1''
     (expected_signature toy_hash ''k'' ''order_1'' ''pay_1''))) = Some 200"
proof -
  have k: "key_digest_fits (cfg_sha256 cfg_witness) (os_Getenv (cfg_env cfg_witness) ''RAZORPAY_KEY_SECRET'')"
    by (simp add: cfg_witness_def env_k_def key_digest_fits_def)
  have e: "expected_signature toy_hash ''k'' ''order_1'' ''pay_1'' =
           expected_signature (cfg_sha256 cfg_witness) (os_Getenv (cfg_env cfg_witness) ''RAZORPAY_KEY_SECRET'') ''order_1'' ''pay_1''"
    by (simp add: cfg_witness_def env_k_def)
  have n: "expected_signature toy_hash ''k'' ''order_1'' ''pay_1'' \<noteq> []"
    by (simp add: expected_signature_def fips_HMAC_def Let_def)
  show ?thesis
    using k serve_accepts_genuine_callback [OF k e n] by simp
qed

text \<open>Witness for C18: a signature with letters that are not hex digits.\<close>

theorem serve_rejects_forged_callback_witness:
  "key_digest_fits (cfg_sha256 cfg_witness) (os_Getenv (cfg_env cfg_witness) ''RAZORPAY_KEY_SECRET'') \<and>
   resp_status (serve cfg_witness (callback_request ''pay_1'' ''order_1'' ''zz'')) = Some 400"
proof -
  have k: "key_digest_fits (cfg_sha256 cfg_witness) (os_Getenv (cfg_env cfg_witness) ''RAZORPAY_KEY_SECRET'')"
    by (simp add: cfg_witness_def env_k_def key_digest_fits_def)
  have "CHR ''z'' \<notin> set (expected_signature (cfg_sha256 cfg_witness)
          (os_Getenv (cfg_env cfg_witness) ''RAZORPAY_KEY_SECRET'') ''order_1'' ''pay_1'')"
    using set_hex_EncodeToString by (force simp: expected_signature_def hextable_def)
  then have e: "''zz'' \<noteq> expected_signature (cfg_sha256 cfg_witness)
          (os_Getenv (cfg_env cfg_witness) ''RAZORPAY_KEY_SECRET'') ''order_1'' ''pay_1''"
    by (metis list.set_intros(1))
  have n: "''zz'' \<noteq> []" by simp
  show ?thesis
    using k serve_rejects_forged_callback [OF k e n] by simp
qed


end
